(* ===== verification/Prelude.thy ===== *)
theory Prelude
  imports Main "HOL-Library.Sublist"
begin

text \<open>
  Shared vocabulary of the development.  A JavaScript function that may throw is
  modelled as a HOL function into \<open>'e + 'a\<close>: \<open>Inl e\<close> is the exception \<open>e\<close>,
  \<open>Inr a\<close> the returned value.  \<open>map_res\<close> is \<open>Array.prototype.map\<close> with a
  callback that may throw: the elements are visited left to right and the first
  exception escapes.  The collections \<open>jsval_simps\<close> and \<open>parser_simps\<close> gather
  the evaluation equations the component theories register, so that the proofs
  of a component say \<open>simp add: parser_simps\<close> instead of listing them.
\<close>

named_theorems jsval_simps "evaluation equations of the JavaScript value model"
named_theorems parser_simps "evaluation equations of the query parser's helpers"

primrec map_res :: "('a \<Rightarrow> 'e + 'b) \<Rightarrow> 'a list \<Rightarrow> 'e + 'b list" where
  "map_res f [] = Inr []"
| "map_res f (x # xs) =
     (case f x of
        Inl e \<Rightarrow> Inl e
      | Inr y \<Rightarrow> (case map_res f xs of Inl e \<Rightarrow> Inl e | Inr ys \<Rightarrow> Inr (y # ys)))"

lemma map_res_Inr_iff:
  "map_res f xs = Inr ys \<longleftrightarrow> list_all2 (\<lambda>x y. f x = Inr y) xs ys"
proof (induction xs arbitrary: ys)
  case Nil
  then show ?case by auto
next
  case (Cons x xs)
  show ?case
  proof
    assume "map_res f (x # xs) = Inr ys"
    then show "list_all2 (\<lambda>x y. f x = Inr y) (x # xs) ys"
      using Cons.IH by (auto split: sum.splits)
  next
    assume "list_all2 (\<lambda>x y. f x = Inr y) (x # xs) ys"
    then obtain y zs where "ys = y # zs" "f x = Inr y" "list_all2 (\<lambda>x y. f x = Inr y) xs zs"
      by (auto simp: list_all2_Cons1)
    moreover from this(3) Cons.IH have "map_res f xs = Inr zs" by simp
    ultimately show "map_res f (x # xs) = Inr ys" by simp
  qed
qed

lemma map_res_Inr_length: "map_res f xs = Inr ys \<Longrightarrow> length ys = length xs"
  by (auto simp: map_res_Inr_iff dest: list_all2_lengthD)

lemma map_res_total: "(\<And>x. x \<in> set xs \<Longrightarrow> f x = Inr (g x)) \<Longrightarrow> map_res f xs = Inr (map g xs)"
  by (induction xs) auto

lemma map_res_Inl_ex: "map_res f xs = Inl e \<Longrightarrow> \<exists>x \<in> set xs. f x = Inl e"
  by (induction xs) (auto split: sum.splits)

lemma sum_case_Inl_Inr_id [simp]: "(case m of Inl e \<Rightarrow> Inl e | Inr a \<Rightarrow> Inr a) = m"
  by (cases m) simp_all

lemma map_sum_id_eq_Inr_iff [simp]: "map_sum id f m = Inr y \<longleftrightarrow> (\<exists>x. m = Inr x \<and> y = f x)"
  by (cases m) auto

lemma map_sum_id_eq_Inl_iff [simp]: "map_sum id f m = Inl e \<longleftrightarrow> m = Inl e"
  by (cases m) auto

text \<open>List facts the component proofs share.\<close>

lemma filter_filter_same [simp]: "filter P (filter P xs) = filter P xs"
  by (induction xs) simp_all

lemma concat_map_singleton [simp]: "concat (map (\<lambda>x. [f x]) xs) = map f xs"
  by (induction xs) simp_all

lemma concat_map_Nil [simp]: "concat (map (\<lambda>x. []) xs) = []"
  by (induction xs) simp_all

lemma length_le_sum_list: "x \<in> set xs \<Longrightarrow> length x \<le> sum_list (map length xs)"
  by (induction xs) auto

lemma filter_neq_notin: "x \<notin> set (filter (\<lambda>y. y \<notin> S) xs) \<longleftrightarrow> x \<notin> set xs \<or> x \<in> S"
  by auto

text \<open>The greatest element of a list of naturals, \<open>0\<close> for none.\<close>

lemma Max_zero_le_iff [simp]: "Max (set (0 # ys)) \<le> (n :: nat) \<longleftrightarrow> (\<forall>y \<in> set ys. y \<le> n)"
  by simp

lemma Max_map_ge: "y \<in> set ys \<Longrightarrow> f y \<le> Max (set (0 # map f ys) :: nat set)"
  by (simp add: rev_image_eqI)

lemma Max_zero_less_iff: "Max (set (0 # ys)) < (n :: nat) \<longleftrightarrow> 0 < n \<and> (\<forall>y \<in> set ys. y < n)"
  by auto

text \<open>A subsequence of a list without repetitions has none.\<close>

lemma subseq_distinct: "subseq xs ys \<Longrightarrow> distinct ys \<Longrightarrow> distinct xs"
  by (induction rule: list_emb.induct) (auto dest: list_emb_set)

text \<open>Two filters of one list agree exactly when their tests agree on it.\<close>

lemma filter_eq_iff_on: "filter P xs = filter Q xs \<longleftrightarrow> (\<forall>x \<in> set xs. P x = Q x)"
proof
  show "filter P xs = filter Q xs \<Longrightarrow> \<forall>x \<in> set xs. P x = Q x"
  proof (induction xs)
    case (Cons a xs)
    have "P a = Q a"
    proof (cases "P a"; cases "Q a")
      assume "P a" "\<not> Q a"
      then have "a # filter P xs = filter Q xs" using Cons.prems by simp
      then have "a \<in> set (filter Q xs)" by (metis list.set_intros(1))
      with \<open>\<not> Q a\<close> show ?thesis by simp
    next
      assume "\<not> P a" "Q a"
      then have "filter P xs = a # filter Q xs" using Cons.prems by simp
      then have "a \<in> set (filter P xs)" by (metis list.set_intros(1))
      with \<open>\<not> P a\<close> show ?thesis by simp
    qed simp_all
    moreover have "filter P xs = filter Q xs"
      using Cons.prems \<open>P a = Q a\<close> by (cases "P a") simp_all
    ultimately show ?case using Cons.IH by (metis set_ConsD)
  qed simp
next
  show "\<forall>x \<in> set xs. P x = Q x \<Longrightarrow> filter P xs = filter Q xs" by (rule filter_cong) simp_all
qed

text \<open>Quantifiers over two lists related element by element.\<close>

lemma list_all2_ball_iff:
  "list_all2 P xs ys \<Longrightarrow> (\<And>x y. P x y \<Longrightarrow> Q x \<longleftrightarrow> R y) \<Longrightarrow> (\<forall>x \<in> set xs. Q x) \<longleftrightarrow> (\<forall>y \<in> set ys. R y)"
  by (induction xs ys rule: list_all2_induct) auto

lemma list_all2_bex_iff:
  "list_all2 P xs ys \<Longrightarrow> (\<And>x y. P x y \<Longrightarrow> Q x \<longleftrightarrow> R y) \<Longrightarrow> (\<exists>x \<in> set xs. Q x) \<longleftrightarrow> (\<exists>y \<in> set ys. R y)"
  by (induction xs ys rule: list_all2_induct) auto

lemma list_all2_setD2: "list_all2 P xs ys \<Longrightarrow> y \<in> set ys \<Longrightarrow> \<exists>x \<in> set xs. P x y"
  by (induction xs ys rule: list_all2_induct) auto

lemma list_all2_setD1: "list_all2 P xs ys \<Longrightarrow> x \<in> set xs \<Longrightarrow> \<exists>y \<in> set ys. P x y"
  by (induction xs ys rule: list_all2_induct) auto

end
