(* ===== verification/JsValue.thy ===== *)
theory JsValue
  imports Prelude "HOL-Library.Sublist"
begin

text \<open>
  The JavaScript values the query parser reads and builds.  A filter arrives as a
  JSON-like value: objects are association lists in \<open>Object.entries\<close> order (keys
  assumed distinct, as in a JavaScript object), numbers are integers (the parser
  never computes with them), strings are \<open>char\<close> lists.  The theory gives
  \<open>getType\<close> of \<open>@keystonejs/utils\<close>, JavaScript truthiness (the parser's
  \<open>if (value.id)\<close> and \<open>.filter(x => x)\<close>), property lookup, the path of a
  sub-filter with its \<open>join('.')\<close> rendering, \<open>String.prototype.replace\<close> with a
  string pattern, and the exceptions the parser can raise.
\<close>

datatype jval =
    JUndefined
  | JNull
  | JBool bool
  | JNum int
  | JStr string
  | JArr "jval list"
  | JObj "(string \<times> jval) list"

text \<open>
  \<open>getType\<close> is \<open>Object.prototype.toString.call(x)\<close> with the brackets cut off.
\<close>

fun get_type :: "jval \<Rightarrow> string" where
  "get_type JUndefined = ''Undefined''"
| "get_type JNull = ''Null''"
| "get_type (JBool _) = ''Boolean''"
| "get_type (JNum _) = ''Number''"
| "get_type (JStr _) = ''String''"
| "get_type (JArr _) = ''Array''"
| "get_type (JObj _) = ''Object''"

fun truthy :: "jval \<Rightarrow> bool" where
  "truthy JUndefined = False"
| "truthy JNull = False"
| "truthy (JBool b) = b"
| "truthy (JNum n) = (n \<noteq> 0)"
| "truthy (JStr s) = (s \<noteq> [])"
| "truthy (JArr _) = True"
| "truthy (JObj _) = True"

text \<open>\<open>value.k\<close> on an object; a missing property reads as \<open>undefined\<close>.\<close>

fun js_get :: "jval \<Rightarrow> string \<Rightarrow> jval" where
  "js_get (JObj kvs) k = (case map_of kvs k of None \<Rightarrow> JUndefined | Some v \<Rightarrow> v)"
| "js_get _ k = JUndefined"

text \<open>\<open>Object.keys(value)\<close>, used by the parser on objects only.\<close>

fun obj_keys :: "jval \<Rightarrow> string list" where
  "obj_keys (JObj kvs) = map fst kvs"
| "obj_keys _ = []"

text \<open>A size that counts every value once; the parser's recursion decreases it.\<close>

fun jsize :: "jval \<Rightarrow> nat" where
  "jsize (JArr xs) = Suc (sum_list (map jsize xs))"
| "jsize (JObj kvs) = Suc (sum_list (map (jsize \<circ> snd) kvs))"
| "jsize _ = 1"

lemma jsize_pos [simp]: "0 < jsize v"
  by (cases v) simp_all

text \<open>The nesting depth of a value: objects and arrays add one level.\<close>

fun jdepth :: "jval \<Rightarrow> nat" where
  "jdepth (JArr xs) = Suc (Max (set (0 # map jdepth xs)))"
| "jdepth (JObj kvs) = Suc (Max (set (0 # map (jdepth \<circ> snd) kvs)))"
| "jdepth _ = 0"

text \<open>The number of objects in a value, the value itself included.\<close>

fun jobjs :: "jval \<Rightarrow> nat" where
  "jobjs (JObj kvs) = Suc (sum_list (map (jobjs \<circ> snd) kvs))"
| "jobjs (JArr xs) = sum_list (map jobjs xs)"
| "jobjs _ = 0"

lemma jdepth_entry_le: "(k, x) \<in> set kvs \<Longrightarrow> jdepth x \<le> Max (set (0 # map (jdepth \<circ> snd) kvs))"
proof -
  assume "(k, x) \<in> set kvs"
  then have "jdepth x \<in> set (0 # map (jdepth \<circ> snd) kvs)" by (auto intro: rev_image_eqI)
  then show ?thesis by simp
qed

subsection \<open>Paths\<close>

text \<open>
  \<open>pathSoFar\<close> holds the keys walked so far and, under \<open>AND\<close>/\<open>OR\<close>, the
  array index of the sub-filter.  \<open>join('.')\<close> prints an index in decimal.
\<close>

datatype path_elem = PKey string | PIdx nat

type_synonym path = "path_elem list"

fun digit_char :: "nat \<Rightarrow> char" where
  "digit_char d = char_of (48 + d)"

fun nat_to_string :: "nat \<Rightarrow> string" where
  "nat_to_string n =
     (if n < 10 then [digit_char n] else nat_to_string (n div 10) @ [digit_char (n mod 10)])"

declare nat_to_string.simps [simp del]

fun path_elem_str :: "path_elem \<Rightarrow> string" where
  "path_elem_str (PKey k) = k"
| "path_elem_str (PIdx i) = nat_to_string i"

text \<open>\<open>Array.prototype.join(sep)\<close> on strings.\<close>

fun js_join :: "string \<Rightarrow> string list \<Rightarrow> string" where
  "js_join sep [] = []"
| "js_join sep [x] = x"
| "js_join sep (x # y # zs) = x @ sep @ js_join sep (y # zs)"

definition path_join :: "path \<Rightarrow> string" where
  "path_join p = js_join ''.'' (map path_elem_str p)"

lemma nat_to_string_nonempty: "nat_to_string n \<noteq> []"
  by (subst nat_to_string.simps) simp

lemma path_join_Nil [simp]: "path_join [] = []"
  by (simp add: path_join_def)

subsection \<open>String.prototype.replace with a string pattern\<close>

text \<open>
  \<open>s.replace(pat, r)\<close> replaces the first occurrence of \<open>pat\<close> only; the empty
  pattern occurs at position 0.  The replacement strings used here contain no
  \<open>$\<close> patterns.
\<close>

fun js_replace :: "string \<Rightarrow> string \<Rightarrow> string \<Rightarrow> string" where
  "js_replace [] pat r = (if pat = [] then r else [])"
| "js_replace (c # cs) pat r =
     (if prefix pat (c # cs) then r @ drop (length pat) (c # cs) else c # js_replace cs pat r)"

lemma js_replace_prefix [jsval_simps]: "js_replace (pat @ s) pat r = r @ s"
proof (cases "pat @ s")
  case Nil
  then show ?thesis by simp
next
  case (Cons c cs)
  have "prefix pat (pat @ s)" by (rule prefixI) simp
  with Cons show ?thesis by (metis append_eq_conv_conj js_replace.simps(2))
qed

lemma js_replace_same [jsval_simps]: "js_replace pat pat r = r"
  using js_replace_prefix [of pat "[]" r] by simp

lemma js_replace_absent:
  "\<not> sublist pat s \<Longrightarrow> js_replace s pat r = s"
proof (induction s)
  case Nil
  then show ?case by auto
next
  case (Cons c cs)
  have "\<not> prefix pat (c # cs)"
    using Cons.prems prefix_imp_sublist by blast
  moreover have "\<not> sublist pat cs"
    using Cons.prems by (simp add: sublist_Cons_right)
  ultimately show ?case using Cons.IH by simp
qed

subsection \<open>Exceptions\<close>

text \<open>
  \<open>QueryError msg\<close> is the parser's own \<open>new Error(msg)\<close>; \<open>TypeError msg\<close> is a
  runtime TypeError (calling \<open>.map\<close> on a value that is not an array);
  \<open>CollaboratorError msg\<close> is whatever a tokenizer or the ObjectId constructor
  throws, propagated unchanged.
\<close>

datatype error =
    QueryError string
  | TypeError string
  | CollaboratorError string

end
