(* ===== verification/Joiner.thy ===== *)
theory Joiner
  imports JsValue
begin

text \<open>
  The parse results and the term joiner of \<open>query-parser.js\<close> (lines 6--17 of
  both variants).  A per-key result is a \<open>flat_query\<close>: the object literal
  \<open>{matchTerm, postJoinPipeline, relationships}\<close> with a missing key read as
  \<open>undefined\<close> or \<open>[]\<close>, which is what \<open>q.postJoinPipeline || []\<close> does.  The
  value \<open>queryParser\<close> returns is the same object extended by
  \<open>excludeFields\<close>, so \<open>parse_result\<close> is a record extension of
  \<open>flat_query\<close>, exactly the spread \<open>{...flatQueries, excludeFields}\<close>.  A
  relationship branch \<open>{relationshipInfo, ...queryParser(...)}\<close> is a
  \<open>rel_entry\<close>, recursive through its own \<open>relationships\<close>.

  \<open>relationshipInfo\<close> is produced by the relationship tokenizer, which is not part
  of the sources; it is modelled from the specification as the related field's
  name, its cardinality and the correlation token.
\<close>

record rel_info =
  ri_field :: string
  ri_many :: bool
  ri_uid :: string

datatype rel_entry =
  RelEntry (re_info: rel_info) (re_matchTerm: jval) (re_postJoinPipeline: "jval list")
    (re_relationships: "rel_entry list") (re_excludeFields: "string list")

record flat_query =
  matchTerm :: jval
  postJoinPipeline :: "jval list"
  relationships :: "rel_entry list"

record parse_result = flat_query +
  excludeFields :: "string list"

text \<open>\<open>{ relationshipInfo, ...queryParser(...) }\<close>\<close>

definition rel_entry_of :: "rel_info \<Rightarrow> parse_result \<Rightarrow> rel_entry" where
  "rel_entry_of info r =
     RelEntry info (matchTerm r) (postJoinPipeline r) (relationships r) (excludeFields r)"

text \<open>The per-key results that carry one component only.\<close>

definition match_only :: "jval \<Rightarrow> flat_query" where
  "match_only t = \<lparr>matchTerm = t, postJoinPipeline = [], relationships = []\<rparr>"

definition pipeline_only :: "jval \<Rightarrow> flat_query" where
  "pipeline_only s = \<lparr>matchTerm = JUndefined, postJoinPipeline = [s], relationships = []\<rparr>"

text \<open>
  The depth of a relationship branch: one for the branch, plus the depth of its
  own branches.
\<close>

fun rel_depth :: "rel_entry \<Rightarrow> nat" where
  "rel_depth (RelEntry i m p rs xs) = Suc (Max (set (0 # map rel_depth rs)))"

definition rels_depth :: "rel_entry list \<Rightarrow> nat" where
  "rels_depth es = Max (set (0 # map rel_depth es))"

text \<open>The correlation tokens of a branch tree, in pre-order.\<close>

fun rel_uids :: "rel_entry \<Rightarrow> string list" where
  "rel_uids (RelEntry i m p rs xs) = ri_uid i # concat (map rel_uids rs)"

definition rels_uids :: "rel_entry list \<Rightarrow> string list" where
  "rels_uids es = concat (map rel_uids es)"

lemma rels_uids_simps [simp]:
  "rels_uids [] = []" "rels_uids (e # es) = rel_uids e @ rels_uids es"
  "rels_uids (es @ fs) = rels_uids es @ rels_uids fs"
  by (simp_all add: rels_uids_def)

lemma rel_uids_RelEntry [simp]: "rel_uids (RelEntry i m p rs xs) = ri_uid i # rels_uids rs"
  by (simp add: rels_uids_def)

declare rel_uids.simps [simp del]

lemma rels_uids_concat [simp]: "rels_uids (concat ess) = concat (map rels_uids ess)"
  by (induction ess) simp_all

subsection \<open>joinTerms and flattenQueries\<close>

text \<open>
  \<open>matchTerms.length > 1 ? { [joinOp]: matchTerms } : matchTerms[0]\<close>; reading
  index 0 of an empty array gives \<open>undefined\<close>.
\<close>

definition join_terms :: "jval list \<Rightarrow> string \<Rightarrow> jval" where
  "join_terms matchTerms joinOp =
     (if 1 < length matchTerms then JObj [(joinOp, JArr matchTerms)]
      else (case matchTerms of [] \<Rightarrow> JUndefined | t # _ \<Rightarrow> t))"

text \<open>
  \<open>flatten\<close> of \<open>@keystonejs/utils\<close> concatenates one level of arrays; every
  element it receives here is an array, so it is \<open>concat\<close>.  Both filters keep
  the truthy values only.
\<close>

definition flatten_queries :: "'a flat_query_scheme list \<Rightarrow> string \<Rightarrow> flat_query" where
  "flatten_queries parsedQueries joinOp =
     \<lparr>matchTerm = join_terms (filter truthy (map matchTerm parsedQueries)) joinOp,
      postJoinPipeline = filter truthy (concat (map postJoinPipeline parsedQueries)),
      relationships = concat (map relationships parsedQueries)\<rparr>"

text \<open>
  adapter-mongoose carries its own copy of the two functions (its lines 6--16), the
  same text as join-builder's.  The walk of both variants is modelled with one joiner;
  \<open>flatten_queries_mg_eq\<close> is what makes this sharing faithful.
\<close>

definition join_terms_mg :: "jval list \<Rightarrow> string \<Rightarrow> jval" where
  "join_terms_mg matchTerms joinOp =
     (if 1 < length matchTerms then JObj [(joinOp, JArr matchTerms)]
      else (case matchTerms of [] \<Rightarrow> JUndefined | t # _ \<Rightarrow> t))"

definition flatten_queries_mg :: "'a flat_query_scheme list \<Rightarrow> string \<Rightarrow> flat_query" where
  "flatten_queries_mg parsedQueries joinOp =
     \<lparr>matchTerm = join_terms_mg (filter truthy (map matchTerm parsedQueries)) joinOp,
      postJoinPipeline = filter truthy (concat (map postJoinPipeline parsedQueries)),
      relationships = concat (map relationships parsedQueries)\<rparr>"

lemma flatten_queries_mg_eq: "flatten_queries_mg = flatten_queries"
  by (simp add: fun_eq_iff flatten_queries_mg_def flatten_queries_def join_terms_mg_def join_terms_def)

lemma flatten_queries_fields [parser_simps]:
  "matchTerm (flatten_queries qs op) = join_terms (filter truthy (map matchTerm qs)) op"
  "postJoinPipeline (flatten_queries qs op) = filter truthy (concat (map postJoinPipeline qs))"
  "relationships (flatten_queries qs op) = concat (map relationships qs)"
  by (simp_all add: flatten_queries_def)

lemma match_only_fields [parser_simps]:
  "matchTerm (match_only t) = t" "postJoinPipeline (match_only t) = []"
  "relationships (match_only t) = []"
  by (simp_all add: match_only_def)

lemma pipeline_only_fields [parser_simps]:
  "matchTerm (pipeline_only s) = JUndefined" "postJoinPipeline (pipeline_only s) = [s]"
  "relationships (pipeline_only s) = []"
  by (simp_all add: pipeline_only_def)

lemma join_terms_simps [parser_simps]:
  "join_terms [] op = JUndefined"
  "join_terms [t] op = t"
  "join_terms (t # u # ts) op = JObj [(op, JArr (t # u # ts))]"
  by (simp_all add: join_terms_def)

text \<open>
  The joined term of truthy terms is \<open>undefined\<close> exactly when there is none, and
  truthy otherwise: the fact that makes flattening idempotent.
\<close>

lemma truthy_join_terms:
  "\<forall>t \<in> set ts. truthy t \<Longrightarrow> truthy (join_terms ts op) \<longleftrightarrow> ts \<noteq> []"
  by (cases ts rule: remdups_adj.cases) (simp_all add: join_terms_simps)

lemma truthy_join_terms_filter:
  "filter truthy ts \<noteq> [] \<Longrightarrow> truthy (join_terms (filter truthy ts) op)"
  using truthy_join_terms [of "filter truthy ts" op] by simp

lemma join_terms_filter_cases:
  "join_terms (filter truthy ts) op = JUndefined \<or> truthy (join_terms (filter truthy ts) op)"
  using truthy_join_terms_filter [of ts op] by (cases "filter truthy ts") (auto simp: join_terms_simps)

lemma filter_truthy_join_terms [simp]:
  "filter truthy [join_terms (filter truthy ts) op] =
     (if filter truthy ts = [] then [] else [join_terms (filter truthy ts) op])"
  using truthy_join_terms_filter [of ts op] by (auto simp: join_terms_simps)

lemma join_terms_filter_single [simp]:
  "join_terms (filter truthy [join_terms (filter truthy ts) op]) op' = join_terms (filter truthy ts) op"
  by (cases "filter truthy ts = []") (simp_all add: join_terms_simps truthy_join_terms_filter)

lemma flatten_queries_nested [simp]:
  "flatten_queries [flatten_queries qs op] op' = flatten_queries qs op"
  by (cases "filter truthy (map matchTerm qs) = []")
    (simp_all add: flatten_queries_def join_terms_simps truthy_join_terms_filter)

lemma parse_result_extend_fields [simp]:
  "excludeFields (flat_query.extend q \<lparr>excludeFields = xs\<rparr>) = xs"
  "matchTerm (flat_query.extend q \<lparr>excludeFields = xs\<rparr>) = matchTerm q"
  "postJoinPipeline (flat_query.extend q \<lparr>excludeFields = xs\<rparr>) = postJoinPipeline q"
  "relationships (flat_query.extend q \<lparr>excludeFields = xs\<rparr>) = relationships q"
  by (simp_all add: flat_query.defs)

subsection \<open>Properties of the joiner\<close>

text \<open>
  The joiner's contract in the specification (section 4.2): absent terms are
  dropped; none left is no constraint, one is returned unwrapped, more are wrapped
  in the combinator.
\<close>

definition join_spec :: "jval list \<Rightarrow> string \<Rightarrow> jval option" where
  "join_spec terms combinator =
     (case filter truthy terms of
        [] \<Rightarrow> None
      | [t] \<Rightarrow> Some t
      | ts \<Rightarrow> Some (JObj [(combinator, JArr ts)]))"

text \<open>
  C8: Flattening a single result that is already flat (its match term absent or a
  predicate, its pipeline free of empty stages) returns it unchanged: flattening is
  idempotent (specification section 8).
\<close>

theorem flatten_queries_fixpoint:
  assumes "matchTerm q = JUndefined \<or> truthy (matchTerm q)"
    and "\<forall>s \<in> set (postJoinPipeline q). truthy s"
  shows "flatten_queries [q] op = q"
proof -
  have "join_terms (filter truthy [matchTerm q]) op = matchTerm q"
    using assms(1) by (auto simp: join_terms_simps)
  moreover have "filter truthy (postJoinPipeline q) = postJoinPipeline q"
    using assms(2) by (rule filter_True)
  ultimately show ?thesis by (simp add: flatten_queries_def)
qed

theorem flatten_queries_fixpoint_witness:
  "flatten_queries [\<lparr>matchTerm = JObj [(''a'', JNum 1)], postJoinPipeline = [JObj [(''$skip'', JNum 2)]],
                     relationships = []\<rparr>] ''$and'' =
   \<lparr>matchTerm = JObj [(''a'', JNum 1)], postJoinPipeline = [JObj [(''$skip'', JNum 2)]], relationships = []\<rparr>"
  by (rule flatten_queries_fixpoint) simp_all

text \<open>
  C9: The match term \<open>flattenQueries\<close> computes is the specification's join of the
  sibling match terms: undefined for none, the term itself for one, the combinator
  node for two or more.
\<close>

theorem flatten_queries_refines_join_spec:
  "matchTerm (flatten_queries qs op) =
     (case join_spec (map matchTerm qs) op of None \<Rightarrow> JUndefined | Some t \<Rightarrow> t)"
  by (cases "filter truthy (map matchTerm qs)" rule: remdups_adj.cases)
    (simp_all add: flatten_queries_def join_spec_def join_terms_simps)

text \<open>
  C10: The joiner never builds a combinator node around fewer than two terms, unless
  the single term it was given already was such a node.
\<close>

theorem join_terms_wraps_two:
  assumes "join_terms ts op = JObj [(op, JArr us)]"
    and "\<forall>t \<in> set ts. \<forall>vs. t = JObj [(op, JArr vs)] \<longrightarrow> 2 \<le> length vs"
  shows "2 \<le> length us"
proof (cases ts rule: remdups_adj.cases)
  case 1
  with assms(1) show ?thesis by (simp add: join_terms_simps)
next
  case (2 t)
  with assms show ?thesis by (simp add: join_terms_simps)
next
  case (3 t u rest)
  with assms(1) have "us = t # u # rest" by (simp add: join_terms_simps)
  then show ?thesis by simp
qed

theorem join_terms_wraps_two_witness:
  "join_terms [JObj [(''a'', JNum 1)], JObj [(''b'', JNum 2)]] ''$and'' =
     JObj [(''$and'', JArr [JObj [(''a'', JNum 1)], JObj [(''b'', JNum 2)]])] \<and>
   2 \<le> length [JObj [(''a'', JNum 1)], JObj [(''b'', JNum 2)]]"
proof -
  let ?ts = "[JObj [(''a'', JNum 1)], JObj [(''b'', JNum 2)]]"
  have j: "join_terms ?ts ''$and'' = JObj [(''$and'', JArr ?ts)]" by (simp add: join_terms_simps)
  have n: "\<forall>t \<in> set ?ts. \<forall>vs. t = JObj [(''$and'', JArr vs)] \<longrightarrow> 2 \<le> length vs" by simp
  show ?thesis using join_terms_wraps_two [OF j n] j by simp
qed

end
