(* ===== verification/Exclusion.thy ===== *)
theory Exclusion
  imports Joiner
begin

text \<open>
  The field exclusion of \<open>queryParser\<close> (join-builder lines 25--27 and 88--93).
  Before the keys are parsed, the parser collects the \<open>dbPath\<close> of every field
  adapter that is a to-many relationship; after the keys are merged it drops the
  paths named in \<open>includeFields\<close>.  \<open>includeFields\<close> is built with
  \<open>flatQueries.relationships.map(({ field }) => field)\<close>, a property read on the
  branch object \<open>{relationshipInfo, ...queryParser(...)}\<close>.  The branch object is
  rendered here as the JavaScript object the parser builds, so that the read is
  an ordinary property lookup: it has no own property \<open>field\<close> (the field name
  sits in \<open>relationshipInfo.field\<close>), and the read gives \<open>undefined\<close>.
\<close>

record field_adapter =
  isRelationship :: bool
  config_many :: jval
  dbPath :: string

text \<open>\<open>fieldAdapters.filter(({isRelationship, field}) => isRelationship && field.config.many).map(({dbPath}) => dbPath)\<close>\<close>

definition to_many_paths :: "field_adapter list \<Rightarrow> string list" where
  "to_many_paths fas = map dbPath (filter (\<lambda>a. isRelationship a \<and> truthy (config_many a)) fas)"

definition rel_info_to_jval :: "rel_info \<Rightarrow> jval" where
  "rel_info_to_jval i =
     JObj [(''field'', JStr (ri_field i)), (''many'', JBool (ri_many i)), (''uid'', JStr (ri_uid i))]"

fun rel_entry_to_jval :: "rel_entry \<Rightarrow> jval" where
  "rel_entry_to_jval (RelEntry i m p rs xs) =
     JObj [(''relationshipInfo'', rel_info_to_jval i), (''matchTerm'', m),
           (''postJoinPipeline'', JArr p), (''relationships'', JArr (map rel_entry_to_jval rs)),
           (''excludeFields'', JArr (map JStr xs))]"

text \<open>
  \<open>includeFields\<close>: the destructured \<open>field\<close> of every branch, then
  \<open>include\<close> when it is truthy (\<open>if (include) includeFields.push(include)\<close>).
\<close>

definition include_fields :: "rel_entry list \<Rightarrow> jval \<Rightarrow> jval list" where
  "include_fields rels include =
     map (\<lambda>e. js_get (rel_entry_to_jval e) ''field'') rels @ (if truthy include then [include] else [])"

text \<open>\<open>excludeFields.filter(field => !includeFields.includes(field))\<close>\<close>

definition exclude_fields :: "field_adapter list \<Rightarrow> rel_entry list \<Rightarrow> jval \<Rightarrow> string list" where
  "exclude_fields fas rels include =
     filter (\<lambda>field. JStr field \<notin> set (include_fields rels include)) (to_many_paths fas)"

text \<open>
  The contract of the specification (section 4.4): the to-many fields minus the
  fields of this level's relationship branches and the include hint.
\<close>

definition exclude_spec :: "string list \<Rightarrow> string list \<Rightarrow> jval \<Rightarrow> string list" where
  "exclude_spec allToMany branchFields includeHint =
     filter (\<lambda>f. f \<notin> set branchFields \<and> JStr f \<noteq> includeHint) allToMany"

definition branch_fields :: "rel_entry list \<Rightarrow> string list" where
  "branch_fields rels = map (ri_field \<circ> re_info) rels"

subsection \<open>Properties\<close>

text \<open>The read of \<open>field\<close> on a branch object is always \<open>undefined\<close>.\<close>

lemma branch_field_read_undefined [simp]: "js_get (rel_entry_to_jval e) ''field'' = JUndefined"
  by (cases e) simp

lemma include_fields_eq:
  "include_fields rels include =
     replicate (length rels) JUndefined @ (if truthy include then [include] else [])"
  by (simp add: include_fields_def map_replicate_const)

lemma JStr_in_include_fields:
  "JStr f \<in> set (include_fields rels include) \<longleftrightarrow> include = JStr f \<and> f \<noteq> []"
  by (auto simp: include_fields_eq)

text \<open>
  Because every read of \<open>field\<close> is \<open>undefined\<close>, the exclusion list depends
  on the include hint only.
\<close>

lemma exclude_fields_ignores_branches:
  "exclude_fields fas rels incl = filter (\<lambda>f. \<not> (truthy incl \<and> incl = JStr f)) (to_many_paths fas)"
  by (auto simp: exclude_fields_def JStr_in_include_fields intro: filter_cong)

text \<open>
  C28: The code's exclusion list equals the specification's contract (section 4.4)
  exactly when, for every to-many path, being a branch field of the level or the
  include hint is the same as being the truthy include hint: the code meets the
  contract on a level only when it traverses no to-many field other than the hint.
\<close>

theorem exclude_fields_meets_spec_iff:
  "exclude_fields fas rels incl = exclude_spec (to_many_paths fas) (branch_fields rels) incl \<longleftrightarrow>
   (\<forall>f \<in> set (to_many_paths fas). (f \<in> set (branch_fields rels) \<or> JStr f = incl) \<longleftrightarrow> truthy incl \<and> incl = JStr f)"
  unfolding exclude_fields_ignores_branches exclude_spec_def filter_eq_iff_on by auto

theorem exclude_fields_meets_spec_iff_witness:
  "exclude_fields [\<lparr>isRelationship = True, config_many = JBool True, dbPath = ''x''\<rparr>,
                   \<lparr>isRelationship = True, config_many = JBool True, dbPath = ''y''\<rparr>] [] (JStr ''x'') =
     exclude_spec [''x'', ''y''] [] (JStr ''x'')"
proof -
  let ?fas = "[\<lparr>isRelationship = True, config_many = JBool True, dbPath = ''x''\<rparr>,
               \<lparr>isRelationship = True, config_many = JBool True, dbPath = ''y''\<rparr>]"
  have tm: "to_many_paths ?fas = [''x'', ''y'']" by (simp add: to_many_paths_def)
  have "\<forall>f \<in> set (to_many_paths ?fas). (f \<in> set (branch_fields []) \<or> JStr f = JStr ''x'') \<longleftrightarrow>
          truthy (JStr ''x'') \<and> JStr ''x'' = JStr f"
    by (auto simp: tm branch_fields_def)
  then have "exclude_fields ?fas [] (JStr ''x'') = exclude_spec (to_many_paths ?fas) (branch_fields []) (JStr ''x'')"
    by (rule exclude_fields_meets_spec_iff [THEN iffD2])
  then show ?thesis by (simp only: tm branch_fields_def list.map)
qed

end
