(* ===== verification/Shortcut.thy ===== *)
theory Shortcut
  imports Joiner "HOL-Library.Sublist"
begin

text \<open>
  The relationship shortcut ("Extremely improve mongodb query, using indexes"):
  join-builder lines 54--74, adapter-mongoose lines 48--70.  A relationship
  filter whose only key is a truthy \<open>id\<close>, \<open>id_not\<close>, \<open>id_in\<close> or
  \<open>id_not_in\<close> is turned into a comparison on the foreign-key field, provided
  the key's quantifier suffix is listed for that identity operator.  The two
  variants share the shape of the code and differ in three places: how the
  suffix is found (\<open>key.replace(relationshipInfo.field, '')\<close> against a regular
  expression split), which field the condition names, and the suffix lists.
  The lists are a \<open>suffix_table\<close>; \<open>query_condition\<close> is the common
  \<open>if\<close>/\<open>else if\<close> chain building \<open>queryCondition\<close>; the ObjectId constructor
  \<open>listAdapter.mongoose.Types.ObjectId\<close> is the parameter \<open>oid\<close>, which may throw.
\<close>

definition shortcut_applies :: "jval \<Rightarrow> bool" where
  "shortcut_applies value \<longleftrightarrow>
     length (obj_keys value) = 1 \<and>
     (truthy (js_get value ''id'') \<or> truthy (js_get value ''id_not'') \<or>
      truthy (js_get value ''id_in'') \<or> truthy (js_get value ''id_not_in''))"

text \<open>\<open>value.id_in.map(el => ObjectId(el))\<close>: a TypeError unless the value is an array.\<close>

definition object_ids :: "(jval \<Rightarrow> error + jval) \<Rightarrow> string \<Rightarrow> jval \<Rightarrow> error + jval list" where
  "object_ids oid name v =
     (case v of
        JArr xs \<Rightarrow> map_res oid xs
      | _ \<Rightarrow> Inl (TypeError (''value.'' @ name @ ''.map is not a function'')))"

record suffix_table =
  st_eq :: "string list"
  st_eq_none :: "string list"
  st_not :: "string list"
  st_in :: "string list"
  st_not_in :: "string list"

definition query_condition ::
  "suffix_table \<Rightarrow> (jval \<Rightarrow> error + jval) \<Rightarrow> string \<Rightarrow> string \<Rightarrow> jval \<Rightarrow> error + (string \<times> jval) list"
where
  "query_condition tbl oid field filterType value =
     (if truthy (js_get value ''id'') then
        (if filterType \<in> set (st_eq tbl) then
           map_sum id (\<lambda>oi. [(field, JObj [(''$eq'', oi)])]) (oid (js_get value ''id''))
         else if filterType \<in> set (st_eq_none tbl) then
           map_sum id (\<lambda>oi. [(field, JObj [(''$ne'', oi)])]) (oid (js_get value ''id''))
         else Inr [])
      else if truthy (js_get value ''id_not'') \<and> filterType \<in> set (st_not tbl) then
        map_sum id (\<lambda>oi. [(field, JObj [(''$ne'', oi)])]) (oid (js_get value ''id_not''))
      else if truthy (js_get value ''id_in'') \<and> filterType \<in> set (st_in tbl) then
        map_sum id (\<lambda>os. [(field, JObj [(''$in'', JArr os)])])
          (object_ids oid ''id_in'' (js_get value ''id_in''))
      else if truthy (js_get value ''id_not_in'') \<and> filterType \<in> set (st_not_in tbl) then
        map_sum id (\<lambda>os. [(field, JObj [(''$not'', JObj [(''$in'', JArr os)])])])
          (object_ids oid ''id_not_in'' (js_get value ''id_not_in''))
      else Inr [])"

text \<open>\<open>if (Object.keys(queryCondition).length > 0) return {matchTerm: queryCondition}\<close>\<close>

definition condition_result :: "error + (string \<times> jval) list \<Rightarrow> error + jval option" where
  "condition_result qc = map_sum id (\<lambda>c. if 0 < length c then Some (JObj c) else None) qc"

subsection \<open>The join-builder variant\<close>

definition table_jb :: suffix_table where
  "table_jb =
     \<lparr>st_eq = ['''', ''_some'', ''_every''], st_eq_none = [''_none''],
      st_not = ['''', ''some'', ''_every'', ''_none''], st_in = ['''', ''_some''],
      st_not_in = ['''', ''_every'']\<rparr>"

definition shortcut_jb ::
  "(jval \<Rightarrow> error + jval) \<Rightarrow> string \<Rightarrow> rel_info \<Rightarrow> jval \<Rightarrow> error + jval option"
where
  "shortcut_jb oid key info value =
     (if shortcut_applies value then
        (let filterType = js_replace key (ri_field info) ''''
         in condition_result (query_condition table_jb oid (ri_field info) filterType value))
      else Inr None)"

subsection \<open>The adapter-mongoose variant: the suffix split\<close>

text \<open>
  \<open>key.split(/(\_some|\_every|\_none)+$/gm)\<close>.  The split is cut at the first
  position where the expression matches; element 0 is the text before it and
  element 1 the capture, that is the last suffix of the matched run.  The
  repetition is greedy and backtracks, and under the \<open>m\<close> flag \<open>$\<close> also holds
  before a line feed or a carriage return.  \<open>chain_end prev s\<close> is the capture of
  a match of the repetition that starts in \<open>s\<close>, \<open>prev\<close> being the suffix
  consumed just before.
\<close>

definition suffix_tokens :: "string list" where
  "suffix_tokens = [''_some'', ''_every'', ''_none'']"

definition line_end :: "string \<Rightarrow> bool" where
  "line_end s \<longleftrightarrow> s = [] \<or> hd s \<in> {char_of (10::nat), char_of (13::nat)}"

definition next_token :: "string \<Rightarrow> string option" where
  "next_token s = find (\<lambda>t. prefix t s) suffix_tokens"

lemma next_token_shorter: "next_token s = Some t \<Longrightarrow> length (drop (length t) s) < length s"
proof -
  assume "next_token s = Some t"
  then have "prefix t s" "t \<in> set suffix_tokens"
    by (auto simp: next_token_def find_Some_iff in_set_conv_nth)
  moreover from this(2) have "t \<noteq> []" by (auto simp: suffix_tokens_def)
  ultimately have "0 < length t" "length t \<le> length s"
    by (auto dest: prefix_length_le)
  then show ?thesis by (simp only: length_drop)
qed

function (domintros) chain_end :: "string option \<Rightarrow> string \<Rightarrow> string option" where
  "chain_end prev s =
     (case next_token s of
        Some t \<Rightarrow>
          (case chain_end (Some t) (drop (length t) s) of
             Some c \<Rightarrow> Some c
           | None \<Rightarrow> (if line_end s then prev else None))
      | None \<Rightarrow> (if line_end s then prev else None))"
  by pat_completeness auto
termination
  by (relation "measure (\<lambda>(prev, s). length s)") (auto dest: next_token_shorter)

declare chain_end.simps [simp del]

fun split_first :: "string \<Rightarrow> string \<Rightarrow> (string \<times> string) option" where
  "split_first acc [] = None"
| "split_first acc (c # cs) =
     (case chain_end None (c # cs) of
        Some t \<Rightarrow> Some (rev acc, t)
      | None \<Rightarrow> split_first (c # acc) cs)"

text \<open>
  \<open>fieldParser[0]\<close> and \<open>filterType = fieldParser.length > 1 ? fieldParser[1] : '_only'\<close>.
\<close>

definition field_parser_mg :: "string \<Rightarrow> string \<times> string" where
  "field_parser_mg key = (case split_first [] key of Some (base, t) \<Rightarrow> (base, t) | None \<Rightarrow> (key, ''_only''))"

definition table_mg :: suffix_table where
  "table_mg =
     \<lparr>st_eq = [''_only'', ''_some'', ''_every''], st_eq_none = [''_none''],
      st_not = [''_only'', ''_some'', ''_every'', ''_none''], st_in = [''_only'', ''_some''],
      st_not_in = [''_only'', ''_every'']\<rparr>"

definition shortcut_mg :: "(jval \<Rightarrow> error + jval) \<Rightarrow> string \<Rightarrow> jval \<Rightarrow> error + jval option" where
  "shortcut_mg oid key value =
     (if shortcut_applies value then
        (case field_parser_mg key of
           (base, filterType) \<Rightarrow> condition_result (query_condition table_mg oid base filterType value))
      else Inr None)"

subsection \<open>The decision table the code implements\<close>

text \<open>
  For a filter with a single identity key, \<open>query_condition\<close> reads one cell of
  its \<open>suffix_table\<close>: \<open>table_op\<close> names the Mongo operator of the cell, or
  \<open>None\<close> when the code builds no condition.  \<open>mongo_cond\<close> is the condition
  object the code writes for an operator and its converted operand.
\<close>

datatype id_op = OpEq | OpNot | OpIn | OpNotIn

datatype mongo_op = MEq | MNe | MIn | MNin

fun id_key :: "id_op \<Rightarrow> string" where
  "id_key OpEq = ''id''"
| "id_key OpNot = ''id_not''"
| "id_key OpIn = ''id_in''"
| "id_key OpNotIn = ''id_not_in''"

fun table_op :: "suffix_table \<Rightarrow> string \<Rightarrow> id_op \<Rightarrow> mongo_op option" where
  "table_op tbl ft OpEq =
     (if ft \<in> set (st_eq tbl) then Some MEq else if ft \<in> set (st_eq_none tbl) then Some MNe else None)"
| "table_op tbl ft OpNot = (if ft \<in> set (st_not tbl) then Some MNe else None)"
| "table_op tbl ft OpIn = (if ft \<in> set (st_in tbl) then Some MIn else None)"
| "table_op tbl ft OpNotIn = (if ft \<in> set (st_not_in tbl) then Some MNin else None)"

fun mongo_cond :: "mongo_op \<Rightarrow> jval \<Rightarrow> jval" where
  "mongo_cond MEq oi = JObj [(''$eq'', oi)]"
| "mongo_cond MNe oi = JObj [(''$ne'', oi)]"
| "mongo_cond MIn ois = JObj [(''$in'', ois)]"
| "mongo_cond MNin ois = JObj [(''$not'', JObj [(''$in'', ois)])]"

fun operand :: "(jval \<Rightarrow> error + jval) \<Rightarrow> id_op \<Rightarrow> jval \<Rightarrow> error + jval" where
  "operand oid OpEq v = oid v"
| "operand oid OpNot v = oid v"
| "operand oid OpIn v = map_sum id JArr (object_ids oid ''id_in'' v)"
| "operand oid OpNotIn v = map_sum id JArr (object_ids oid ''id_not_in'' v)"

lemma js_get_single [simp]: "js_get (JObj [(k, v)]) k' = (if k' = k then v else JUndefined)"
  by simp

lemma shortcut_applies_single [simp]:
  "truthy v \<Longrightarrow> shortcut_applies (JObj [(id_key op, v)])"
  by (cases op) (simp_all add: shortcut_applies_def)

lemma query_condition_single:
  "truthy v \<Longrightarrow>
   query_condition tbl oid f ft (JObj [(id_key op, v)]) =
     (case table_op tbl ft op of
        None \<Rightarrow> Inr []
      | Some m \<Rightarrow> map_sum id (\<lambda>oi. [(f, mongo_cond m oi)]) (operand oid op v))"
  by (cases op) (auto simp: query_condition_def map_sum.compositionality comp_def id_def)

lemma condition_result_map [simp]:
  "condition_result (map_sum id (\<lambda>oi. [(f, c oi)]) m) = map_sum id (\<lambda>oi. Some (JObj [(f, c oi)])) m"
  by (cases m) (simp_all add: condition_result_def)

lemma condition_result_Nil [simp]: "condition_result (Inr []) = Inr None"
  by (simp add: condition_result_def)

lemma shortcut_jb_single:
  "truthy v \<Longrightarrow>
   shortcut_jb oid key info (JObj [(id_key op, v)]) =
     (case table_op table_jb (js_replace key (ri_field info) '''') op of
        None \<Rightarrow> Inr None
      | Some m \<Rightarrow> map_sum id (\<lambda>oi. Some (JObj [(ri_field info, mongo_cond m oi)])) (operand oid op v))"
  by (simp add: shortcut_jb_def query_condition_single split: option.splits)

lemma shortcut_mg_single:
  "truthy v \<Longrightarrow> field_parser_mg key = (base, ft) \<Longrightarrow>
   shortcut_mg oid key (JObj [(id_key op, v)]) =
     (case table_op table_mg ft op of
        None \<Rightarrow> Inr None
      | Some m \<Rightarrow> map_sum id (\<lambda>oi. Some (JObj [(base, mongo_cond m oi)])) (operand oid op v))"
  by (simp add: shortcut_mg_def query_condition_single split: option.splits)

lemma shortcut_jb_not_single: "length (obj_keys value) \<noteq> 1 \<Longrightarrow> shortcut_jb oid key info value = Inr None"
  by (simp add: shortcut_jb_def shortcut_applies_def)

lemma shortcut_mg_not_single: "length (obj_keys value) \<noteq> 1 \<Longrightarrow> shortcut_mg oid key value = Inr None"
  by (simp add: shortcut_mg_def shortcut_applies_def)

subsection \<open>The specification's table\<close>

text \<open>
  Section 4.3 of the specification fixes, for each quantifier suffix of the
  relationship key and each identity predicate, whether the shortcut applies and
  with which operator.  \<open>key_suffix\<close> is the suffix of the key for a
  quantifier, \<open>mg_filter_type\<close> the \<open>filterType\<close> the adapter-mongoose split
  reports for it (\<open>_only\<close> when there is none).
\<close>

datatype quantifier = QOne | QSome | QEvery | QNone

fun key_suffix :: "quantifier \<Rightarrow> string" where
  "key_suffix QOne = ''''"
| "key_suffix QSome = ''_some''"
| "key_suffix QEvery = ''_every''"
| "key_suffix QNone = ''_none''"

fun mg_filter_type :: "quantifier \<Rightarrow> string" where
  "mg_filter_type QOne = ''_only''"
| "mg_filter_type q = key_suffix q"

fun spec_table :: "quantifier \<Rightarrow> id_op \<Rightarrow> mongo_op option" where
  "spec_table QNone OpEq = Some MNe"
| "spec_table q OpEq = Some MEq"
| "spec_table QNone OpNot = None"
| "spec_table q OpNot = Some MNe"
| "spec_table q OpIn = (if q = QOne \<or> q = QSome then Some MIn else None)"
| "spec_table q OpNotIn = (if q = QOne \<or> q = QEvery then Some MNin else None)"

subsection \<open>The regular-expression split\<close>

lemma next_token_token:
  "t \<in> set suffix_tokens \<Longrightarrow> next_token (t @ rest) = Some t"
  by (auto simp: suffix_tokens_def next_token_def)

lemma next_token_no_underscore:
  "s = [] \<or> hd s \<noteq> CHR ''_'' \<Longrightarrow> next_token s = None"
  by (cases s) (auto simp: suffix_tokens_def next_token_def)

lemma chain_end_no_underscore:
  "s = [] \<or> hd s \<noteq> CHR ''_'' \<Longrightarrow> chain_end None s = None"
  by (subst chain_end.simps) (simp add: next_token_no_underscore)

lemma chain_end_tokens:
  "ts \<noteq> [] \<Longrightarrow> set ts \<subseteq> set suffix_tokens \<Longrightarrow> chain_end prev (concat ts) = Some (last ts)"
proof (induction ts arbitrary: prev)
  case Nil
  then show ?case by simp
next
  case (Cons t ts)
  then have t: "t \<in> set suffix_tokens" by simp
  show ?case
  proof (cases ts)
    case Nil
    have "chain_end (Some t) [] = Some t"
      by (subst chain_end.simps) (simp add: next_token_no_underscore line_end_def)
    with Nil t next_token_token [OF t, of "[]"] show ?thesis
      by (subst chain_end.simps) simp
  next
    case (Cons u us)
    with Cons.IH Cons.prems have "chain_end (Some t) (concat ts) = Some (last ts)" by simp
    with Cons t next_token_token [OF t, of "concat ts"] show ?thesis
      by (subst chain_end.simps) simp
  qed
qed

lemma split_first_plain:
  "CHR ''_'' \<notin> set b \<Longrightarrow> split_first acc (b @ s) = split_first (rev b @ acc) s"
proof (induction b arbitrary: acc)
  case Nil
  then show ?case by simp
next
  case (Cons c cs)
  then have "chain_end None (c # cs @ s) = None" by (intro chain_end_no_underscore) auto
  with Cons show ?case by simp
qed

lemma split_first_chain:
  assumes "CHR ''_'' \<notin> set b" "ts \<noteq> []" "set ts \<subseteq> set suffix_tokens"
  shows "split_first [] (b @ concat ts) = Some (b, last ts)"
proof -
  obtain t ts' where ts: "ts = t # ts'" using assms(2) by (cases ts) auto
  with assms(3) have "t \<in> set suffix_tokens" by simp
  then obtain c cs where "concat ts = c # cs"
    using ts by (auto simp: suffix_tokens_def)
  moreover have "chain_end None (concat ts) = Some (last ts)"
    using assms(2,3) by (rule chain_end_tokens)
  ultimately show ?thesis
    using assms(1) by (simp add: split_first_plain [of b "[]"])
qed

lemma field_parser_mg_plain:
  "CHR ''_'' \<notin> set b \<Longrightarrow> field_parser_mg b = (b, ''_only'')"
  using split_first_plain [of b "[]" "[]"] by (simp add: field_parser_mg_def)

lemma field_parser_mg_key:
  "CHR ''_'' \<notin> set b \<Longrightarrow> field_parser_mg (b @ key_suffix q) = (b, mg_filter_type q)"
  using split_first_chain [of b "[key_suffix q]"] field_parser_mg_plain [of b]
  by (cases q) (simp_all add: suffix_tokens_def field_parser_mg_def)

subsection \<open>Code against specification\<close>

text \<open>
  C11: The join-builder table agrees with the specification's table on every quantifier
  and identity predicate except the negated identity under \<open>_some\<close> (the code lists
  \<open>'some'\<close>, which no key produces, so the shortcut is lost) and under \<open>_none\<close>
  (rewritten by the code, excluded by the specification).
\<close>

theorem table_jb_vs_spec:
  "table_op table_jb (js_replace (f @ key_suffix q) f '''') op \<noteq> spec_table q op \<longleftrightarrow>
   (q, op) \<in> {(QSome, OpNot), (QNone, OpNot)}"
  by (cases q; cases op) (simp_all add: js_replace_prefix js_replace_same table_jb_def)

text \<open>
  C12: The adapter-mongoose variant, on a key made of a plain field name and a
  quantifier suffix, splits off the field name and agrees with the specification's
  table everywhere except the negated identity under \<open>_none\<close>.
\<close>

theorem table_mg_vs_spec:
  "CHR ''_'' \<notin> set b \<Longrightarrow>
   (case field_parser_mg (b @ key_suffix q) of
      (base, filterType) \<Rightarrow> base = b \<and> (table_op table_mg filterType op \<noteq> spec_table q op \<longleftrightarrow> (q, op) = (QNone, OpNot)))"
proof -
  assume "CHR ''_'' \<notin> set b"
  then have "field_parser_mg (b @ key_suffix q) = (b, mg_filter_type q)" by (rule field_parser_mg_key)
  then show ?thesis by (cases q; cases op) (simp_all add: table_mg_def)
qed

theorem table_mg_vs_spec_witness:
  "CHR ''_'' \<notin> set ''posts'' \<and>
   (case field_parser_mg (''posts'' @ key_suffix QNone) of
      (base, filterType) \<Rightarrow> base = ''posts'' \<and>
        (table_op table_mg filterType OpNot \<noteq> spec_table QNone OpNot \<longleftrightarrow> (QNone, OpNot) = (QNone, OpNot)))"
  using table_mg_vs_spec [where b = "''posts''" and q = QNone and op = OpNot] by simp

text \<open>
  C13: The adapter-mongoose split of a plain field name followed by a run of quantifier
  suffixes returns the field name and the last suffix of the run.
\<close>

theorem field_parser_mg_suffix_chain:
  "CHR ''_'' \<notin> set b \<Longrightarrow> ts \<noteq> [] \<Longrightarrow> set ts \<subseteq> set suffix_tokens \<Longrightarrow>
   field_parser_mg (b @ concat ts) = (b, last ts)"
  by (simp add: field_parser_mg_def split_first_chain)

theorem field_parser_mg_suffix_chain_witness:
  "CHR ''_'' \<notin> set ''posts'' \<and> [''_some''] \<noteq> [] \<and> set [''_some''] \<subseteq> set suffix_tokens \<and>
   field_parser_mg (''posts'' @ concat [''_some'']) = (''posts'', last [''_some''])"
  using field_parser_mg_suffix_chain [of "''posts''" "[''_some'']"] by (simp add: suffix_tokens_def)

end
