(* ===== verification/Parser.thy ===== *)
theory Parser
  imports Exclusion Shortcut "HOL-Library.Multiset"
begin

text \<open>
  \<open>queryParser\<close> (join-builder lines 19--95, adapter-mongoose lines 18--91).
  The function walks a filter object key by key (\<open>Object.entries(query).map\<close>),
  classifies each key, recurses into \<open>AND\<close>/\<open>OR\<close> arrays and relationship
  sub-filters, merges the per-key results with \<open>flattenQueries(..., '$and')\<close> and
  attaches \<open>excludeFields\<close>.

  The list adapter and the tokenizers it is handed to are the record \<open>env\<close>:
  \<open>simpleTokenizer\<close>, \<open>modifierTokenizer\<close> and \<open>relationshipTokenizer\<close> are
  collaborators outside the sources and may throw; \<open>object_id\<close> is
  \<open>listAdapter.mongoose.Types.ObjectId\<close>.  The uid generator (\<open>cuid\<close> by
  default) is stateful: it is modelled by its history, the list of tokens it has
  issued, threaded through the walk in evaluation order; \<open>get_uid env key h\<close>
  is the token issued for \<open>key\<close> after history \<open>h\<close>.  In the join-builder
  variant the parser calls \<open>getUID(key)\<close> (line 51); the adapter-mongoose variant
  hands the generator to the tokenizer (line 46), which is modelled as drawing
  one token in the same place.

  The two variants run the same walk; \<open>variant\<close> selects the two parts in which
  they differ, the modifier key list and the relationship shortcut.  The walk
  terminates on every input, by the measure \<open>parser_size\<close>.
\<close>

record env =
  fieldAdapters :: "field_adapter list"
  simple_tok :: "jval \<Rightarrow> string \<Rightarrow> path \<Rightarrow> error + jval"
  modifier_tok :: "jval \<Rightarrow> string \<Rightarrow> path \<Rightarrow> error + jval"
  rel_tok :: "string \<Rightarrow> path \<Rightarrow> string \<Rightarrow> error + (jval \<times> rel_info)"
  object_id :: "jval \<Rightarrow> error + jval"
  get_uid :: "string \<Rightarrow> string list \<Rightarrow> string"

datatype variant = JoinBuilder | Mongoose

fun modifier_keys :: "variant \<Rightarrow> string list" where
  "modifier_keys JoinBuilder = [''$search'', ''$orderBy'', ''$skip'', ''$first'', ''$count'']"
| "modifier_keys Mongoose = [''$search'', ''$sortBy'', ''$orderBy'', ''$skip'', ''$first'', ''$count'']"

fun shortcut :: "variant \<Rightarrow> env \<Rightarrow> string \<Rightarrow> rel_info \<Rightarrow> jval \<Rightarrow> error + jval option" where
  "shortcut JoinBuilder env key info value = shortcut_jb (object_id env) key info value"
| "shortcut Mongoose env key info value = shortcut_mg (object_id env) key value"

definition type_mismatch :: "jval \<Rightarrow> path \<Rightarrow> error" where
  "type_mismatch query pathSoFar =
     QueryError (''Expected an Object for query, got '' @ get_type query @ '' at path '' @
                 path_join pathSoFar)"

text \<open>\<open>{ AND: '$and', OR: '$or' }[key]\<close>, read for \<open>AND\<close> and \<open>OR\<close> only.\<close>

definition logical_op :: "string \<Rightarrow> string" where
  "logical_op key = (if key = ''AND'' then ''$and'' else ''$or'')"

definition relationship_branch :: "jval \<Rightarrow> rel_info \<Rightarrow> parse_result \<Rightarrow> flat_query" where
  "relationship_branch mt info r =
     \<lparr>matchTerm = mt, postJoinPipeline = [], relationships = [rel_entry_of info r]\<rparr>"

text \<open>
  The exception \<open>value.map(...)\<close> raises when the value of \<open>AND\<close> or \<open>OR\<close> is not
  an array: reading a property of \<open>null\<close> or \<open>undefined\<close> fails, any other
  value has no callable \<open>map\<close>.
\<close>

definition map_call_error :: "jval \<Rightarrow> error" where
  "map_call_error x =
     TypeError (case x of
                  JUndefined \<Rightarrow> ''Cannot read properties of undefined (reading 'map')''
                | JNull \<Rightarrow> ''Cannot read properties of null (reading 'map')''
                | _ \<Rightarrow> ''value.map is not a function'')"

text \<open>
  The size that decreases along the recursion: three units per JavaScript value, so
  that a call on a key-value pair or an array sits strictly between the object or
  array holding it and the values inside it.
\<close>

definition parser_size where
  "parser_size x = (case x of
       Inl (Inl (v, env, q, p, incl, h)) \<Rightarrow> 3 * jsize q
     | Inl (Inr (v, env, q, p, kvs, h)) \<Rightarrow> 3 * sum_list (map (jsize \<circ> snd) kvs) + 2
     | Inr (Inl (v, env, q, p, k, x, h)) \<Rightarrow> 3 * jsize x + 1
     | Inr (Inr (v, env, p, i, qs, h)) \<Rightarrow> 3 * sum_list (map jsize qs) + 2)"

function (sequential, domintros) query_parser ::
  "variant \<Rightarrow> env \<Rightarrow> jval \<Rightarrow> path \<Rightarrow> jval \<Rightarrow> string list \<Rightarrow> error + (parse_result \<times> string list)"
and parse_entries ::
  "variant \<Rightarrow> env \<Rightarrow> jval \<Rightarrow> path \<Rightarrow> (string \<times> jval) list \<Rightarrow> string list \<Rightarrow>
   error + (flat_query list \<times> string list)"
and parse_entry ::
  "variant \<Rightarrow> env \<Rightarrow> jval \<Rightarrow> path \<Rightarrow> string \<Rightarrow> jval \<Rightarrow> string list \<Rightarrow> error + (flat_query \<times> string list)"
and parse_list ::
  "variant \<Rightarrow> env \<Rightarrow> path \<Rightarrow> nat \<Rightarrow> jval list \<Rightarrow> string list \<Rightarrow> error + (parse_result list \<times> string list)"
where
  "query_parser v env (JObj kvs) pathSoFar include h =
     (case parse_entries v env (JObj kvs) pathSoFar kvs h of
        Inl e \<Rightarrow> Inl e
      | Inr (parsedQueries, h') \<Rightarrow>
          (let flatQueries = flatten_queries parsedQueries ''$and''
           in Inr (flat_query.extend flatQueries
                     \<lparr>excludeFields =
                        exclude_fields (fieldAdapters env) (relationships flatQueries) include\<rparr>, h')))"
| "query_parser v env query pathSoFar include h = Inl (type_mismatch query pathSoFar)"
| "parse_entries v env query pathSoFar [] h = Inr ([], h)"
| "parse_entries v env query pathSoFar ((key, value) # kvs) h =
     (case parse_entry v env query pathSoFar key value h of
        Inl e \<Rightarrow> Inl e
      | Inr (q, h1) \<Rightarrow>
          (case parse_entries v env query pathSoFar kvs h1 of
             Inl e \<Rightarrow> Inl e
           | Inr (qs, h2) \<Rightarrow> Inr (q # qs, h2)))"
| "parse_entry v env query pathSoFar key value h =
     (let path = pathSoFar @ [PKey key] in
      if key \<in> set [''AND'', ''OR''] then
        (case value of
           JArr subqueries \<Rightarrow>
             (case parse_list v env path 0 subqueries h of
                Inl e \<Rightarrow> Inl e
              | Inr (rs, h') \<Rightarrow> Inr (flatten_queries rs (logical_op key), h'))
         | _ \<Rightarrow> Inl (map_call_error value))
      else if key \<in> set (modifier_keys v) then
        map_sum id (\<lambda>s. (pipeline_only s, h)) (modifier_tok env query key path)
      else if key = ''id'' then
        (if get_type value = ''Object'' then Inr (match_only (JObj [(''_id'', value)]), h)
         else map_sum id (\<lambda>t. (match_only t, h)) (simple_tok env query key path))
      else if get_type value = ''Object'' then
        (let uid = get_uid env key h in
         case rel_tok env key path uid of
           Inl e \<Rightarrow> Inl e
         | Inr (mt, info) \<Rightarrow>
             (case shortcut v env key info value of
                Inl e \<Rightarrow> Inl e
              | Inr (Some cond) \<Rightarrow> Inr (match_only cond, h @ [uid])
              | Inr None \<Rightarrow>
                  (case query_parser v env value path JUndefined (h @ [uid]) of
                     Inl e \<Rightarrow> Inl e
                   | Inr (r, h') \<Rightarrow> Inr (relationship_branch mt info r, h'))))
      else map_sum id (\<lambda>t. (match_only t, h)) (simple_tok env query key path))"
| "parse_list v env path i [] h = Inr ([], h)"
| "parse_list v env path i (q # qs) h =
     (case query_parser v env q (path @ [PIdx i]) JUndefined h of
        Inl e \<Rightarrow> Inl e
      | Inr (r, h1) \<Rightarrow>
          (case parse_list v env path (Suc i) qs h1 of
             Inl e \<Rightarrow> Inl e
           | Inr (rs, h2) \<Rightarrow> Inr (r # rs, h2)))"
  by pat_completeness auto
termination
  by (relation "measure parser_size") (auto simp: parser_size_def)

text \<open>
  The key dispatch of lines 30--85 as a classification, the tagged variant the
  specification's design notes ask for: an \<open>id\<close> key with a scalar value goes to
  the leaf tokenizer like any other scalar.
\<close>

datatype key_class = KLogical | KModifier | KIdentity | KRelationship | KLeaf

definition classify_key :: "variant \<Rightarrow> string \<Rightarrow> jval \<Rightarrow> key_class" where
  "classify_key v key value =
     (if key \<in> set [''AND'', ''OR''] then KLogical
      else if key \<in> set (modifier_keys v) then KModifier
      else if key = ''id'' then (if get_type value = ''Object'' then KIdentity else KLeaf)
      else if get_type value = ''Object'' then KRelationship
      else KLeaf)"

declare parse_entry.simps [simp del]

lemma parse_entry_logical [parser_simps]:
  "classify_key v key x = KLogical \<Longrightarrow>
   parse_entry v env q p key x h =
     (case x of
        JArr subqueries \<Rightarrow>
          (case parse_list v env (p @ [PKey key]) 0 subqueries h of
             Inl e \<Rightarrow> Inl e
           | Inr (rs, h') \<Rightarrow> Inr (flatten_queries rs (logical_op key), h'))
      | _ \<Rightarrow> Inl (map_call_error x))"
  by (simp add: parse_entry.simps classify_key_def split: if_splits)

lemma parse_entry_modifier [parser_simps]:
  "classify_key v key x = KModifier \<Longrightarrow>
   parse_entry v env q p key x h = map_sum id (\<lambda>s. (pipeline_only s, h)) (modifier_tok env q key (p @ [PKey key]))"
  by (simp add: parse_entry.simps classify_key_def split: if_splits)

lemma parse_entry_identity [parser_simps]:
  "classify_key v key x = KIdentity \<Longrightarrow>
   parse_entry v env q p key x h = Inr (match_only (JObj [(''_id'', x)]), h)"
  by (simp add: parse_entry.simps classify_key_def split: if_splits)

lemma parse_entry_leaf [parser_simps]:
  "classify_key v key x = KLeaf \<Longrightarrow>
   parse_entry v env q p key x h = map_sum id (\<lambda>t. (match_only t, h)) (simple_tok env q key (p @ [PKey key]))"
  by (auto simp: parse_entry.simps classify_key_def split: if_splits)

lemma parse_entry_relationship [parser_simps]:
  "classify_key v key x = KRelationship \<Longrightarrow>
   parse_entry v env q p key x h =
     (let uid = get_uid env key h in
      case rel_tok env key (p @ [PKey key]) uid of
        Inl e \<Rightarrow> Inl e
      | Inr (mt, info) \<Rightarrow>
          (case shortcut v env key info x of
             Inl e \<Rightarrow> Inl e
           | Inr (Some cond) \<Rightarrow> Inr (match_only cond, h @ [uid])
           | Inr None \<Rightarrow>
               (case query_parser v env x (p @ [PKey key]) JUndefined (h @ [uid]) of
                  Inl e \<Rightarrow> Inl e
                | Inr (r, h') \<Rightarrow> Inr (relationship_branch mt info r, h'))))"
  by (simp add: parse_entry.simps classify_key_def Let_def split: if_splits)

lemma query_parser_JObj [parser_simps]:
  "query_parser v env (JObj kvs) p incl h =
     map_sum id (\<lambda>(qs, h'). (flat_query.extend (flatten_queries qs ''$and'')
        \<lparr>excludeFields = exclude_fields (fieldAdapters env) (concat (map relationships qs)) incl\<rparr>, h'))
      (parse_entries v env (JObj kvs) p kvs h)"
  by (simp add: flatten_queries_fields split: sum.splits)

lemma classify_key_KLogical: "classify_key v key x = KLogical \<Longrightarrow> key = ''AND'' \<or> key = ''OR''"
  by (simp add: classify_key_def split: if_splits)

lemma classify_key_KRelationship:
  "classify_key v key x = KRelationship \<longleftrightarrow>
     \<not> (key = ''AND'' \<or> key = ''OR'') \<and> key \<notin> set (modifier_keys v) \<and> key \<noteq> ''id'' \<and>
     get_type x = ''Object''"
  by (simp add: classify_key_def)

lemma classify_key_cases:
  obtains "classify_key v key x = KLogical" | "classify_key v key x = KModifier"
  | "classify_key v key x = KIdentity" | "classify_key v key x = KRelationship"
  | "classify_key v key x = KLeaf"
  by (cases "classify_key v key x") auto

text \<open>
  What a successful step on one key can have done: compiled an \<open>AND\<close>/\<open>OR\<close>
  array, built a relationship branch, taken the shortcut, or produced a term or a
  stage with no branch and no token.
\<close>

lemma parse_entry_InrE:
  assumes "parse_entry v env q p k x h = Inr (fq, h')"
  obtains (logical) qs rs where "classify_key v k x = KLogical" "x = JArr qs"
      "parse_list v env (p @ [PKey k]) 0 qs h = Inr (rs, h')" "fq = flatten_queries rs (logical_op k)"
  | (branch) mt info r where "classify_key v k x = KRelationship"
      "rel_tok env k (p @ [PKey k]) (get_uid env k h) = Inr (mt, info)" "shortcut v env k info x = Inr None"
      "query_parser v env x (p @ [PKey k]) JUndefined (h @ [get_uid env k h]) = Inr (r, h')"
      "fq = relationship_branch mt info r"
  | (shortcut) mt info c where "classify_key v k x = KRelationship"
      "rel_tok env k (p @ [PKey k]) (get_uid env k h) = Inr (mt, info)" "shortcut v env k info x = Inr (Some c)"
      "fq = match_only c" "h' = h @ [get_uid env k h]"
  | (plain) "classify_key v k x \<in> {KModifier, KIdentity, KLeaf}" "relationships fq = []" "h' = h"
proof (cases rule: classify_key_cases [of v k x])
  case 1
  with assms show ?thesis using that(1)
    by (cases x) (auto simp: parser_simps split: sum.splits)
next
  case 4
  with assms show ?thesis using that(2,3)
    by (auto simp: parser_simps Let_def split: sum.splits option.splits)
next
  case 3
  with assms show ?thesis using that(4)
    by (auto simp: parse_entry.simps classify_key_def parser_simps split: if_splits)
qed (use assms that(4) in \<open>auto simp: parser_simps\<close>)

text \<open>
  A filter whose only key is a relationship and whose compile records no branch has
  taken the shortcut: its match term is the shortcut's condition.
\<close>

lemma shortcut_Some_truthy: "shortcut v env k info x = Inr (Some c) \<Longrightarrow> truthy c"
  by (cases v) (auto simp: shortcut_jb_def shortcut_mg_def condition_result_def Let_def split: if_splits prod.splits)

lemma query_parser_single_shortcut:
  assumes "query_parser v env (JObj [(k, x)]) p incl h = Inr (r, h')"
    and "classify_key v k x = KRelationship" and "relationships r = []"
  obtains mt info where "rel_tok env k (p @ [PKey k]) (get_uid env k h) = Inr (mt, info)"
    and "shortcut v env k info x = Inr (Some (matchTerm r))"
proof -
  from assms(1) obtain fq op where e: "parse_entry v env (JObj [(k, x)]) p k x h = Inr (fq, h')"
    and mt: "matchTerm r = join_terms (filter truthy [matchTerm fq]) op"
    and rl: "relationships r = relationships fq"
    by (auto simp: Let_def flatten_queries_fields split: sum.splits)
  from e show ?thesis
  proof (cases rule: parse_entry_InrE)
    case (shortcut mt' info' c)
    have "matchTerm r = c"
      using mt shortcut(4) shortcut_Some_truthy [OF shortcut(3)] by (simp add: parser_simps)
    then show ?thesis using that shortcut(2,3) by simp
  qed (use assms(2,3) rl in \<open>auto simp: relationship_branch_def\<close>)
qed

subsection \<open>The generator history\<close>

text \<open>
  The history is the parser's only state.  Any property of histories that one draw
  of the generator keeps is kept by a whole parse: the four functions are proved
  together, following their mutual recursion.
\<close>

definition keeps_history_inv :: "env \<Rightarrow> (string list \<Rightarrow> bool) \<Rightarrow> bool" where
  "keeps_history_inv env I \<longleftrightarrow> (\<forall>k h. I h \<longrightarrow> I (h @ [get_uid env k h]))"

definition fresh_generator :: "env \<Rightarrow> bool" where
  "fresh_generator env \<longleftrightarrow> (\<forall>k h. get_uid env k h \<notin> set h)"

text \<open>
  A relationship tokenizer that labels the branch with the token it is handed, as
  \<open>relationshipInfo\<close> does in the specification.
\<close>

definition labels_with_uid :: "env \<Rightarrow> bool" where
  "labels_with_uid env \<longleftrightarrow> (\<forall>k p u mt info. rel_tok env k p u = Inr (mt, info) \<longrightarrow> ri_uid info = u)"

lemma parser_history_inv:
  "query_parser v env q p incl h = Inr (r, h') \<Longrightarrow> keeps_history_inv env I \<Longrightarrow> I h \<Longrightarrow> I h'"
  "parse_entries v env q p kvs h = Inr (qs, h') \<Longrightarrow> keeps_history_inv env I \<Longrightarrow> I h \<Longrightarrow> I h'"
  "parse_entry v env q p k x h = Inr (fq, h') \<Longrightarrow> keeps_history_inv env I \<Longrightarrow> I h \<Longrightarrow> I h'"
  "parse_list v env p i xs h = Inr (rs, h') \<Longrightarrow> keeps_history_inv env I \<Longrightarrow> I h \<Longrightarrow> I h'"
proof (induction v env q p incl h and v env q p kvs h and v env q p k x h and v env p i xs h
    arbitrary: r h' and qs h' and fq h' and rs h'
    rule: query_parser_parse_entries_parse_entry_parse_list.induct)
  case (4 v env q p k x kvs h)
  from "4.prems"(1) obtain fq h1 qs' where e: "parse_entry v env q p k x h = Inr (fq, h1)"
    and es: "parse_entries v env q p kvs h1 = Inr (qs', h')"
    by (auto split: sum.splits)
  have "I h1" using "4.IH"(1) e "4.prems"(2,3) by blast
  then show ?case using "4.IH"(2) e es "4.prems"(2) by blast
next
  case (5 v env q p k x h)
  have I1: "I (h @ [get_uid env k h])" using "5.prems"(2,3) by (simp add: keeps_history_inv_def)
  from "5.prems"(1) show ?case
  proof (cases rule: parse_entry_InrE)
    case (logical qs rs)
    then show ?thesis using "5.IH"(1) [OF refl _ logical(2,3) "5.prems"(2,3)] classify_key_KLogical [OF logical(1)]
      by auto
  next
    case (branch mt info r)
    note rel = branch(1) [unfolded classify_key_KRelationship]
    show ?thesis
      using "5.IH"(2) [OF refl _ _ _ _ refl branch(2) refl branch(3) refl branch(4) "5.prems"(2) I1] rel by simp
  qed (use I1 "5.prems"(3) in simp_all)
next
  case (7 v env p i q qs h)
  from "7.prems"(1) obtain r1 h1 rs' where e: "query_parser v env q (p @ [PIdx i]) JUndefined h = Inr (r1, h1)"
    and es: "parse_list v env p (Suc i) qs h1 = Inr (rs', h')"
    by (auto split: sum.splits)
  have "I h1" using "7.IH"(1) e "7.prems"(2,3) by blast
  then show ?case using "7.IH"(2) e es "7.prems"(2) by blast
qed (auto simp: Let_def split: sum.splits)

lemma query_parser_history_prefix: "query_parser v env q p incl h = Inr (r, h') \<Longrightarrow> prefix h h'"
  using parser_history_inv(1) [where I = "prefix h"]
  by (auto simp: keeps_history_inv_def intro: prefix_order.trans)

lemma fresh_keeps_distinct: "fresh_generator env \<Longrightarrow> keeps_history_inv env distinct"
  by (simp add: keeps_history_inv_def fresh_generator_def)

lemma query_parser_distinct_history:
  "fresh_generator env \<Longrightarrow> distinct h \<Longrightarrow> query_parser v env q p incl h = Inr (r, h') \<Longrightarrow> distinct h'"
  by (rule parser_history_inv(1) [OF _ fresh_keeps_distinct])

text \<open>
  The tokens of the branch tree a parse returns are, in order, among the tokens it
  drew: a shortcut draws a token and records no branch.
\<close>

lemma parser_branch_uids:
  "query_parser v env q p incl h = Inr (r, h') \<Longrightarrow> labels_with_uid env \<Longrightarrow>
     \<exists>ys. h' = h @ ys \<and> subseq (rels_uids (relationships r)) ys"
  "parse_entries v env q p kvs h = Inr (qs, h') \<Longrightarrow> labels_with_uid env \<Longrightarrow>
     \<exists>ys. h' = h @ ys \<and> subseq (concat (map (rels_uids \<circ> relationships) qs)) ys"
  "parse_entry v env q p k x h = Inr (fq, h') \<Longrightarrow> labels_with_uid env \<Longrightarrow>
     \<exists>ys. h' = h @ ys \<and> subseq (rels_uids (relationships fq)) ys"
  "parse_list v env p i xs h = Inr (rs, h') \<Longrightarrow> labels_with_uid env \<Longrightarrow>
     \<exists>ys. h' = h @ ys \<and> subseq (concat (map (rels_uids \<circ> relationships) rs)) ys"
proof (induction v env q p incl h and v env q p kvs h and v env q p k x h and v env p i xs h
    arbitrary: r h' and qs h' and fq h' and rs h'
    rule: query_parser_parse_entries_parse_entry_parse_list.induct)
  case (1 v env kvs p incl h)
  then obtain qs where "parse_entries v env (JObj kvs) p kvs h = Inr (qs, h')"
    and "relationships r = concat (map relationships qs)"
    by (auto simp: Let_def flatten_queries_fields split: sum.splits)
  then show ?case using "1.IH" "1.prems"(2) by (simp add: flatten_queries_fields comp_def)
next
  case (4 v env q p k x kvs h)
  from "4.prems"(1) obtain fq h1 qs' where e: "parse_entry v env q p k x h = Inr (fq, h1)"
    and es: "parse_entries v env q p kvs h1 = Inr (qs', h')" and "qs = fq # qs'"
    by (auto split: sum.splits)
  obtain ys1 where 1: "h1 = h @ ys1" "subseq (rels_uids (relationships fq)) ys1"
    using "4.IH"(1) [OF e "4.prems"(2)] by blast
  obtain ys2 where 2: "h' = h1 @ ys2" "subseq (concat (map (rels_uids \<circ> relationships) qs')) ys2"
    using "4.IH"(2) [OF e _ es "4.prems"(2)] by blast
  show ?case
    using 1 2 \<open>qs = fq # qs'\<close> by (auto simp: comp_def intro!: exI [of _ "ys1 @ ys2"] list_emb_append_mono)
next
  case (5 v env q p k x h)
  from "5.prems"(1) show ?case
  proof (cases rule: parse_entry_InrE)
    case (logical qs rs)
    then show ?thesis using "5.IH"(1) [OF refl _ logical(2,3) "5.prems"(2)] classify_key_KLogical [OF logical(1)]
      by (auto simp: flatten_queries_fields comp_def)
  next
    case (branch mt info r)
    note rel = branch(1) [unfolded classify_key_KRelationship]
    have uid: "ri_uid info = get_uid env k h"
      using branch(2) "5.prems"(2) by (simp add: labels_with_uid_def)
    obtain ys where "h' = h @ [get_uid env k h] @ ys" and "subseq (rels_uids (relationships r)) ys"
      using "5.IH"(2) [OF refl _ _ _ _ refl branch(2) refl branch(3) refl branch(4) "5.prems"(2)] rel by auto
    then show ?thesis using branch(5) uid by (auto simp: relationship_branch_def rel_entry_of_def)
  qed (simp_all add: parser_simps)
next
  case (7 v env p i q qs h)
  from "7.prems"(1) obtain r1 h1 rs' where e: "query_parser v env q (p @ [PIdx i]) JUndefined h = Inr (r1, h1)"
    and es: "parse_list v env p (Suc i) qs h1 = Inr (rs', h')" and "rs = r1 # rs'"
    by (auto split: sum.splits)
  obtain ys1 where 1: "h1 = h @ ys1" "subseq (rels_uids (relationships r1)) ys1"
    using "7.IH"(1) [OF e "7.prems"(2)] by blast
  obtain ys2 where 2: "h' = h1 @ ys2" "subseq (concat (map (rels_uids \<circ> relationships) rs')) ys2"
    using "7.IH"(2) [OF e _ es "7.prems"(2)] by blast
  show ?case
    using 1 2 \<open>rs = r1 # rs'\<close> by (auto simp: comp_def intro!: exI [of _ "ys1 @ ys2"] list_emb_append_mono)
qed (auto split: sum.splits)



text \<open>The two programs of the repository.\<close>

definition query_parser_jb :: "env \<Rightarrow> jval \<Rightarrow> path \<Rightarrow> jval \<Rightarrow> string list \<Rightarrow> error + (parse_result \<times> string list)" where
  "query_parser_jb = query_parser JoinBuilder"

definition query_parser_mg :: "env \<Rightarrow> jval \<Rightarrow> path \<Rightarrow> jval \<Rightarrow> string list \<Rightarrow> error + (parse_result \<times> string list)" where
  "query_parser_mg = query_parser Mongoose"

subsection \<open>Properties of the parser\<close>

lemma parse_entries_leaves:
  "\<forall>(k, x) \<in> set kvs. classify_key v k x = KLeaf \<and> simple_tok env q k (p @ [PKey k]) = Inr (tok (k, x)) \<Longrightarrow>
   parse_entries v env q p kvs h = Inr (map (match_only \<circ> tok) kvs, h)"
  by (induction kvs) (auto simp: parser_simps)

definition simple_key :: "variant \<Rightarrow> string \<times> jval \<Rightarrow> bool" where
  "simple_key v kx \<longleftrightarrow> classify_key v (fst kx) (snd kx) \<in> {KModifier, KLeaf}"

definition is_modifier :: "variant \<Rightarrow> string \<times> jval \<Rightarrow> bool" where
  "is_modifier v kx \<longleftrightarrow> classify_key v (fst kx) (snd kx) = KModifier"

lemma parse_entries_simple:
  assumes "\<forall>kx \<in> set kvs. simple_key v kx"
    and "\<forall>(k, x) \<in> set kvs. classify_key v k x = KModifier \<longrightarrow> modifier_tok env q k (p @ [PKey k]) = Inr (stage k)"
    and "\<forall>(k, x) \<in> set kvs. classify_key v k x = KLeaf \<longrightarrow> simple_tok env q k (p @ [PKey k]) = Inr (term k)"
  shows "parse_entries v env q p kvs h =
           Inr (map (\<lambda>(k, x). if is_modifier v (k, x) then pipeline_only (stage k) else match_only (term k)) kvs, h)"
  using assms
  by (induction kvs) (auto simp: parser_simps simple_key_def is_modifier_def)

text \<open>
  The conjuncts of a match term: the operands of an \<open>$and\<close> node, none for an
  absent term, the term itself otherwise.
\<close>

definition and_terms :: "jval \<Rightarrow> jval list" where
  "and_terms t = (case t of JObj [(op, JArr ts)] \<Rightarrow> if op = ''$and'' then ts else [t] | JUndefined \<Rightarrow> [] | _ \<Rightarrow> [t])"

lemma and_terms_join_perm:
  assumes "mset ts = mset ts'"
  shows "mset (and_terms (join_terms ts ''$and'')) = mset (and_terms (join_terms ts' ''$and''))"
proof -
  have len: "length ts = length ts'" using assms by (metis size_mset)
  consider "ts = []" | t where "ts = [t]" | t u us where "ts = t # u # us"
    by (cases ts rule: remdups_adj.cases) auto
  then show ?thesis
  proof cases
    case 1
    then show ?thesis using assms by simp
  next
    case (2 t)
    then have "ts' = [t]" using assms by (metis mset_single_iff_right mset.simps)
    then show ?thesis using 2 by simp
  next
    case (3 t u us)
    then obtain t' u' us' where "ts' = t' # u' # us'" using len by (cases ts' rule: remdups_adj.cases) auto
    then show ?thesis using 3 assms by (simp add: join_terms_simps and_terms_def)
  qed
qed

text \<open>
  A fixture for the witnesses: three to-many relationships \<open>x\<close>, \<open>y\<close>,
  \<open>z\<close> and a scalar field; tokenizers that echo the key; a relationship
  tokenizer whose field is the key up to its first underscore; ObjectId the
  identity; a generator whose token is longer than every token issued before.
\<close>

definition demo_env :: env where
  "demo_env =
     \<lparr>fieldAdapters =
        [\<lparr>isRelationship = True, config_many = JBool True, dbPath = ''x''\<rparr>,
         \<lparr>isRelationship = True, config_many = JBool True, dbPath = ''y''\<rparr>,
         \<lparr>isRelationship = True, config_many = JBool True, dbPath = ''z''\<rparr>,
         \<lparr>isRelationship = False, config_many = JUndefined, dbPath = ''name''\<rparr>],
      simple_tok = (\<lambda>q k p. Inr (JObj [(k, js_get q k)])),
      modifier_tok = (\<lambda>q k p. Inr (JObj [(k, js_get q k)])),
      rel_tok = (\<lambda>k p u. Inr (JObj [(u, JBool True)],
                   \<lparr>ri_field = takeWhile (\<lambda>c. c \<noteq> CHR ''_'') k, ri_many = True, ri_uid = u\<rparr>)),
      object_id = (\<lambda>v. Inr v),
      get_uid = (\<lambda>k h. replicate (Suc (sum_list (map length h))) CHR ''u'')\<rparr>"

lemma demo_env_simps [simp]:
  "simple_tok demo_env = (\<lambda>q k p. Inr (JObj [(k, js_get q k)]))"
  "modifier_tok demo_env = (\<lambda>q k p. Inr (JObj [(k, js_get q k)]))"
  "object_id demo_env = (\<lambda>v. Inr v)"
  "get_uid demo_env = (\<lambda>k h. replicate (Suc (sum_list (map length h))) CHR ''u'')"
  "rel_tok demo_env = (\<lambda>k p u. Inr (JObj [(u, JBool True)],
                   \<lparr>ri_field = takeWhile (\<lambda>c. c \<noteq> CHR ''_'') k, ri_many = True, ri_uid = u\<rparr>))"
  "to_many_paths (fieldAdapters demo_env) = [''x'', ''y'', ''z'']"
  by (simp_all add: demo_env_def to_many_paths_def)

text \<open>The fixture's generator never repeats a token: each is longer than all before.\<close>

lemma demo_env_fresh: "fresh_generator demo_env"
proof (unfold fresh_generator_def, intro allI notI)
  fix k and h :: "string list"
  assume "get_uid demo_env k h \<in> set h"
  then have "length (get_uid demo_env k h) \<le> sum_list (map length h)" by (rule length_le_sum_list)
  then show False by simp
qed

lemma demo_env_labels: "labels_with_uid demo_env"
  by (simp add: labels_with_uid_def)

text \<open>The fixture's run on a filter traversing \<open>y\<close> once: one token, one branch.\<close>

lemma demo_run_branch:
  "query_parser JoinBuilder demo_env (JObj [(''y_some'', JObj [(''name'', JStr ''q'')])]) [] JUndefined [] =
     Inr (\<lparr>matchTerm = JObj [(''u'', JBool True)], postJoinPipeline = [],
           relationships = [RelEntry \<lparr>ri_field = ''y'', ri_many = True, ri_uid = ''u''\<rparr>
                              (JObj [(''name'', JStr ''q'')]) [] [] [''x'', ''y'', ''z'']],
           excludeFields = [''x'', ''y'', ''z'']\<rparr>, [''u''])"
  by (simp add: parser_simps classify_key_def exclude_fields_ignores_branches flat_query.defs
      shortcut_jb_def shortcut_applies_def relationship_branch_def rel_entry_of_def Let_def)

text \<open>
  C1: A filter object made only of scalar leaf keys compiles to the conjunction of the
  leaf predicates, in key order, wrapped in \<open>$and\<close> only when there are two or more;
  it adds no pipeline stage, no relationship branch and draws no token (specification
  section 8, "conjunction default").
\<close>

theorem query_parser_conjunction:
  assumes leaves: "\<forall>(k, x) \<in> set kvs. classify_key v k x = KLeaf"
    and toks: "\<forall>(k, x) \<in> set kvs. simple_tok env (JObj kvs) k (p @ [PKey k]) = Inr (tok k) \<and> truthy (tok k)"
  shows "query_parser v env (JObj kvs) p incl h =
           Inr (\<lparr>matchTerm = join_terms (map (tok \<circ> fst) kvs) ''$and'', postJoinPipeline = [],
                 relationships = [], excludeFields = exclude_fields (fieldAdapters env) [] incl\<rparr>, h)"
proof -
  have "parse_entries v env (JObj kvs) p kvs h = Inr (map (match_only \<circ> (tok \<circ> fst)) kvs, h)"
    using leaves toks by (intro parse_entries_leaves) auto
  moreover have "map (matchTerm \<circ> (\<lambda>(k, x). match_only (tok k))) kvs = map (tok \<circ> fst) kvs"
    by (auto simp: parser_simps)
  moreover have "filter truthy (map (tok \<circ> fst) kvs) = map (tok \<circ> fst) kvs"
    by (rule filter_True) (use toks in fastforce)
  ultimately show ?thesis
    by (simp add: parser_simps case_prod_beta comp_def flat_query.defs)
qed

theorem query_parser_conjunction_witness:
  "query_parser JoinBuilder demo_env (JObj [(''a'', JNum 1), (''b'', JNum 2)]) [] JUndefined [] =
     Inr (\<lparr>matchTerm = JObj [(''$and'', JArr [JObj [(''a'', JNum 1)], JObj [(''b'', JNum 2)]])],
           postJoinPipeline = [], relationships = [], excludeFields = [''x'', ''y'', ''z'']\<rparr>, [])"
proof -
  let ?kvs = "[(''a'', JNum 1), (''b'', JNum 2)]"
  have "\<forall>(k, x) \<in> set ?kvs. classify_key JoinBuilder k x = KLeaf"
    by (simp add: classify_key_def)
  moreover have "\<forall>(k, x) \<in> set ?kvs. simple_tok demo_env (JObj ?kvs) k ([] @ [PKey k]) =
      Inr ((\<lambda>k. JObj [(k, js_get (JObj ?kvs) k)]) k) \<and> truthy ((\<lambda>k. JObj [(k, js_get (JObj ?kvs) k)]) k)"
    by simp
  ultimately show ?thesis
    using query_parser_conjunction [of ?kvs JoinBuilder demo_env "[]" "\<lambda>k. JObj [(k, js_get (JObj ?kvs) k)]"]
    by (simp add: join_terms_simps exclude_fields_ignores_branches)
qed

text \<open>
  C2: An object whose only key is \<open>AND\<close> or \<open>OR\<close> compiles to the flattening of its
  sub-filters' results with \<open>$and\<close> or \<open>$or\<close>: the enclosing implicit conjunction of a
  single key adds no wrapper, the pipelines and branches of the sub-filters are
  concatenated in order (specification section 8, "logical nesting").
\<close>

theorem query_parser_logical:
  assumes "key \<in> {''AND'', ''OR''}"
    and "parse_list v env (p @ [PKey key]) 0 qs h = Inr (rs, h')"
  shows "query_parser v env (JObj [(key, JArr qs)]) p incl h =
           Inr (flat_query.extend (flatten_queries rs (if key = ''AND'' then ''$and'' else ''$or''))
                  \<lparr>excludeFields = exclude_fields (fieldAdapters env) (concat (map relationships rs)) incl\<rparr>, h')"
proof -
  have "classify_key v key (JArr qs) = KLogical"
    using assms(1) by (auto simp: classify_key_def)
  then have "parse_entries v env (JObj [(key, JArr qs)]) p [(key, JArr qs)] h =
               Inr ([flatten_queries rs (logical_op key)], h')"
    using assms(2) by (simp add: parser_simps)
  then show ?thesis by (simp add: parser_simps logical_op_def)
qed

theorem query_parser_logical_witness:
  "query_parser JoinBuilder demo_env (JObj [(''OR'', JArr [JObj [(''a'', JNum 1)], JObj [(''a'', JNum 2)]])]) []
     JUndefined [] =
   Inr (\<lparr>matchTerm = JObj [(''$or'', JArr [JObj [(''a'', JNum 1)], JObj [(''a'', JNum 2)]])],
         postJoinPipeline = [], relationships = [], excludeFields = [''x'', ''y'', ''z'']\<rparr>, [])"
proof -
  let ?r = "\<lambda>n. \<lparr>matchTerm = JObj [(''a'', JNum n)], postJoinPipeline = [], relationships = [],
                  excludeFields = [''x'', ''y'', ''z'']\<rparr>"
  have pl: "parse_list JoinBuilder demo_env ([] @ [PKey ''OR'']) 0 [JObj [(''a'', JNum 1)], JObj [(''a'', JNum 2)]] [] =
      Inr ([?r 1, ?r 2], [])"
    by (simp add: parser_simps classify_key_def exclude_fields_ignores_branches flat_query.defs)
  show ?thesis
    using query_parser_logical [OF _ pl, of JUndefined]
    by (simp add: flatten_queries_def join_terms_simps logical_op_def exclude_fields_ignores_branches)
qed

text \<open>
  C3: A filter that is not an object fails with the parser's own error naming the type
  found and the dotted path of the offending fragment (specification section 7).
\<close>

theorem query_parser_type_mismatch:
  "get_type q \<noteq> ''Object'' \<Longrightarrow>
   query_parser v env q p incl h =
     Inl (QueryError (''Expected an Object for query, got '' @ get_type q @ '' at path '' @ path_join p))"
  by (cases q) (simp_all add: type_mismatch_def)

theorem query_parser_type_mismatch_witness:
  "query_parser JoinBuilder demo_env (JStr ''abc'') [] JUndefined [] =
     Inl (QueryError ''Expected an Object for query, got String at path '')"
  using query_parser_type_mismatch [of "JStr ''abc''" JoinBuilder demo_env "[]" JUndefined "[]"] by simp

text \<open>
  C4: The \<open>excludeFields\<close> of every successful parse are the to-many relationship paths
  minus the include hint, whatever relationship branches the level records.
\<close>

theorem query_parser_exclude_fields:
  "query_parser v env q p incl h = Inr (r, h') \<Longrightarrow>
   excludeFields r = filter (\<lambda>f. \<not> (truthy incl \<and> incl = JStr f)) (to_many_paths (fieldAdapters env))"
  by (cases q) (auto simp: Let_def exclude_fields_ignores_branches split: sum.splits)

theorem query_parser_exclude_fields_witness:
  "query_parser JoinBuilder demo_env (JObj [(''y_some'', JObj [(''name'', JStr ''q'')])]) [] (JStr ''x'') [] =
     Inr (\<lparr>matchTerm = JObj [(''u'', JBool True)], postJoinPipeline = [],
           relationships = [RelEntry \<lparr>ri_field = ''y'', ri_many = True, ri_uid = ''u''\<rparr>
                              (JObj [(''name'', JStr ''q'')]) [] [] [''x'', ''y'', ''z'']],
           excludeFields = [''y'', ''z'']\<rparr>, [''u'']) \<and>
   [''y'', ''z''] = filter (\<lambda>f. \<not> (truthy (JStr ''x'') \<and> JStr ''x'' = JStr f)) (to_many_paths (fieldAdapters demo_env))"
proof -
  have run: "query_parser JoinBuilder demo_env (JObj [(''y_some'', JObj [(''name'', JStr ''q'')])]) [] (JStr ''x'') [] =
     Inr (\<lparr>matchTerm = JObj [(''u'', JBool True)], postJoinPipeline = [],
           relationships = [RelEntry \<lparr>ri_field = ''y'', ri_many = True, ri_uid = ''u''\<rparr>
                              (JObj [(''name'', JStr ''q'')]) [] [] [''x'', ''y'', ''z'']],
           excludeFields = [''y'', ''z'']\<rparr>, [''u''])"
    by (simp add: parser_simps classify_key_def exclude_fields_ignores_branches flat_query.defs
        shortcut_jb_def shortcut_applies_def relationship_branch_def rel_entry_of_def Let_def)
  show ?thesis using query_parser_exclude_fields [OF run] run by simp
qed
text \<open>
  C5: Join-builder shortcut: a relationship filter whose only key is a truthy identity
  predicate, on a key whose suffix the code's table accepts for that predicate, is
  compiled to the direct comparison on the foreign-key field, with no relationship
  branch; one correlation token is still drawn.
\<close>

theorem parse_entry_shortcut_jb:
  assumes "classify_key JoinBuilder k (JObj [(id_key op, i)]) = KRelationship" "truthy i"
    and "rel_tok env k (p @ [PKey k]) (get_uid env k h) = Inr (mt, info)"
    and "table_op table_jb (js_replace k (ri_field info) '''') op = Some m"
    and "operand (object_id env) op i = Inr oi"
  shows "parse_entry JoinBuilder env q p k (JObj [(id_key op, i)]) h =
           Inr (match_only (JObj [(ri_field info, mongo_cond m oi)]), h @ [get_uid env k h])"
  using assms by (simp add: parser_simps shortcut_jb_single)

theorem parse_entry_shortcut_jb_witness:
  "parse_entry JoinBuilder demo_env (JObj [(''author'', JObj [(''id'', JStr ''42'')])]) [] ''author''
     (JObj [(''id'', JStr ''42'')]) [] =
   Inr (match_only (JObj [(''author'', JObj [(''$eq'', JStr ''42'')])]), [''u''])"
proof -
  have c: "classify_key JoinBuilder ''author'' (JObj [(id_key OpEq, JStr ''42'')]) = KRelationship"
    by (simp add: classify_key_def)
  have t: "truthy (JStr ''42'')" by simp
  have r: "rel_tok demo_env ''author'' ([] @ [PKey ''author'']) (get_uid demo_env ''author'' []) =
      Inr (JObj [(''u'', JBool True)], \<lparr>ri_field = ''author'', ri_many = True, ri_uid = ''u''\<rparr>)"
    by simp
  have tb: "table_op table_jb (js_replace ''author'' (ri_field \<lparr>ri_field = ''author'', ri_many = True, ri_uid = ''u''\<rparr>) '''') OpEq = Some MEq"
    by (simp add: table_jb_def)
  have o: "operand (object_id demo_env) OpEq (JStr ''42'') = Inr (JStr ''42'')" by simp
  show ?thesis using parse_entry_shortcut_jb [OF c t r tb o] by simp
qed

text \<open>
  C6: A relationship filter with other than exactly one key never takes the shortcut, in
  either variant: the key yields the tokenizer's match term and one relationship
  branch carrying the parse of the sub-filter.
\<close>

theorem parse_entry_no_shortcut:
  assumes "classify_key v k x = KRelationship" "length (obj_keys x) \<noteq> 1"
    and "rel_tok env k (p @ [PKey k]) (get_uid env k h) = Inr (mt, info)"
    and "query_parser v env x (p @ [PKey k]) JUndefined (h @ [get_uid env k h]) = Inr (r, h')"
  shows "parse_entry v env q p k x h = Inr (relationship_branch mt info r, h')"
proof -
  have "shortcut v env k info x = Inr None"
    using assms(2) by (cases v) (simp_all add: shortcut_jb_not_single shortcut_mg_not_single)
  with assms show ?thesis by (simp add: parser_simps)
qed

theorem parse_entry_no_shortcut_witness:
  "parse_entry Mongoose demo_env JUndefined [] ''y_some'' (JObj [(''id'', JStr ''1''), (''name'', JStr ''q'')]) [] =
   Inr (relationship_branch (JObj [(''u'', JBool True)]) \<lparr>ri_field = ''y'', ri_many = True, ri_uid = ''u''\<rparr>
          \<lparr>matchTerm = JObj [(''$and'', JArr [JObj [(''id'', JStr ''1'')], JObj [(''name'', JStr ''q'')]])],
           postJoinPipeline = [], relationships = [], excludeFields = [''x'', ''y'', ''z'']\<rparr>, [''u''])"
proof -
  have c: "classify_key Mongoose ''y_some'' (JObj [(''id'', JStr ''1''), (''name'', JStr ''q'')]) = KRelationship"
    by (simp add: classify_key_def)
  have q: "query_parser Mongoose demo_env (JObj [(''id'', JStr ''1''), (''name'', JStr ''q'')]) ([] @ [PKey ''y_some''])
      JUndefined ([] @ [get_uid demo_env ''y_some'' []]) =
    Inr (\<lparr>matchTerm = JObj [(''$and'', JArr [JObj [(''id'', JStr ''1'')], JObj [(''name'', JStr ''q'')]])],
           postJoinPipeline = [], relationships = [], excludeFields = [''x'', ''y'', ''z'']\<rparr>, [''u''])"
    by (simp add: parser_simps classify_key_def exclude_fields_ignores_branches flat_query.defs)
  show ?thesis using parse_entry_no_shortcut [OF c _ _ q] by simp
qed

text \<open>
  C7: The history accounts for every token: whatever the generator, the history after a
  compile is the history before it followed by the tokens drawn, and, with a
  relationship tokenizer that labels each branch with the token it is handed, the
  tokens of the returned relationship tree occur among the drawn ones in walk order
  and with their multiplicity.  A walk that lost the history between keys or
  forgot to record a draw would hand out a token the history does not show.
\<close>

theorem query_parser_history_records_branches:
  "labels_with_uid env \<Longrightarrow> query_parser v env q p incl h = Inr (r, h') \<Longrightarrow>
   \<exists>ys. h' = h @ ys \<and> subseq (rels_uids (relationships r)) ys"
  using parser_branch_uids(1) by blast

theorem query_parser_history_records_branches_witness:
  "labels_with_uid demo_env \<and>
   query_parser JoinBuilder demo_env
     (JObj [(''y_some'', JObj [(''name'', JStr ''q'')]), (''x_every'', JObj [(''name'', JStr ''r'')])]) [] JUndefined [] =
     Inr (\<lparr>matchTerm = JObj [(''$and'', JArr [JObj [(''u'', JBool True)], JObj [(''uu'', JBool True)]])],
           postJoinPipeline = [],
           relationships = [RelEntry \<lparr>ri_field = ''y'', ri_many = True, ri_uid = ''u''\<rparr>
                              (JObj [(''name'', JStr ''q'')]) [] [] [''x'', ''y'', ''z''],
                            RelEntry \<lparr>ri_field = ''x'', ri_many = True, ri_uid = ''uu''\<rparr>
                              (JObj [(''name'', JStr ''r'')]) [] [] [''x'', ''y'', ''z'']],
           excludeFields = [''x'', ''y'', ''z'']\<rparr>, [''u'', ''uu'']) \<and>
   subseq [''u'', ''uu''] [''u'', ''uu'']"
proof -
  have run: "query_parser JoinBuilder demo_env
     (JObj [(''y_some'', JObj [(''name'', JStr ''q'')]), (''x_every'', JObj [(''name'', JStr ''r'')])]) [] JUndefined [] =
     Inr (\<lparr>matchTerm = JObj [(''$and'', JArr [JObj [(''u'', JBool True)], JObj [(''uu'', JBool True)]])],
           postJoinPipeline = [],
           relationships = [RelEntry \<lparr>ri_field = ''y'', ri_many = True, ri_uid = ''u''\<rparr>
                              (JObj [(''name'', JStr ''q'')]) [] [] [''x'', ''y'', ''z''],
                            RelEntry \<lparr>ri_field = ''x'', ri_many = True, ri_uid = ''uu''\<rparr>
                              (JObj [(''name'', JStr ''r'')]) [] [] [''x'', ''y'', ''z'']],
           excludeFields = [''x'', ''y'', ''z'']\<rparr>, [''u'', ''uu''])"
    by (simp add: parser_simps classify_key_def exclude_fields_ignores_branches flat_query.defs
        shortcut_jb_def shortcut_applies_def relationship_branch_def rel_entry_of_def Let_def
        flatten_queries_def join_terms_simps)
  show ?thesis using query_parser_history_records_branches [OF demo_env_labels run] demo_env_labels run by simp
qed

text \<open>
  C20: With a generator that never repeats a token and a relationship tokenizer that
  labels each branch with the token it is handed, the branches of the relationship tree
  a compile returns carry pairwise distinct correlation tokens, none issued before the
  compile: every lookup the pipeline builds from them has its own name.
\<close>

theorem query_parser_branch_uids_distinct:
  assumes "fresh_generator env" and "labels_with_uid env" and "distinct h"
    and "query_parser v env q p incl h = Inr (r, h')"
  shows "distinct (rels_uids (relationships r)) \<and> set (rels_uids (relationships r)) \<inter> set h = {}"
proof -
  obtain ys where h': "h' = h @ ys" and sub: "subseq (rels_uids (relationships r)) ys"
    using parser_branch_uids(1) [OF assms(4,2)] by blast
  have "distinct h'" using query_parser_distinct_history [OF assms(1,3,4)] .
  then have "distinct ys" and "set ys \<inter> set h = {}" using h' by auto
  moreover have "set (rels_uids (relationships r)) \<subseteq> set ys" using sub by (auto dest: list_emb_set)
  ultimately show ?thesis using subseq_distinct [OF sub] by blast
qed

theorem query_parser_branch_uids_distinct_witness:
  "query_parser JoinBuilder demo_env (JObj [(''y_some'', JObj [(''x_every'', JObj [(''name'', JStr ''q'')])])]) []
     JUndefined [] =
   Inr (\<lparr>matchTerm = JObj [(''u'', JBool True)], postJoinPipeline = [],
         relationships = [RelEntry \<lparr>ri_field = ''y'', ri_many = True, ri_uid = ''u''\<rparr>
                            (JObj [(''uu'', JBool True)]) []
                            [RelEntry \<lparr>ri_field = ''x'', ri_many = True, ri_uid = ''uu''\<rparr>
                               (JObj [(''name'', JStr ''q'')]) [] [] [''x'', ''y'', ''z'']]
                            [''x'', ''y'', ''z'']],
         excludeFields = [''x'', ''y'', ''z'']\<rparr>, [''u'', ''uu'']) \<and>
   rels_uids [RelEntry \<lparr>ri_field = ''y'', ri_many = True, ri_uid = ''u''\<rparr>
                            (JObj [(''uu'', JBool True)]) []
                            [RelEntry \<lparr>ri_field = ''x'', ri_many = True, ri_uid = ''uu''\<rparr>
                               (JObj [(''name'', JStr ''q'')]) [] [] [''x'', ''y'', ''z'']]
                            [''x'', ''y'', ''z'']] = [''u'', ''uu''] \<and>
   distinct [''u'', ''uu'']"
proof -
  have run: "query_parser JoinBuilder demo_env (JObj [(''y_some'', JObj [(''x_every'', JObj [(''name'', JStr ''q'')])])]) []
     JUndefined [] =
   Inr (\<lparr>matchTerm = JObj [(''u'', JBool True)], postJoinPipeline = [],
         relationships = [RelEntry \<lparr>ri_field = ''y'', ri_many = True, ri_uid = ''u''\<rparr>
                            (JObj [(''uu'', JBool True)]) []
                            [RelEntry \<lparr>ri_field = ''x'', ri_many = True, ri_uid = ''uu''\<rparr>
                               (JObj [(''name'', JStr ''q'')]) [] [] [''x'', ''y'', ''z'']]
                            [''x'', ''y'', ''z'']],
         excludeFields = [''x'', ''y'', ''z'']\<rparr>, [''u'', ''uu''])"
    by (simp add: parser_simps classify_key_def exclude_fields_ignores_branches flat_query.defs
        shortcut_jb_def shortcut_applies_def relationship_branch_def rel_entry_of_def Let_def)
  show ?thesis
    using query_parser_branch_uids_distinct [OF demo_env_fresh demo_env_labels _ run] run by simp
qed

text \<open>
  C23: A filter made of modifier keys and scalar leaves compiles to the conjunction of
  the leaf predicates and a pipeline holding the modifier stages in the order their keys
  appear, with no branch and no token (specification section 4.1: the pipeline keeps the
  relative order of the modifiers).
\<close>

theorem query_parser_modifiers_in_order:
  assumes "\<forall>kx \<in> set kvs. simple_key v kx"
    and "\<forall>(k, x) \<in> set kvs. classify_key v k x = KModifier \<longrightarrow> modifier_tok env (JObj kvs) k (p @ [PKey k]) = Inr (stage k)"
    and "\<forall>(k, x) \<in> set kvs. classify_key v k x = KLeaf \<longrightarrow> simple_tok env (JObj kvs) k (p @ [PKey k]) = Inr (term k)"
  shows "query_parser v env (JObj kvs) p incl h =
           Inr (\<lparr>matchTerm = join_terms (filter truthy (map (term \<circ> fst) (filter (Not \<circ> is_modifier v) kvs))) ''$and'',
                 postJoinPipeline = filter truthy (map (stage \<circ> fst) (filter (is_modifier v) kvs)),
                 relationships = [], excludeFields = exclude_fields (fieldAdapters env) [] incl\<rparr>, h)"
proof -
  have pe: "parse_entries v env (JObj kvs) p kvs h =
           Inr (map (\<lambda>(k, x). if is_modifier v (k, x) then pipeline_only (stage k) else match_only (term k)) kvs, h)"
    using assms by (rule parse_entries_simple)
  have m: "filter truthy (map (matchTerm \<circ> (\<lambda>(k, x). if is_modifier v (k, x) then pipeline_only (stage k) else match_only (term k))) kvs) =
           filter truthy (map (term \<circ> fst) (filter (Not \<circ> is_modifier v) kvs))"
    by (induction kvs) (auto simp: parser_simps)
  have s: "concat (map (postJoinPipeline \<circ> (\<lambda>(k, x). if is_modifier v (k, x) then pipeline_only (stage k) else match_only (term k))) kvs) =
           map (stage \<circ> fst) (filter (is_modifier v) kvs)"
    by (induction kvs) (auto simp: parser_simps)
  have rl: "\<forall>kx \<in> set kvs. relationships ((\<lambda>(k, x). if is_modifier v (k, x) then pipeline_only (stage k) else match_only (term k)) kx) = []"
    by (auto simp: parser_simps)
  show ?thesis
    using pe m s rl by (simp add: parser_simps flat_query.defs exclude_fields_ignores_branches)
qed

theorem query_parser_modifiers_in_order_witness:
  "query_parser JoinBuilder demo_env
     (JObj [(''a'', JNum 1), (''$skip'', JNum 5), (''b'', JNum 2), (''$first'', JNum 3)]) [] JUndefined [] =
   Inr (\<lparr>matchTerm = JObj [(''$and'', JArr [JObj [(''a'', JNum 1)], JObj [(''b'', JNum 2)]])],
         postJoinPipeline = [JObj [(''$skip'', JNum 5)], JObj [(''$first'', JNum 3)]],
         relationships = [], excludeFields = [''x'', ''y'', ''z'']\<rparr>, [])"
proof -
  let ?kvs = "[(''a'', JNum 1), (''$skip'', JNum 5), (''b'', JNum 2), (''$first'', JNum 3)]"
  let ?f = "\<lambda>k. JObj [(k, js_get (JObj ?kvs) k)]"
  have s: "\<forall>kx \<in> set ?kvs. simple_key JoinBuilder kx" by (simp add: simple_key_def classify_key_def)
  have m: "\<forall>(k, x) \<in> set ?kvs. classify_key JoinBuilder k x = KModifier \<longrightarrow>
      modifier_tok demo_env (JObj ?kvs) k ([] @ [PKey k]) = Inr (?f k)" by simp
  have l: "\<forall>(k, x) \<in> set ?kvs. classify_key JoinBuilder k x = KLeaf \<longrightarrow>
      simple_tok demo_env (JObj ?kvs) k ([] @ [PKey k]) = Inr (?f k)" by simp
  show ?thesis using query_parser_modifiers_in_order [OF s m l, of JUndefined "[]"]
    by (simp add: is_modifier_def classify_key_def join_terms_simps exclude_fields_ignores_branches)
qed

text \<open>
  C25: An identity key whose value is an object is passed through as the native
  comparison \<open>{_id: value}\<close>, with no tokenizer consulted and no token drawn
  (specification section 4.1, identity key).
\<close>

theorem query_parser_identity_passthrough:
  assumes "get_type x = ''Object''"
  shows "query_parser v env (JObj [(''id'', x)]) p incl h =
           Inr (\<lparr>matchTerm = JObj [(''_id'', x)], postJoinPipeline = [], relationships = [],
                 excludeFields = exclude_fields (fieldAdapters env) [] incl\<rparr>, h)"
proof -
  have "classify_key v ''id'' x = KIdentity" using assms by (cases v) (simp_all add: classify_key_def)
  then show ?thesis by (simp add: parser_simps flat_query.defs)
qed

theorem query_parser_identity_passthrough_witness:
  "query_parser Mongoose demo_env (JObj [(''id'', JObj [(''$gt'', JStr ''5'')])]) [] JUndefined [] =
     Inr (\<lparr>matchTerm = JObj [(''_id'', JObj [(''$gt'', JStr ''5'')])], postJoinPipeline = [], relationships = [],
           excludeFields = [''x'', ''y'', ''z'']\<rparr>, [])"
  using query_parser_identity_passthrough [of "JObj [(''$gt'', JStr ''5'')]" Mongoose demo_env "[]" JUndefined "[]"]
  by (simp add: exclude_fields_ignores_branches)
text \<open>
  C27: The order of the keys does not matter to the conjunction: two filters listing the
  same scalar leaves in different orders compile, without error and without drawing a
  token, to match terms with the same multiset of conjuncts (specification section 8,
  "conjunction default": order of leaves irrelevant, both present).
\<close>

theorem query_parser_conjunction_perm:
  assumes perm: "mset kvs = mset kvs'"
    and leaves: "\<forall>(k, x) \<in> set kvs. classify_key v k x = KLeaf \<and> truthy (tok (k, x)) \<and>
        simple_tok env (JObj kvs) k (p @ [PKey k]) = Inr (tok (k, x)) \<and>
        simple_tok env (JObj kvs') k (p @ [PKey k]) = Inr (tok (k, x))"
  shows "\<exists>r r'. query_parser v env (JObj kvs) p incl h = Inr (r, h) \<and>
           query_parser v env (JObj kvs') p incl h = Inr (r', h) \<and>
           mset (and_terms (matchTerm r)) = mset (and_terms (matchTerm r'))"
proof -
  have set_eq: "set kvs' = set kvs" using perm by (metis set_mset_mset)
  have "parse_entries v env (JObj kvs) p kvs h = Inr (map (match_only \<circ> tok) kvs, h)"
    using leaves by (intro parse_entries_leaves) auto
  moreover have "parse_entries v env (JObj kvs') p kvs' h = Inr (map (match_only \<circ> tok) kvs', h)"
    using leaves set_eq by (intro parse_entries_leaves) auto
  moreover have "filter truthy (map tok kvs) = map tok kvs" "filter truthy (map tok kvs') = map tok kvs'"
    using leaves set_eq by (fastforce intro: filter_True)+
  moreover have "mset (map tok kvs) = mset (map tok kvs')" using perm by simp
  ultimately show ?thesis
    using and_terms_join_perm [of "map tok kvs" "map tok kvs'"]
    by (simp add: parser_simps comp_def)
qed

theorem query_parser_conjunction_perm_witness:
  "\<exists>r r'. query_parser JoinBuilder demo_env (JObj [(''a'', JNum 1), (''b'', JNum 2)]) [] JUndefined [] = Inr (r, []) \<and>
     query_parser JoinBuilder demo_env (JObj [(''b'', JNum 2), (''a'', JNum 1)]) [] JUndefined [] = Inr (r', []) \<and>
     mset (and_terms (matchTerm r)) = mset (and_terms (matchTerm r'))"
proof -
  have perm: "mset [(''a'', JNum 1), (''b'', JNum 2)] = mset [(''b'', JNum 2), (''a'', JNum 1)]" by simp
  have l: "\<forall>(k, x) \<in> set [(''a'', JNum 1), (''b'', JNum 2)]. classify_key JoinBuilder k x = KLeaf \<and>
      truthy ((\<lambda>(k, x). JObj [(k, x)]) (k, x)) \<and>
      simple_tok demo_env (JObj [(''a'', JNum 1), (''b'', JNum 2)]) k ([] @ [PKey k]) = Inr ((\<lambda>(k, x). JObj [(k, x)]) (k, x)) \<and>
      simple_tok demo_env (JObj [(''b'', JNum 2), (''a'', JNum 1)]) k ([] @ [PKey k]) = Inr ((\<lambda>(k, x). JObj [(k, x)]) (k, x))"
    by (simp add: classify_key_def)
  show ?thesis using query_parser_conjunction_perm [OF perm l, of JUndefined "[]"] by simp
qed

end
