(* ===== verification/Results.thy ===== *)
theory Results
  imports Parser
begin

text \<open>
  The shape of the parse results: the depth of the relationship tree, and the
  well-formedness of every result the parser returns.
\<close>

subsection \<open>The shape of the relationship tree\<close>

text \<open>
  Every relationship branch comes from an object-valued key of the filter, so the
  tree of branches is no deeper than the filter's nesting: the four functions are
  bounded together, each by the depth of the value it walks.
\<close>

lemma parser_rel_depth:
  "query_parser v env q p incl h = Inr (r, h') \<Longrightarrow> \<forall>e \<in> set (relationships r). rel_depth e < jdepth q"
  "parse_entries v env q p kvs h = Inr (qs, h') \<Longrightarrow> \<forall>(k, x) \<in> set kvs. jdepth x \<le> n \<Longrightarrow>
     \<forall>fq \<in> set qs. \<forall>e \<in> set (relationships fq). rel_depth e \<le> n"
  "parse_entry v env q p k x h = Inr (fq, h') \<Longrightarrow> jdepth x \<le> n \<Longrightarrow>
     \<forall>e \<in> set (relationships fq). rel_depth e \<le> n"
  "parse_list v env p i xs h = Inr (rs, h') \<Longrightarrow> \<forall>q \<in> set xs. jdepth q \<le> n \<Longrightarrow>
     \<forall>r \<in> set rs. \<forall>e \<in> set (relationships r). rel_depth e \<le> n"
proof (induction v env q p incl h and v env q p kvs h and v env q p k x h and v env p i xs h
    arbitrary: r h' and qs h' n and fq h' n and rs h' n
    rule: query_parser_parse_entries_parse_entry_parse_list.induct)
  case (1 v env kvs p incl h)
  then obtain qs where "parse_entries v env (JObj kvs) p kvs h = Inr (qs, h')"
    and "relationships r = concat (map relationships qs)"
    by (auto simp: Let_def flatten_queries_fields split: sum.splits)
  moreover have "\<forall>(k, x) \<in> set kvs. jdepth x \<le> Max (set (0 # map (jdepth \<circ> snd) kvs))"
    using jdepth_entry_le by fast
  ultimately show ?case using "1.IH" [of qs h' "Max (set (0 # map (jdepth \<circ> snd) kvs))"]
    by (fastforce simp: parser_simps)
next
  case (4 v env q p k x kvs h)
  from "4.prems"(1) obtain fq h1 qs' where e: "parse_entry v env q p k x h = Inr (fq, h1)"
    and es: "parse_entries v env q p kvs h1 = Inr (qs', h')" and "qs = fq # qs'"
    by (auto split: sum.splits)
  then show ?case using "4.IH"(1) [OF e] "4.IH"(2) [OF e _ es] "4.prems"(2) by auto
next
  case (5 v env q p k x h)
  from "5.prems"(1) show ?case
  proof (cases rule: parse_entry_InrE)
    case (logical qs rs)
    define M where "M = Max (set (0 # map jdepth qs))"
    have "\<forall>q \<in> set qs. jdepth q \<le> M" unfolding M_def by (simp add: Max_map_ge)
    then have "\<forall>r \<in> set rs. \<forall>e \<in> set (relationships r). rel_depth e \<le> M"
      using "5.IH"(1) [OF refl _ logical(2,3)] classify_key_KLogical [OF logical(1)] by auto
    moreover have "M < n" using "5.prems"(2) unfolding logical(2) jdepth.simps M_def by linarith
    ultimately show ?thesis using logical(4) by (fastforce simp: flatten_queries_fields)
  next
    case (branch mt info r)
    note rel = branch(1) [unfolded classify_key_KRelationship]
    have "\<forall>e \<in> set (relationships r). rel_depth e < jdepth x"
      using "5.IH"(2) [OF refl _ _ _ _ refl branch(2) refl branch(3) refl branch(4)] rel by simp
    moreover have "0 < jdepth x" using rel by (cases x) simp_all
    ultimately have "Max (set (0 # map rel_depth (relationships r))) < jdepth x"
      unfolding Max_zero_less_iff by simp
    then have "rel_depth (rel_entry_of info r) \<le> n"
      using "5.prems"(2) by (simp only: rel_entry_of_def rel_depth.simps)
    then show ?thesis unfolding branch(5) relationship_branch_def by simp
  qed (simp_all add: parser_simps)
next
  case (7 v env p i q qs h)
  from "7.prems"(1) obtain r1 h1 rs' where e: "query_parser v env q (p @ [PIdx i]) JUndefined h = Inr (r1, h1)"
    and es: "parse_list v env p (Suc i) qs h1 = Inr (rs', h')" and "rs = r1 # rs'"
    by (auto split: sum.splits)
  then show ?case using "7.IH"(1) [OF e] "7.IH"(2) [OF e _ es] "7.prems"(2) by fastforce
qed (auto split: sum.splits)
subsection \<open>Well-formed parse results\<close>

text \<open>
  The typing of a parse result against the list \<open>tm\<close> of to-many paths: its
  match term is absent or a predicate, its pipeline has no empty stage, its
  excluded fields are to-many paths, and every branch of its relationship tree is
  typed the same way (\<open>wf_rel\<close>, an inductive judgement over the tree).
\<close>

definition wf_term :: "jval \<Rightarrow> bool" where
  "wf_term t \<longleftrightarrow> t = JUndefined \<or> truthy t"

inductive wf_rel :: "string list \<Rightarrow> rel_entry \<Rightarrow> bool" for tm :: "string list" where
  "\<lbrakk>wf_term m; \<forall>s \<in> set p. truthy s; \<forall>e \<in> set rs. wf_rel tm e; set xs \<subseteq> set tm\<rbrakk>
   \<Longrightarrow> wf_rel tm (RelEntry i m p rs xs)"

code_pred wf_rel .

inductive_simps wf_rel_simps [simp]: "wf_rel tm (RelEntry i m p rs xs)"

definition wf_result :: "string list \<Rightarrow> parse_result \<Rightarrow> bool" where
  "wf_result tm r \<longleftrightarrow>
     wf_term (matchTerm r) \<and> (\<forall>s \<in> set (postJoinPipeline r). truthy s) \<and>
     (\<forall>e \<in> set (relationships r). wf_rel tm e) \<and> set (excludeFields r) \<subseteq> set tm"

lemma parser_wf:
  "query_parser v env q p incl h = Inr (r, h') \<Longrightarrow> wf_result (to_many_paths (fieldAdapters env)) r"
  "parse_entries v env q p kvs h = Inr (qs, h') \<Longrightarrow>
     \<forall>fq \<in> set qs. \<forall>e \<in> set (relationships fq). wf_rel (to_many_paths (fieldAdapters env)) e"
  "parse_entry v env q p k x h = Inr (fq, h') \<Longrightarrow>
     \<forall>e \<in> set (relationships fq). wf_rel (to_many_paths (fieldAdapters env)) e"
  "parse_list v env p i xs h = Inr (rs, h') \<Longrightarrow> \<forall>r \<in> set rs. wf_result (to_many_paths (fieldAdapters env)) r"
proof (induction v env q p incl h and v env q p kvs h and v env q p k x h and v env p i xs h
    arbitrary: r h' and qs h' and fq h' and rs h'
    rule: query_parser_parse_entries_parse_entry_parse_list.induct)
  case (1 v env kvs p incl h)
  then show ?case using join_terms_filter_cases
    by (fastforce simp: Let_def wf_result_def wf_term_def flatten_queries_fields exclude_fields_def
        to_many_paths_def split: sum.splits)
next
  case (4 v env q p k x kvs h)
  from "4.prems"(1) obtain fq h1 qs' where e: "parse_entry v env q p k x h = Inr (fq, h1)"
    and es: "parse_entries v env q p kvs h1 = Inr (qs', h')" and "qs = fq # qs'"
    by (auto split: sum.splits)
  then show ?case using "4.IH"(1) [OF e] "4.IH"(2) [OF e _ es] by auto
next
  case (5 v env q p k x h)
  from "5.prems" show ?case
  proof (cases rule: parse_entry_InrE)
    case (logical qs rs)
    then show ?thesis using "5.IH"(1) [OF refl _ logical(2,3)] classify_key_KLogical [OF logical(1)]
      by (auto simp: flatten_queries_fields wf_result_def)
  next
    case (branch mt info r)
    note rel = branch(1) [unfolded classify_key_KRelationship]
    have "wf_result (to_many_paths (fieldAdapters env)) r"
      using "5.IH"(2) [OF refl _ _ _ _ refl branch(2) refl branch(3) refl branch(4)] rel by simp
    then show ?thesis using branch(5)
      by (simp add: relationship_branch_def rel_entry_of_def wf_result_def)
  qed (simp_all add: parser_simps)
next
  case (7 v env p i q qs h)
  from "7.prems"(1) obtain r1 h1 rs' where e: "query_parser v env q (p @ [PIdx i]) JUndefined h = Inr (r1, h1)"
    and es: "parse_list v env p (Suc i) qs h1 = Inr (rs', h')" and "rs = r1 # rs'"
    by (auto split: sum.splits)
  then show ?case using "7.IH"(1) [OF e] "7.IH"(2) [OF e _ es] by auto
qed (auto split: sum.splits)

subsection \<open>Tokens drawn\<close>

text \<open>
  A token is drawn only for a key whose value is an object, so a compile draws
  fewer tokens than the filter has objects.
\<close>

lemma parser_token_count:
  "query_parser v env q p incl h = Inr (r, h') \<Longrightarrow> length h' + 1 \<le> length h + jobjs q"
  "parse_entries v env q p kvs h = Inr (qs, h') \<Longrightarrow> length h' \<le> length h + sum_list (map (jobjs \<circ> snd) kvs)"
  "parse_entry v env q p k x h = Inr (fq, h') \<Longrightarrow> length h' \<le> length h + jobjs x"
  "parse_list v env p i xs h = Inr (rs, h') \<Longrightarrow> length h' \<le> length h + sum_list (map jobjs xs)"
proof (induction v env q p incl h and v env q p kvs h and v env q p k x h and v env p i xs h
    arbitrary: r h' and qs h' and fq h' and rs h'
    rule: query_parser_parse_entries_parse_entry_parse_list.induct)
  case (4 v env q p k x kvs h)
  from "4.prems"(1) obtain fq h1 qs' where e: "parse_entry v env q p k x h = Inr (fq, h1)"
    and es: "parse_entries v env q p kvs h1 = Inr (qs', h')"
    by (auto split: sum.splits)
  then show ?case using "4.IH"(1) [OF e] "4.IH"(2) [OF e _ es] by simp
next
  case (5 v env q p k x h)
  from "5.prems"(1) show ?case
  proof (cases rule: parse_entry_InrE)
    case (logical qs rs)
    then show ?thesis using "5.IH"(1) [OF refl _ logical(2,3)] classify_key_KLogical [OF logical(1)]
      by auto
  next
    case (branch mt info r)
    note rel = branch(1) [unfolded classify_key_KRelationship]
    show ?thesis
      using "5.IH"(2) [OF refl _ _ _ _ refl branch(2) refl branch(3) refl branch(4)] rel by simp
  next
    case (shortcut mt info c)
    then show ?thesis by (cases x) (simp_all add: classify_key_KRelationship)
  qed simp
next
  case (7 v env p i q qs h)
  from "7.prems"(1) obtain r1 h1 rs' where e: "query_parser v env q (p @ [PIdx i]) JUndefined h = Inr (r1, h1)"
    and es: "parse_list v env p (Suc i) qs h1 = Inr (rs', h')"
    by (auto split: sum.splits)
  then show ?case using "7.IH"(1) [OF e] "7.IH"(2) [OF e _ es] by simp
qed (auto simp: Let_def split: sum.splits)

subsection \<open>Properties\<close>

text \<open>
  C19: The relationship tree a successful compile returns is strictly shallower than the
  filter's nesting of objects and arrays: the branch tree mirrors the filter and has no
  level the filter lacks (specification section 3).
\<close>

theorem query_parser_rel_depth:
  assumes "query_parser v env q p incl h = Inr (r, h')"
  shows "rels_depth (relationships r) < jdepth q"
proof -
  have "0 < jdepth q" using assms by (cases q) simp_all
  then show ?thesis
    using parser_rel_depth(1) [OF assms] unfolding rels_depth_def Max_zero_less_iff by simp
qed

theorem query_parser_rel_depth_witness:
  "query_parser JoinBuilder demo_env (JObj [(''y_some'', JObj [(''name'', JStr ''q'')])]) [] JUndefined [] =
     Inr (\<lparr>matchTerm = JObj [(''u'', JBool True)], postJoinPipeline = [],
           relationships = [RelEntry \<lparr>ri_field = ''y'', ri_many = True, ri_uid = ''u''\<rparr>
                              (JObj [(''name'', JStr ''q'')]) [] [] [''x'', ''y'', ''z'']],
           excludeFields = [''x'', ''y'', ''z'']\<rparr>, [''u'']) \<and>
   rels_depth [RelEntry \<lparr>ri_field = ''y'', ri_many = True, ri_uid = ''u''\<rparr>
                (JObj [(''name'', JStr ''q'')]) [] [] [''x'', ''y'', ''z'']] = 1 \<and>
   jdepth (JObj [(''y_some'', JObj [(''name'', JStr ''q'')])]) = 2"
proof -
  note run = demo_run_branch
  show ?thesis using query_parser_rel_depth [OF run] run by (simp add: rels_depth_def)
qed

text \<open>
  C21: Every parse result the parser returns is well-formed: its match term is absent or
  a predicate, its pipeline has no empty stage, its excluded fields are to-many paths,
  and so is every branch of its relationship tree, at every depth (specification
  section 3, the ParseResult shape).
\<close>

theorem query_parser_well_formed:
  "query_parser v env q p incl h = Inr (r, h') \<Longrightarrow> wf_result (to_many_paths (fieldAdapters env)) r"
  by (rule parser_wf(1))

theorem query_parser_well_formed_witness:
  "query_parser JoinBuilder demo_env (JObj [(''y_some'', JObj [(''name'', JStr ''q'')])]) [] JUndefined [] =
     Inr (\<lparr>matchTerm = JObj [(''u'', JBool True)], postJoinPipeline = [],
           relationships = [RelEntry \<lparr>ri_field = ''y'', ri_many = True, ri_uid = ''u''\<rparr>
                              (JObj [(''name'', JStr ''q'')]) [] [] [''x'', ''y'', ''z'']],
           excludeFields = [''x'', ''y'', ''z'']\<rparr>, [''u'']) \<and>
   wf_result [''x'', ''y'', ''z''] \<lparr>matchTerm = JObj [(''u'', JBool True)], postJoinPipeline = [],
           relationships = [RelEntry \<lparr>ri_field = ''y'', ri_many = True, ri_uid = ''u''\<rparr>
                              (JObj [(''name'', JStr ''q'')]) [] [] [''x'', ''y'', ''z'']],
           excludeFields = [''x'', ''y'', ''z'']\<rparr>"
  using query_parser_well_formed [OF demo_run_branch] demo_run_branch by simp

text \<open>
  C22: A compile draws fewer correlation tokens than the filter has objects: one at most
  for every object-valued key below the root, none for the root itself.
\<close>

theorem query_parser_token_bound:
  "query_parser v env q p incl h = Inr (r, h') \<Longrightarrow> length h' - length h < jobjs q"
proof -
  assume run: "query_parser v env q p incl h = Inr (r, h')"
  have "length h \<le> length h'" using query_parser_history_prefix [OF run] by (rule prefix_length_le)
  with parser_token_count(1) [OF run] show ?thesis by arith
qed

theorem query_parser_token_bound_witness:
  "query_parser JoinBuilder demo_env (JObj [(''y_some'', JObj [(''name'', JStr ''q'')])]) [] JUndefined [] =
     Inr (\<lparr>matchTerm = JObj [(''u'', JBool True)], postJoinPipeline = [],
           relationships = [RelEntry \<lparr>ri_field = ''y'', ri_many = True, ri_uid = ''u''\<rparr>
                              (JObj [(''name'', JStr ''q'')]) [] [] [''x'', ''y'', ''z'']],
           excludeFields = [''x'', ''y'', ''z'']\<rparr>, [''u'']) \<and>
   length [''u''] - length ([] :: string list) < jobjs (JObj [(''y_some'', JObj [(''name'', JStr ''q'')])]) \<and>
   jobjs (JObj [(''y_some'', JObj [(''name'', JStr ''q'')])]) = 2"
  using query_parser_token_bound [OF demo_run_branch] demo_run_branch by simp

end
