(* ===== verification/Errors.thy ===== *)
theory Errors
  imports Parser
begin

text \<open>
  The error behaviour of \<open>queryParser\<close>: the JavaScript exceptions the code raises
  on values of the wrong shape, and the propagation of every error, unchanged and
  with no partial result, in the order the keys are walked.
\<close>

text \<open>The walk of a key list is the walk of its first part followed by the walk of the rest.\<close>

lemma parse_entries_append:
  "parse_entries v env q p (kvs1 @ kvs2) h =
     (case parse_entries v env q p kvs1 h of
        Inl e \<Rightarrow> Inl e
      | Inr (qs1, h1) \<Rightarrow> map_sum id (\<lambda>(qs2, h2). (qs1 @ qs2, h2)) (parse_entries v env q p kvs2 h1))"
  by (induction kvs1 arbitrary: h) (auto simp: sum.map_id split: sum.splits)

subsection \<open>Progress\<close>

text \<open>
  The only exceptions of a compile whose collaborators (tokenizers, ObjectId) do not
  throw are the ones of the parser itself: a filter or an \<open>AND\<close>/\<open>OR\<close> element that
  is not an object, an \<open>AND\<close>/\<open>OR\<close> value that is not an array, and a truthy
  \<open>id_in\<close>/\<open>id_not_in\<close> of a relationship sub-filter that is not an array.
  \<open>shape_ok\<close> excludes the three shapes at every depth, following the walk of
  \<open>queryParser\<close> key by key.
\<close>

fun array_or_falsy :: "jval \<Rightarrow> bool" where
  "array_or_falsy (JArr xs) = True"
| "array_or_falsy v = (\<not> truthy v)"

definition ids_arrays :: "jval \<Rightarrow> bool" where
  "ids_arrays x \<longleftrightarrow> array_or_falsy (js_get x ''id_in'') \<and> array_or_falsy (js_get x ''id_not_in'')"

function (sequential) shape_ok :: "jval \<Rightarrow> bool"
and shape_ok_entries :: "(string \<times> jval) list \<Rightarrow> bool"
and shape_ok_entry :: "string \<Rightarrow> jval \<Rightarrow> bool"
and shape_ok_list :: "jval list \<Rightarrow> bool"
where
  "shape_ok (JObj kvs) = shape_ok_entries kvs"
| "shape_ok _ = False"
| "shape_ok_entries [] = True"
| "shape_ok_entries ((k, x) # kvs) = (shape_ok_entry k x \<and> shape_ok_entries kvs)"
| "shape_ok_entry k x =
     (if k \<in> set [''AND'', ''OR''] then (case x of JArr qs \<Rightarrow> shape_ok_list qs | _ \<Rightarrow> False)
      else if k \<noteq> ''id'' \<and> get_type x = ''Object'' then ids_arrays x \<and> shape_ok x
      else True)"
| "shape_ok_list [] = True"
| "shape_ok_list (q # qs) = (shape_ok q \<and> shape_ok_list qs)"
  by pat_completeness auto
termination
  by (relation "measure (\<lambda>x. case x of
       Inl (Inl q) \<Rightarrow> 3 * jsize q
     | Inl (Inr kvs) \<Rightarrow> 3 * sum_list (map (jsize \<circ> snd) kvs) + 2
     | Inr (Inl (k, x)) \<Rightarrow> 3 * jsize x + 1
     | Inr (Inr qs) \<Rightarrow> 3 * sum_list (map jsize qs) + 2)") auto

definition collaborators_total :: "env \<Rightarrow> bool" where
  "collaborators_total env \<longleftrightarrow>
     (\<forall>q k p e. simple_tok env q k p \<noteq> Inl e) \<and> (\<forall>q k p e. modifier_tok env q k p \<noteq> Inl e) \<and>
     (\<forall>k p u e. rel_tok env k p u \<noteq> Inl e) \<and> (\<forall>x e. object_id env x \<noteq> Inl e)"

text \<open>
  With collaborators that do not throw, the shortcut does not throw on a sub-filter
  whose id lists are arrays, and a compile of a filter of the right shape returns.
\<close>

lemma object_ids_not_Inl:
  "\<forall>x e. oid x \<noteq> Inl e \<Longrightarrow> array_or_falsy v \<Longrightarrow> truthy v \<Longrightarrow> object_ids oid n v \<noteq> Inl e"
  by (cases v) (auto simp: object_ids_def dest: map_res_Inl_ex)

lemma shortcut_not_Inl:
  assumes "collaborators_total env" and "ids_arrays x"
  shows "shortcut v env k info x \<noteq> Inl e"
proof -
  have oid: "\<forall>x e. object_id env x \<noteq> Inl e" using assms(1) by (simp add: collaborators_total_def)
  have "query_condition tbl (object_id env) f ft x \<noteq> Inl e" for tbl f ft
    using object_ids_not_Inl [OF oid] assms(2) oid
    by (auto simp: query_condition_def ids_arrays_def map_sum_id_eq_Inl_iff)
  then show ?thesis
    by (cases v) (auto simp: shortcut_jb_def shortcut_mg_def condition_result_def Let_def
        split: prod.splits)
qed

lemma parser_progress:
  "collaborators_total env \<Longrightarrow> shape_ok q \<Longrightarrow> \<exists>r h'. query_parser v env q p incl h = Inr (r, h')"
  "collaborators_total env \<Longrightarrow> shape_ok_entries kvs \<Longrightarrow> \<exists>qs h'. parse_entries v env q p kvs h = Inr (qs, h')"
  "collaborators_total env \<Longrightarrow> shape_ok_entry k x \<Longrightarrow> \<exists>fq h'. parse_entry v env q p k x h = Inr (fq, h')"
  "collaborators_total env \<Longrightarrow> shape_ok_list xs \<Longrightarrow> \<exists>rs h'. parse_list v env p i xs h = Inr (rs, h')"
proof (induction v env q p incl h and v env q p kvs h and v env q p k x h and v env p i xs h
    rule: query_parser_parse_entries_parse_entry_parse_list.induct)
  case (4 v env q p k x kvs h)
  obtain fq h1 where e: "parse_entry v env q p k x h = Inr (fq, h1)"
    using "4.IH"(1) "4.prems" by auto
  then show ?case using "4.IH"(2) [OF e] "4.prems" by fastforce
next
  case (5 v env q p k x h)
  have tot: "\<forall>q k p e. simple_tok env q k p \<noteq> Inl e" "\<forall>q k p e. modifier_tok env q k p \<noteq> Inl e"
    "\<forall>k p u e. rel_tok env k p u \<noteq> Inl e"
    using "5.prems"(1) by (simp_all add: collaborators_total_def)
  show ?case
  proof (cases rule: classify_key_cases [of v k x])
    case 1
    then obtain qs where x: "x = JArr qs" and "shape_ok_list qs"
      using "5.prems"(2) classify_key_KLogical [OF 1] by (auto split: jval.splits)
    then obtain rs h' where "parse_list v env (p @ [PKey k]) 0 qs h = Inr (rs, h')"
      using "5.IH"(1) [OF refl _ x "5.prems"(1)] classify_key_KLogical [OF 1] by auto
    then show ?thesis using 1 x by (simp add: parser_simps)
  next
    case 2
    then show ?thesis using tot(2) by (cases "modifier_tok env q k (p @ [PKey k])") (auto simp: parser_simps)
  next
    case 3
    then show ?thesis by (simp add: parser_simps)
  next
    case 4
    note rel = 4 [unfolded classify_key_KRelationship]
    obtain mt info where tok: "rel_tok env k (p @ [PKey k]) (get_uid env k h) = Inr (mt, info)"
      using tot(3) by (cases "rel_tok env k (p @ [PKey k]) (get_uid env k h)") auto
    have ok: "ids_arrays x" "shape_ok x" using "5.prems"(2) rel by auto
    show ?thesis
    proof (cases "shortcut v env k info x")
      case (Inl e)
      then show ?thesis using shortcut_not_Inl [OF "5.prems"(1) ok(1)] by blast
    next
      case (Inr c)
      show ?thesis
      proof (cases c)
        case None
        obtain r h' where "query_parser v env x (p @ [PKey k]) JUndefined (h @ [get_uid env k h]) = Inr (r, h')"
          using "5.IH"(2) [OF refl _ _ _ _ refl tok refl _ refl "5.prems"(1) ok(2)] Inr None rel by auto
        then show ?thesis using 4 tok Inr None by (simp add: parser_simps)
      qed (use 4 tok Inr in \<open>simp add: parser_simps\<close>)
    qed
  next
    case 5
    then show ?thesis using tot(1) by (cases "simple_tok env q k (p @ [PKey k])") (auto simp: parser_simps)
  qed
next
  case (7 v env p i q qs h)
  obtain r h1 where e: "query_parser v env q (p @ [PIdx i]) JUndefined h = Inr (r, h1)"
    using "7.IH"(1) "7.prems" by auto
  then show ?case using "7.IH"(2) [OF e] "7.prems" by fastforce
qed (auto simp: Let_def split: sum.splits)

subsection \<open>Properties\<close>

text \<open>
  C17: An \<open>AND\<close> or \<open>OR\<close> key whose value is not an array aborts the compile with the
  JavaScript TypeError of \<open>value.map\<close>, which carries no path; the specification
  (section 7) asks for a TypeMismatch naming the offending path.
\<close>

theorem query_parser_logical_not_array:
  assumes "key \<in> {''AND'', ''OR''}" and "\<forall>qs. x \<noteq> JArr qs"
  shows "query_parser v env (JObj ((key, x) # kvs)) p incl h = Inl (map_call_error x)"
proof -
  have "classify_key v key x = KLogical"
    using assms(1) by (auto simp: classify_key_def)
  then have "parse_entry v env (JObj ((key, x) # kvs)) p key x h = Inl (map_call_error x)"
    using assms(2) by (simp add: parser_simps split: jval.splits)
  then show ?thesis by (simp add: parser_simps)
qed

theorem query_parser_logical_not_array_witness:
  "query_parser JoinBuilder demo_env (JObj [(''AND'', JStr ''a''), (''b'', JNum 1)]) [] JUndefined [] =
     Inl (TypeError ''value.map is not a function'') \<and>
   query_parser Mongoose demo_env (JObj [(''OR'', JNull)]) [] JUndefined [] =
     Inl (TypeError ''Cannot read properties of null (reading 'map')'')"
  using query_parser_logical_not_array [of "''AND''" "JStr ''a''" JoinBuilder demo_env "[(''b'', JNum 1)]" "[]" JUndefined "[]"]
    query_parser_logical_not_array [of "''OR''" JNull Mongoose demo_env "[]" "[]" JUndefined "[]"]
  by (simp_all add: map_call_error_def)

text \<open>
  C18: Errors are immediate and leave no partial result: when the keys before \<open>k\<close>
  compile and \<open>k\<close> fails with \<open>e\<close>, the whole compile fails with \<open>e\<close> unchanged,
  whatever follows (specification section 7, propagation policy).
\<close>

theorem query_parser_first_error:
  assumes "kvs = kvs1 @ (k, x) # kvs2"
    and "parse_entries v env (JObj kvs) p kvs1 h = Inr (qs1, h1)"
    and "parse_entry v env (JObj kvs) p k x h1 = Inl e"
  shows "query_parser v env (JObj kvs) p incl h = Inl e"
  using assms by (simp add: parser_simps parse_entries_append)

theorem query_parser_first_error_witness:
  "query_parser JoinBuilder demo_env (JObj [(''a'', JNum 1), (''OR'', JNum 2), (''c'', JNum 3)]) [] JUndefined [] =
     Inl (TypeError ''value.map is not a function'')"
proof -
  let ?q = "JObj [(''a'', JNum 1), (''OR'', JNum 2), (''c'', JNum 3)]"
  have pre: "parse_entries JoinBuilder demo_env ?q [] [(''a'', JNum 1)] [] = Inr ([match_only (JObj [(''a'', JNum 1)])], [])"
    by (simp add: parser_simps classify_key_def)
  have err: "parse_entry JoinBuilder demo_env ?q [] ''OR'' (JNum 2) [] = Inl (TypeError ''value.map is not a function'')"
    by (simp add: parser_simps classify_key_def map_call_error_def)
  show ?thesis using query_parser_first_error [OF _ pre err, of "[(''c'', JNum 3)]"] by simp
qed
text \<open>
  C24: In the join-builder variant, a relationship filter \<open>{id_in: v}\<close> whose suffix
  admits \<open>id_in\<close> and whose \<open>v\<close> is truthy but not an array aborts the compile with
  the JavaScript TypeError of \<open>value.id_in.map\<close>, which names no path; the
  specification (section 7) asks for a TypeMismatch carrying the path.
\<close>

theorem parse_entry_id_in_not_array:
  assumes "classify_key JoinBuilder k (JObj [(''id_in'', x)]) = KRelationship" "truthy x" "\<forall>xs. x \<noteq> JArr xs"
    and "rel_tok env k (p @ [PKey k]) (get_uid env k h) = Inr (mt, info)"
    and "js_replace k (ri_field info) '''' \<in> set (st_in table_jb)"
  shows "parse_entry JoinBuilder env q p k (JObj [(''id_in'', x)]) h =
           Inl (TypeError ''value.id_in.map is not a function'')"
proof -
  have "object_ids (object_id env) ''id_in'' x = Inl (TypeError ''value.id_in.map is not a function'')"
    using assms(3) by (cases x) (simp_all add: object_ids_def)
  then have "shortcut JoinBuilder env k info (JObj [(''id_in'', x)]) = Inl (TypeError ''value.id_in.map is not a function'')"
    using assms(2,5) by (simp add: shortcut_jb_def shortcut_applies_def query_condition_def condition_result_def Let_def)
  then show ?thesis using assms(1,4) by (simp add: parser_simps)
qed

theorem parse_entry_id_in_not_array_witness:
  "parse_entry JoinBuilder demo_env JUndefined [] ''author'' (JObj [(''id_in'', JStr ''42'')]) [] =
     Inl (TypeError ''value.id_in.map is not a function'')"
proof -
  have c: "classify_key JoinBuilder ''author'' (JObj [(''id_in'', JStr ''42'')]) = KRelationship"
    by (simp add: classify_key_def)
  have r: "rel_tok demo_env ''author'' ([] @ [PKey ''author'']) (get_uid demo_env ''author'' []) =
      Inr (JObj [(''u'', JBool True)], \<lparr>ri_field = ''author'', ri_many = True, ri_uid = ''u''\<rparr>)"
    by simp
  have t: "js_replace ''author'' (ri_field \<lparr>ri_field = ''author'', ri_many = True, ri_uid = ''u''\<rparr>) '''' \<in> set (st_in table_jb)"
    by (simp add: table_jb_def)
  show ?thesis using parse_entry_id_in_not_array [OF c _ _ r t] by simp
qed

text \<open>
  C30: A compile returns a result: when the tokenizers, the relationship tokenizer and
  the ObjectId constructor never throw, every filter of the right shape (objects
  where the walk expects objects, arrays under \<open>AND\<close>/\<open>OR\<close> and under the
  \<open>id_in\<close>/\<open>id_not_in\<close> of a relationship sub-filter) compiles, in either variant,
  from every path, include hint and generator history.
\<close>

theorem query_parser_progress:
  assumes "collaborators_total env" and "shape_ok q"
  shows "\<exists>r h'. query_parser v env q p incl h = Inr (r, h')"
  using parser_progress(1) [OF assms] .

theorem query_parser_progress_witness:
  "collaborators_total demo_env \<and>
   shape_ok (JObj [(''OR'', JArr [JObj [(''y_some'', JObj [(''name'', JStr ''q'')])],
                                  JObj [(''author'', JObj [(''id_in'', JArr [JStr ''1''])])]]),
                   (''a'', JNum 1)]) \<and>
   (\<exists>r h'. query_parser JoinBuilder demo_env
      (JObj [(''OR'', JArr [JObj [(''y_some'', JObj [(''name'', JStr ''q'')])],
                            JObj [(''author'', JObj [(''id_in'', JArr [JStr ''1''])])]]),
             (''a'', JNum 1)]) [] JUndefined [] = Inr (r, h'))"
proof -
  have c: "collaborators_total demo_env" by (simp add: collaborators_total_def)
  have s: "shape_ok (JObj [(''OR'', JArr [JObj [(''y_some'', JObj [(''name'', JStr ''q'')])],
                                  JObj [(''author'', JObj [(''id_in'', JArr [JStr ''1''])])]]),
                   (''a'', JNum 1)])"
    by (simp add: ids_arrays_def)
  show ?thesis using query_parser_progress [OF c s, of JoinBuilder "[]" JUndefined "[]"] c s by blast
qed

end
