(* ===== verification/Semantics.thy ===== *)
theory Semantics
  imports Shortcut
begin

text \<open>
  What the shortcut must preserve.  The specification (section 4.3) requires the
  direct comparison to be logically equivalent to what the full join path computes
  for the same identity-only filter.  Neither side is in the sources, so both are
  modelled from the specification: a document stores in its foreign-key field the
  ids of its related records (at most one for a to-one relationship), the join path
  applies the identity predicate to every related record and combines the answers
  with the key's quantifier, and a Mongo comparison on an array field matches by
  element.  \<open>eval_condition\<close> reads the condition object the code emits.
\<close>

fun quant_holds :: "quantifier \<Rightarrow> ('a \<Rightarrow> bool) \<Rightarrow> 'a list \<Rightarrow> bool" where
  "quant_holds QOne P rs = list_ex P rs"
| "quant_holds QSome P rs = list_ex P rs"
| "quant_holds QEvery P rs = list_all P rs"
| "quant_holds QNone P rs = (\<not> list_ex P rs)"

fun id_holds :: "id_op \<Rightarrow> jval \<Rightarrow> jval \<Rightarrow> bool" where
  "id_holds OpEq oi r = (r = oi)"
| "id_holds OpNot oi r = (r \<noteq> oi)"
| "id_holds OpIn ois r = (case ois of JArr os \<Rightarrow> r \<in> set os | _ \<Rightarrow> False)"
| "id_holds OpNotIn ois r = (case ois of JArr os \<Rightarrow> r \<notin> set os | _ \<Rightarrow> True)"

definition join_holds :: "quantifier \<Rightarrow> id_op \<Rightarrow> jval \<Rightarrow> jval list \<Rightarrow> bool" where
  "join_holds q op oi rs = quant_holds q (id_holds op oi) rs"

fun mongo_holds :: "mongo_op \<Rightarrow> jval \<Rightarrow> jval list \<Rightarrow> bool" where
  "mongo_holds MEq oi vs = (oi \<in> set vs)"
| "mongo_holds MNe oi vs = (oi \<notin> set vs)"
| "mongo_holds MIn ois vs = (case ois of JArr os \<Rightarrow> (\<exists>v \<in> set vs. v \<in> set os) | _ \<Rightarrow> False)"
| "mongo_holds MNin ois vs = (case ois of JArr os \<Rightarrow> \<not> (\<exists>v \<in> set vs. v \<in> set os) | _ \<Rightarrow> True)"

definition eval_condition :: "(string \<Rightarrow> jval list) \<Rightarrow> jval \<Rightarrow> bool option" where
  "eval_condition doc c =
     (case c of
        JObj [(f, JObj [(op, a)])] \<Rightarrow>
          if op = ''$eq'' then Some (a \<in> set (doc f))
          else if op = ''$ne'' then Some (a \<notin> set (doc f))
          else if op = ''$in'' then
            (case a of JArr os \<Rightarrow> Some (\<exists>v \<in> set (doc f). v \<in> set os) | _ \<Rightarrow> None)
          else if op = ''$not'' then
            (case a of
               JObj [(op2, JArr os)] \<Rightarrow>
                 if op2 = ''$in'' then Some (\<not> (\<exists>v \<in> set (doc f). v \<in> set os)) else None
             | _ \<Rightarrow> None)
          else None
      | _ \<Rightarrow> None)"

text \<open>The cells of the table where the comparison and the join agree on every dataset.\<close>

fun sound_cell :: "quantifier \<Rightarrow> id_op \<Rightarrow> bool" where
  "sound_cell QOne op = (op = OpEq \<or> op = OpIn)"
| "sound_cell QSome op = (op = OpEq \<or> op = OpIn)"
| "sound_cell QEvery op = (op = OpNot \<or> op = OpNotIn)"
| "sound_cell QNone op = (op = OpEq)"

text \<open>
  A cell (quantifier, identity operator, Mongo operator) agrees with the join when the
  comparison and the join give the same answer on every list of related ids (at most
  one for a to-one relationship) and every operand of the right shape.
\<close>

definition cell_agrees :: "quantifier \<Rightarrow> id_op \<Rightarrow> mongo_op \<Rightarrow> bool" where
  "cell_agrees q op m \<longleftrightarrow>
     (\<forall>rs oi. (q = QOne \<longrightarrow> length rs \<le> 1) \<longrightarrow> ((op = OpIn \<or> op = OpNotIn) \<longrightarrow> (\<exists>os. oi = JArr os)) \<longrightarrow>
        mongo_holds m oi rs = join_holds q op oi rs)"

lemma eval_condition_mongo_cond:
  "(m = MIn \<or> m = MNin \<longrightarrow> (\<exists>os. oi = JArr os)) \<Longrightarrow>
   eval_condition doc (JObj [(f, mongo_cond m oi)]) = Some (mongo_holds m oi (doc f))"
  by (cases m) (auto simp: eval_condition_def)

lemma operand_JArr:
  "op = OpIn \<or> op = OpNotIn \<Longrightarrow> operand oid op v = Inr oi \<Longrightarrow> \<exists>os. oi = JArr os"
  by (auto simp: object_ids_def split: jval.splits)

lemma spec_cell_sound:
  assumes "sound_cell q op" "spec_table q op = Some m" "q = QOne \<longrightarrow> length rs \<le> 1"
    and "op = OpIn \<or> op = OpNotIn \<longrightarrow> (\<exists>os. oi = JArr os)"
  shows "mongo_holds m oi rs = join_holds q op oi rs"
  using assms
  by (cases q; cases op) (auto simp: join_holds_def list_ex_iff list_all_iff)

subsection \<open>The shortcut against the join\<close>

text \<open>
  The condition the join-builder shortcut emits, on a sound cell, evaluates on every
  document to the join's answer.
\<close>

lemma shortcut_jb_cond_sound:
  assumes "shortcut_jb oid (ri_field info @ key_suffix q) info (JObj [(id_key op, i)]) = Inr (Some c)"
    and "truthy i" "sound_cell q op" "operand oid op i = Inr oi"
    and "q = QOne \<longrightarrow> length (doc (ri_field info)) \<le> 1"
  shows "eval_condition doc c = Some (join_holds q op oi (doc (ri_field info)))"
proof -
  obtain m where tb: "table_op table_jb (key_suffix q) op = Some m"
    and c: "c = JObj [(ri_field info, mongo_cond m oi)]"
    using assms(1,2,4) by (auto simp: shortcut_jb_single js_replace_prefix split: option.splits)
  have "spec_table q op = Some m"
    using tb assms(3) by (cases q; cases op) (auto simp: table_jb_def split: if_splits)
  moreover have arr: "op = OpIn \<or> op = OpNotIn \<longrightarrow> (\<exists>os. oi = JArr os)"
    using assms(4) operand_JArr by blast
  moreover have "m = MIn \<or> m = MNin \<longrightarrow> op = OpIn \<or> op = OpNotIn"
    using tb by (cases op) (auto split: if_splits)
  ultimately show ?thesis
    using c assms(3,5) spec_cell_sound [of q op m "doc (ri_field info)" oi] eval_condition_mongo_cond
    by auto
qed

text \<open>
  C14: Join-builder shortcut soundness: on every cell of the table where the direct
  comparison can agree with the join (identity equality under no suffix, \<open>_some\<close>
  or \<open>_none\<close>; membership under no suffix or \<open>_some\<close>; the negated forms under
  \<open>_every\<close>), the condition the code emits evaluates on every document to what the
  full join computes (specification section 8, "shortcut equivalence").
\<close>

theorem shortcut_jb_sound:
  assumes "shortcut_jb oid (ri_field info @ key_suffix q) info (JObj [(id_key op, i)]) = Inr (Some c)"
    and "truthy i" "sound_cell q op" "operand oid op i = Inr oi"
    and "q = QOne \<longrightarrow> length (doc (ri_field info)) \<le> 1"
  shows "eval_condition doc c = Some (join_holds q op oi (doc (ri_field info)))"
  by (rule shortcut_jb_cond_sound [where doc = doc, OF assms])

theorem shortcut_jb_sound_witness:
  "eval_condition (\<lambda>f. [JStr ''7'']) (JObj [(''author'', JObj [(''$eq'', JStr ''7'')])]) =
     Some (join_holds QOne OpEq (JStr ''7'') [JStr ''7'']) \<and>
   join_holds QOne OpEq (JStr ''7'') [JStr ''7'']"
proof -
  let ?info = "\<lparr>ri_field = ''author'', ri_many = False, ri_uid = ''u''\<rparr>"
  have s: "shortcut_jb (\<lambda>x. Inr x) (ri_field ?info @ key_suffix QOne) ?info (JObj [(id_key OpEq, JStr ''7'')]) =
      Inr (Some (JObj [(''author'', JObj [(''$eq'', JStr ''7'')])]))"
    using shortcut_jb_single [where v = "JStr ''7''" and oid = "\<lambda>x. Inr x" and key = "ri_field ?info @ key_suffix QOne"
        and info = ?info and op = OpEq]
    by (simp add: table_jb_def)
  have "eval_condition (\<lambda>f. [JStr ''7'']) (JObj [(''author'', JObj [(''$eq'', JStr ''7'')])]) =
      Some (join_holds QOne OpEq (JStr ''7'') [JStr ''7''])"
    using shortcut_jb_sound [OF s, where oi = "JStr ''7''" and doc = "\<lambda>f. [JStr ''7'']"] by simp
  then show ?thesis by (simp add: join_holds_def)
qed

lemma shortcut_mg_on_key:
  assumes "CHR ''_'' \<notin> set b" "truthy i"
  shows "shortcut_mg oid (b @ key_suffix q) (JObj [(id_key op, i)]) =
     (case table_op table_mg (mg_filter_type q) op of
        None \<Rightarrow> Inr None
      | Some m \<Rightarrow> map_sum id (\<lambda>oi. Some (JObj [(b, mongo_cond m oi)])) (operand oid op i))"
  using shortcut_mg_single [OF assms(2) field_parser_mg_key [OF assms(1)]] .

text \<open>
  The condition the adapter-mongoose shortcut emits, on a sound cell, evaluates on
  every document to the join's answer.
\<close>

lemma shortcut_mg_cond_sound:
  assumes "CHR ''_'' \<notin> set b"
    and "shortcut_mg oid (b @ key_suffix q) (JObj [(id_key op, i)]) = Inr (Some c)"
    and "truthy i" "sound_cell q op" "operand oid op i = Inr oi"
    and "q = QOne \<longrightarrow> length (doc b) \<le> 1"
  shows "eval_condition doc c = Some (join_holds q op oi (doc b))"
proof -
  obtain m where tb: "table_op table_mg (mg_filter_type q) op = Some m"
    and c: "c = JObj [(b, mongo_cond m oi)]"
    using assms(2,5) shortcut_mg_on_key [OF assms(1,3)] by (auto split: option.splits)
  have "spec_table q op = Some m"
    using tb assms(4) by (cases q; cases op) (auto simp: table_mg_def split: if_splits)
  moreover have "op = OpIn \<or> op = OpNotIn \<longrightarrow> (\<exists>os. oi = JArr os)"
    using assms(5) operand_JArr by blast
  moreover have "m = MIn \<or> m = MNin \<longrightarrow> op = OpIn \<or> op = OpNotIn"
    using tb by (cases op) (auto split: if_splits)
  ultimately show ?thesis
    using c assms(4,6) spec_cell_sound [of q op m "doc b" oi] eval_condition_mongo_cond
    by auto
qed

text \<open>
  C15: The same soundness for the adapter-mongoose variant, on keys made of a plain
  field name and a quantifier suffix.
\<close>

theorem shortcut_mg_sound:
  assumes "CHR ''_'' \<notin> set b"
    and "shortcut_mg oid (b @ key_suffix q) (JObj [(id_key op, i)]) = Inr (Some c)"
    and "truthy i" "sound_cell q op" "operand oid op i = Inr oi"
    and "q = QOne \<longrightarrow> length (doc b) \<le> 1"
  shows "eval_condition doc c = Some (join_holds q op oi (doc b))"
  by (rule shortcut_mg_cond_sound [where doc = doc, OF assms])

theorem shortcut_mg_sound_witness:
  "eval_condition (\<lambda>f. [JStr ''1'', JStr ''2'']) (JObj [(''posts'', JObj [(''$in'', JArr [JStr ''2''])])]) =
     Some (join_holds QSome OpIn (JArr [JStr ''2'']) [JStr ''1'', JStr ''2'']) \<and>
   join_holds QSome OpIn (JArr [JStr ''2'']) [JStr ''1'', JStr ''2'']"
proof -
  have s: "shortcut_mg (\<lambda>x. Inr x) (''posts'' @ key_suffix QSome) (JObj [(id_key OpIn, JArr [JStr ''2''])]) =
      Inr (Some (JObj [(''posts'', JObj [(''$in'', JArr [JStr ''2''])])]))"
    using shortcut_mg_on_key [where b = "''posts''" and i = "JArr [JStr ''2'']" and oid = "\<lambda>x. Inr x"
        and q = QSome and op = OpIn]
    by (simp add: table_mg_def object_ids_def)
  have o: "operand (\<lambda>x. Inr x) OpIn (JArr [JStr ''2'']) = Inr (JArr [JStr ''2''])"
    by (simp add: object_ids_def)
  have "eval_condition (\<lambda>f. [JStr ''1'', JStr ''2'']) (JObj [(''posts'', JObj [(''$in'', JArr [JStr ''2''])])]) =
      Some (join_holds QSome OpIn (JArr [JStr ''2'']) [JStr ''1'', JStr ''2''])"
    using shortcut_mg_sound [OF _ s _ _ o, where doc = "\<lambda>f. [JStr ''1'', JStr ''2'']"] by simp
  then show ?thesis by (simp add: join_holds_def)
qed

text \<open>
  The cells of the code's tables that are not sound disagree with the join: one
  list of related ids each shows it.
\<close>

lemma cell_disagrees:
  "\<not> cell_agrees QOne OpNot MNe" "\<not> cell_agrees QOne OpNotIn MNin" "\<not> cell_agrees QSome OpNot MNe"
  "\<not> cell_agrees QEvery OpEq MEq" "\<not> cell_agrees QNone OpNot MNe"
proof -
  have "mongo_holds MNe (JStr ''v'') [] \<noteq> join_holds QOne OpNot (JStr ''v'') []"
    by (simp add: join_holds_def)
  then show "\<not> cell_agrees QOne OpNot MNe" by (force simp: cell_agrees_def)
  have "mongo_holds MNin (JArr [JStr ''v'']) [] \<noteq> join_holds QOne OpNotIn (JArr [JStr ''v'']) []"
    by (simp add: join_holds_def)
  then show "\<not> cell_agrees QOne OpNotIn MNin" by (force simp: cell_agrees_def)
  have "mongo_holds MNe (JStr ''v'') [JStr ''v'', JStr ''w''] \<noteq> join_holds QSome OpNot (JStr ''v'') [JStr ''v'', JStr ''w'']"
    by (simp add: join_holds_def)
  then show "\<not> cell_agrees QSome OpNot MNe" by (force simp: cell_agrees_def)
  have "mongo_holds MEq (JStr ''v'') [JStr ''v'', JStr ''w''] \<noteq> join_holds QEvery OpEq (JStr ''v'') [JStr ''v'', JStr ''w'']"
    by (simp add: join_holds_def)
  then show "\<not> cell_agrees QEvery OpEq MEq" by (force simp: cell_agrees_def)
  have "mongo_holds MNe (JStr ''v'') [JStr ''w''] \<noteq> join_holds QNone OpNot (JStr ''v'') [JStr ''w'']"
    by (simp add: join_holds_def)
  then show "\<not> cell_agrees QNone OpNot MNe" by (force simp: cell_agrees_def)
qed

text \<open>
  C16: Exactly the sound cells of the code's shortcut tables agree with the join: a cell
  that join-builder (suffix read by \<open>key.replace\<close>) or adapter-mongoose (suffix read
  by the split) rewrites gives the join's answer on every dataset if and only if it is
  one of \<open>sound_cell\<close>.  The others are \<open>_every\<close> with \<open>id\<close> (also in the
  specification's table), \<open>_none\<close> with \<open>id_not\<close> (both variants), \<open>_some\<close>
  with \<open>id_not\<close> (adapter-mongoose), and a to-one relationship with \<open>id_not\<close> or
  \<open>id_not_in\<close>, wrong when no record is related.
\<close>

theorem code_cells_sound_iff:
  assumes "table_op table_jb (key_suffix q) op = Some m \<or> table_op table_mg (mg_filter_type q) op = Some m"
  shows "cell_agrees q op m \<longleftrightarrow> sound_cell q op"
proof
  assume "cell_agrees q op m"
  then show "sound_cell q op"
    using assms cell_disagrees by (cases q; cases op) (auto simp: table_jb_def table_mg_def split: if_splits)
next
  assume s: "sound_cell q op"
  then have "spec_table q op = Some m"
    using assms by (cases q; cases op) (auto simp: table_jb_def table_mg_def split: if_splits)
  then show "cell_agrees q op m"
    using spec_cell_sound [OF s] by (auto simp: cell_agrees_def)
qed

theorem code_cells_sound_iff_witness:
  "table_op table_jb (key_suffix QNone) OpNot = Some MNe \<and> \<not> cell_agrees QNone OpNot MNe"
proof -
  have t: "table_op table_jb (key_suffix QNone) OpNot = Some MNe" by (simp add: table_jb_def)
  then have "cell_agrees QNone OpNot MNe \<longleftrightarrow> sound_cell QNone OpNot"
    by (intro code_cells_sound_iff) simp
  then show ?thesis using t by simp
qed

end
