(* ===== verification/Compilation.thy ===== *)
theory Compilation
  imports Parser
begin

text \<open>
  What the compiled match term means.  For the fragment of filters made of leaf keys
  and \<open>AND\<close>/\<open>OR\<close> arrays the parse result carries everything in its match
  term, so the compiler can be checked against a meaning of the filter itself, the
  one section 4.1 of the specification gives it: a filter object is the conjunction
  of its keys, \<open>AND\<close> the conjunction and \<open>OR\<close> the disjunction of its
  sub-filters, a leaf key whatever the leaf tokenizer's predicate says.  Neither the
  evaluator of match terms nor this meaning is in the sources: both are modelled from
  the specification (section 3: an absent match term is no constraint).
\<close>

section \<open>Evaluation of match terms\<close>

text \<open>
  MongoDB's \<open>$match\<close> over a term: \<open>{$and: [...]}\<close> and \<open>{$or: [...]}\<close> are the
  connectives, any other term is a predicate read by \<open>ev\<close>, and the absent term
  holds of every document.
\<close>

fun match_eval :: "(jval \<Rightarrow> bool) \<Rightarrow> jval \<Rightarrow> bool" where
  "match_eval ev JUndefined = True"
| "match_eval ev (JObj [(op, JArr ts)]) =
     (if op = ''$and'' then (\<forall>t \<in> set ts. match_eval ev t)
      else if op = ''$or'' then (\<exists>t \<in> set ts. match_eval ev t)
      else ev (JObj [(op, JArr ts)]))"
| "match_eval ev t = ev t"

section \<open>The meaning of a filter\<close>

fun filter_sem :: "(string \<Rightarrow> jval \<Rightarrow> bool) \<Rightarrow> jval \<Rightarrow> bool"
and entry_sem :: "(string \<Rightarrow> jval \<Rightarrow> bool) \<Rightarrow> string \<Rightarrow> jval \<Rightarrow> bool" where
  "filter_sem leaf (JObj kvs) = (\<forall>(k, x) \<in> set kvs. entry_sem leaf k x)"
| "filter_sem leaf _ = False"
| "entry_sem leaf k x =
     (if k = ''AND'' then (case x of JArr qs \<Rightarrow> \<forall>q \<in> set qs. filter_sem leaf q | _ \<Rightarrow> False)
      else if k = ''OR'' then (case x of JArr qs \<Rightarrow> \<exists>q \<in> set qs. filter_sem leaf q | _ \<Rightarrow> False)
      else leaf k x)"

text \<open>
  A filter has a leaf when some leaf key is reachable through its \<open>AND\<close>/\<open>OR\<close>
  arrays; exactly those compile to a match term.
\<close>

fun has_leaf :: "jval \<Rightarrow> bool"
and entry_has_leaf :: "string \<Rightarrow> jval \<Rightarrow> bool" where
  "has_leaf (JObj kvs) = (\<exists>(k, x) \<in> set kvs. entry_has_leaf k x)"
| "has_leaf _ = False"
| "entry_has_leaf k x =
     (if k \<in> set [''AND'', ''OR''] then (case x of JArr qs \<Rightarrow> \<exists>q \<in> set qs. has_leaf q | _ \<Rightarrow> False)
      else True)"

text \<open>
  The fragment: JavaScript objects (distinct keys) made of leaf keys and of
  \<open>AND\<close>/\<open>OR\<close> arrays of such objects, in which every \<open>OR\<close> array is non-empty and
  each of its alternatives has a leaf.
\<close>

fun plain_filter :: "variant \<Rightarrow> jval \<Rightarrow> bool"
and plain_entry :: "variant \<Rightarrow> string \<Rightarrow> jval \<Rightarrow> bool" where
  "plain_filter v (JObj kvs) = (distinct (map fst kvs) \<and> (\<forall>(k, x) \<in> set kvs. plain_entry v k x))"
| "plain_filter v _ = False"
| "plain_entry v k x =
     (case classify_key v k x of
        KLogical \<Rightarrow>
          (case x of
             JArr qs \<Rightarrow> (\<forall>q \<in> set qs. plain_filter v q) \<and> (k = ''OR'' \<longrightarrow> qs \<noteq> [] \<and> (\<forall>q \<in> set qs. has_leaf q))
           | _ \<Rightarrow> False)
      | KLeaf \<Rightarrow> True
      | _ \<Rightarrow> False)"

text \<open>The leaf tokenizer emits a truthy term that evaluates to the leaf's meaning.\<close>

definition leaf_tok_sound :: "env \<Rightarrow> (jval \<Rightarrow> bool) \<Rightarrow> (string \<Rightarrow> jval \<Rightarrow> bool) \<Rightarrow> bool" where
  "leaf_tok_sound env ev leaf \<longleftrightarrow>
     (\<forall>qo k p t. simple_tok env qo k p = Inr t \<longrightarrow> truthy t \<and> match_eval ev t = leaf k (js_get qo k))"

text \<open>
  A term compiled from a filter part of meaning \<open>b\<close>: it evaluates to \<open>b\<close>, and it is
  truthy when the part has a leaf and absent otherwise.
\<close>

definition compiled_as :: "(jval \<Rightarrow> bool) \<Rightarrow> jval \<Rightarrow> bool \<Rightarrow> bool \<Rightarrow> bool" where
  "compiled_as ev t b c \<longleftrightarrow> match_eval ev t = b \<and> (if c then truthy t else t = JUndefined)"

section \<open>The compiler against the meaning\<close>

lemma match_eval_join_and: "match_eval ev (join_terms ts ''$and'') = (\<forall>t \<in> set ts. match_eval ev t)"
  by (cases ts rule: remdups_adj.cases) (simp_all add: join_terms_simps)

lemma match_eval_join_or: "ts \<noteq> [] \<Longrightarrow> match_eval ev (join_terms ts ''$or'') = (\<exists>t \<in> set ts. match_eval ev t)"
  by (cases ts rule: remdups_adj.cases) (simp_all add: join_terms_simps)

lemma compiled_as_and:
  assumes "list_all2 (\<lambda>a fq. compiled_as ev (matchTerm fq) (B a) (C a)) as fqs"
  shows "compiled_as ev (join_terms (filter truthy (map matchTerm fqs)) ''$and'') (\<forall>a \<in> set as. B a) (\<exists>a \<in> set as. C a)"
proof -
  have b: "(\<forall>a \<in> set as. B a) \<longleftrightarrow> (\<forall>fq \<in> set fqs. match_eval ev (matchTerm fq))"
    using assms by (rule list_all2_ball_iff) (simp add: compiled_as_def)
  have c: "(\<exists>a \<in> set as. C a) \<longleftrightarrow> (\<exists>fq \<in> set fqs. truthy (matchTerm fq))"
    using assms by (rule list_all2_bex_iff) (auto simp: compiled_as_def split: if_splits)
  have u: "\<forall>fq \<in> set fqs. truthy (matchTerm fq) \<or> matchTerm fq = JUndefined"
    using list_all2_setD2 [OF assms] by (fastforce simp: compiled_as_def split: if_splits)
  have "match_eval ev (join_terms (filter truthy (map matchTerm fqs)) ''$and'') \<longleftrightarrow>
      (\<forall>fq \<in> set fqs. match_eval ev (matchTerm fq))"
    using u by (auto simp: match_eval_join_and)
  moreover have "filter truthy (map matchTerm fqs) = [] \<longleftrightarrow> \<not> (\<exists>fq \<in> set fqs. truthy (matchTerm fq))"
    by (auto simp: filter_empty_conv)
  ultimately show ?thesis
    using b c truthy_join_terms_filter [of "map matchTerm fqs" "''$and''"]
    by (auto simp: compiled_as_def join_terms_simps)
qed

lemma compiled_as_or:
  assumes "list_all2 (\<lambda>a fq. compiled_as ev (matchTerm fq) (B a) (C a)) as fqs"
    and "as \<noteq> []" and "\<forall>a \<in> set as. C a"
  shows "compiled_as ev (join_terms (filter truthy (map matchTerm fqs)) ''$or'') (\<exists>a \<in> set as. B a) True"
proof -
  have b: "(\<exists>a \<in> set as. B a) \<longleftrightarrow> (\<exists>fq \<in> set fqs. match_eval ev (matchTerm fq))"
    using assms(1) by (rule list_all2_bex_iff) (simp add: compiled_as_def)
  have "\<forall>fq \<in> set fqs. truthy (matchTerm fq)"
    using list_all2_setD2 [OF assms(1)] assms(3) by (fastforce simp: compiled_as_def)
  then have f: "filter truthy (map matchTerm fqs) = map matchTerm fqs" by (simp add: filter_id_conv)
  have "fqs \<noteq> []" using assms(1,2) list_all2_lengthD by fastforce
  then show ?thesis
    using b f truthy_join_terms_filter [of "map matchTerm fqs" "''$or''"]
    by (simp add: compiled_as_def match_eval_join_or)
qed


lemma parser_compiled_as:
  "query_parser v env q p incl h = Inr (r, h') \<Longrightarrow> leaf_tok_sound env ev leaf \<Longrightarrow> plain_filter v q \<Longrightarrow>
     compiled_as ev (matchTerm r) (filter_sem leaf q) (has_leaf q)"
  "parse_entries v env q p kvs h = Inr (fqs, h') \<Longrightarrow> leaf_tok_sound env ev leaf \<Longrightarrow>
     \<forall>(k, x) \<in> set kvs. js_get q k = x \<and> plain_entry v k x \<Longrightarrow>
     list_all2 (\<lambda>kx fq. compiled_as ev (matchTerm fq) (entry_sem leaf (fst kx) (snd kx)) (entry_has_leaf (fst kx) (snd kx)))
       kvs fqs"
  "parse_entry v env q p k x h = Inr (fq, h') \<Longrightarrow> leaf_tok_sound env ev leaf \<Longrightarrow> js_get q k = x \<Longrightarrow>
     plain_entry v k x \<Longrightarrow> compiled_as ev (matchTerm fq) (entry_sem leaf k x) (entry_has_leaf k x)"
  "parse_list v env p i qs h = Inr (rs, h') \<Longrightarrow> leaf_tok_sound env ev leaf \<Longrightarrow> \<forall>q \<in> set qs. plain_filter v q \<Longrightarrow>
     list_all2 (\<lambda>q r. compiled_as ev (matchTerm r) (filter_sem leaf q) (has_leaf q)) qs rs"
proof (induction v env q p incl h and v env q p kvs h and v env q p k x h and v env p i qs h
    arbitrary: r h' and fqs h' and fq h' and rs h'
    rule: query_parser_parse_entries_parse_entry_parse_list.induct)
  case (1 v env kvs p incl h)
  from "1.prems"(1) obtain fqs h1 where e: "parse_entries v env (JObj kvs) p kvs h = Inr (fqs, h1)"
    and m: "matchTerm r = join_terms (filter truthy (map matchTerm fqs)) ''$and''"
    by (auto simp: Let_def flatten_queries_fields split: sum.splits)
  have "\<forall>(k, x) \<in> set kvs. js_get (JObj kvs) k = x \<and> plain_entry v k x"
    using "1.prems"(3) by (auto dest: map_of_is_SomeI)
  then have "list_all2 (\<lambda>kx fq. compiled_as ev (matchTerm fq) (entry_sem leaf (fst kx) (snd kx))
      (entry_has_leaf (fst kx) (snd kx))) kvs fqs"
    using "1.IH" [OF e "1.prems"(2)] by blast
  from compiled_as_and [OF this] show ?case
    unfolding m by (simp add: case_prod_beta)
next
  case (4 v env q p k x kvs h)
  from "4.prems"(1) obtain fq h1 fqs' where e: "parse_entry v env q p k x h = Inr (fq, h1)"
    and es: "parse_entries v env q p kvs h1 = Inr (fqs', h')" and "fqs = fq # fqs'"
    by (auto split: sum.splits)
  then show ?case using "4.IH"(1) [OF e "4.prems"(2)] "4.IH"(2) [OF e _ es "4.prems"(2)] "4.prems"(3) by auto
next
  case (5 v env q p k x h)
  show ?case
  proof (cases rule: classify_key_cases [of v k x])
    case 1
    then obtain qs where x: "x = JArr qs" and pl: "\<forall>q \<in> set qs. plain_filter v q"
      and or: "k = ''OR'' \<longrightarrow> qs \<noteq> [] \<and> (\<forall>q \<in> set qs. has_leaf q)"
      using "5.prems"(4) by (auto split: jval.splits)
    from "5.prems"(1) obtain rs where l: "parse_list v env (p @ [PKey k]) 0 qs h = Inr (rs, h')"
      and m: "matchTerm fq = join_terms (filter truthy (map matchTerm rs)) (logical_op k)"
      using 1 x by (auto simp: parser_simps split: sum.splits)
    have r: "list_all2 (\<lambda>q r. compiled_as ev (matchTerm r) (filter_sem leaf q) (has_leaf q)) qs rs"
      using "5.IH"(1) [OF refl _ x l "5.prems"(2) pl] classify_key_KLogical [OF 1] by auto
    show ?thesis
    proof (cases "k = ''AND''")
      case True
      then show ?thesis using compiled_as_and [OF r] x m by (simp add: logical_op_def)
    next
      case False
      then have "k = ''OR''" using classify_key_KLogical [OF 1] by simp
      then show ?thesis using compiled_as_or [OF r] or x m by (simp add: logical_op_def ex_in_conv)
    qed
  next
    case 5
    from "5.prems"(1) obtain t where "simple_tok env q k (p @ [PKey k]) = Inr t" and "fq = match_only t"
      using 5 by (auto simp: parser_simps map_sum_id_eq_Inr_iff)
    moreover have "k \<noteq> ''AND''" "k \<noteq> ''OR''" using 5 by (auto simp: classify_key_def)
    ultimately show ?thesis using "5.prems"(2,3)
      by (auto simp: leaf_tok_sound_def compiled_as_def parser_simps)
  qed (use "5.prems"(4) in auto)
next
  case (7 v env p i q qs h)
  from "7.prems"(1) obtain r1 h1 rs' where e: "query_parser v env q (p @ [PIdx i]) JUndefined h = Inr (r1, h1)"
    and es: "parse_list v env p (Suc i) qs h1 = Inr (rs', h')" and "rs = r1 # rs'"
    by (auto split: sum.splits)
  then show ?case using "7.IH"(1) [OF e "7.prems"(2)] "7.IH"(2) [OF e _ es "7.prems"(2)] "7.prems"(3) by auto
qed auto

text \<open>
  A leaf tokenizer that emits the leaf's own key-value object is sound for the meaning
  that reads each such object with \<open>ev\<close>, as the fixture's tokenizer does.
\<close>

lemma leaf_tok_sound_demo: "leaf_tok_sound demo_env ev (\<lambda>k x. match_eval ev (JObj [(k, x)]))"
  by (simp add: leaf_tok_sound_def)

subsection \<open>Properties\<close>

text \<open>
  C31: The compiler refines the meaning of the filter: for a filter of leaf keys and
  non-empty \<open>AND\<close>/\<open>OR\<close> arrays whose \<open>OR\<close> alternatives all have a leaf, and a
  leaf tokenizer whose predicates mean what the leaves mean, the compiled match term
  evaluates on every document to the filter's meaning (the implicit conjunction of
  the keys, \<open>AND\<close> as conjunction, \<open>OR\<close> as disjunction), and it is present
  exactly when the filter has a leaf.  Both variants, every path, hint and history.
\<close>

theorem query_parser_refines_filter_sem:
  assumes "leaf_tok_sound env ev leaf" and "plain_filter v q"
    and "query_parser v env q p incl h = Inr (r, h')"
  shows "match_eval ev (matchTerm r) = filter_sem leaf q \<and> (truthy (matchTerm r) \<longleftrightarrow> has_leaf q)"
  using parser_compiled_as(1) [OF assms(3,1,2)] by (auto simp: compiled_as_def split: if_splits)

theorem query_parser_refines_filter_sem_witness:
  "query_parser JoinBuilder demo_env
     (JObj [(''OR'', JArr [JObj [(''a'', JNum 1)], JObj [(''a'', JNum 2)]]), (''b'', JNum 3)]) [] JUndefined [] =
     Inr (\<lparr>matchTerm = JObj [(''$and'', JArr [JObj [(''$or'', JArr [JObj [(''a'', JNum 1)], JObj [(''a'', JNum 2)]])],
                                             JObj [(''b'', JNum 3)]])],
           postJoinPipeline = [], relationships = [], excludeFields = [''x'', ''y'', ''z'']\<rparr>, []) \<and>
   filter_sem (\<lambda>k x. match_eval (\<lambda>t. t = JObj [(''a'', JNum 1)] \<or> t = JObj [(''b'', JNum 3)]) (JObj [(k, x)]))
     (JObj [(''OR'', JArr [JObj [(''a'', JNum 1)], JObj [(''a'', JNum 2)]]), (''b'', JNum 3)]) \<and>
   match_eval (\<lambda>t. t = JObj [(''a'', JNum 1)] \<or> t = JObj [(''b'', JNum 3)])
     (JObj [(''$and'', JArr [JObj [(''$or'', JArr [JObj [(''a'', JNum 1)], JObj [(''a'', JNum 2)]])], JObj [(''b'', JNum 3)]])])"
proof -
  have run: "query_parser JoinBuilder demo_env
     (JObj [(''OR'', JArr [JObj [(''a'', JNum 1)], JObj [(''a'', JNum 2)]]), (''b'', JNum 3)]) [] JUndefined [] =
     Inr (\<lparr>matchTerm = JObj [(''$and'', JArr [JObj [(''$or'', JArr [JObj [(''a'', JNum 1)], JObj [(''a'', JNum 2)]])],
                                             JObj [(''b'', JNum 3)]])],
           postJoinPipeline = [], relationships = [], excludeFields = [''x'', ''y'', ''z'']\<rparr>, [])"
    by (simp add: parser_simps classify_key_def exclude_fields_ignores_branches flat_query.defs
        flatten_queries_def join_terms_simps logical_op_def)
  have pf: "plain_filter JoinBuilder
     (JObj [(''OR'', JArr [JObj [(''a'', JNum 1)], JObj [(''a'', JNum 2)]]), (''b'', JNum 3)])"
    by (simp add: classify_key_def)
  have "match_eval (\<lambda>t. t = JObj [(''a'', JNum 1)] \<or> t = JObj [(''b'', JNum 3)])
      (JObj [(''$and'', JArr [JObj [(''$or'', JArr [JObj [(''a'', JNum 1)], JObj [(''a'', JNum 2)]])], JObj [(''b'', JNum 3)]])]) =
    filter_sem (\<lambda>k x. match_eval (\<lambda>t. t = JObj [(''a'', JNum 1)] \<or> t = JObj [(''b'', JNum 3)]) (JObj [(k, x)]))
     (JObj [(''OR'', JArr [JObj [(''a'', JNum 1)], JObj [(''a'', JNum 2)]]), (''b'', JNum 3)])"
    using query_parser_refines_filter_sem [OF leaf_tok_sound_demo pf run] by simp
  then show ?thesis using run by simp
qed



end
