(* ===== verification/Spec2Isabelle.thy ===== *)
theory Spec2Isabelle
  imports Results Errors Semantics Compilation
begin

text \<open>
  \<^bold>\<open>A verified model of keystone's filter-query compiler.\<close>

  The repository holds two copies of one function, \<open>queryParser\<close>:
  \<open>src/packages/mongo-join-builder/lib/query-parser.js\<close> (the join-builder variant)
  and \<open>src/packages/adapter-mongoose/lib/query-parser.js\<close> (the adapter-mongoose
  variant).  \<open>queryParser\<close> turns a nested filter object into a parse result: a
  match term, a post-join pipeline, a tree of relationship branches and a list of
  fields to exclude from the projection.  It walks the filter's keys, sends
  \<open>AND\<close>/\<open>OR\<close> arrays back into itself, turns modifier keys into pipeline stages
  through the modifier tokenizer, passes \<open>id\<close> ranges through, asks the
  relationship tokenizer about object-valued keys, short-cuts identity-only
  relationship filters into a foreign-key comparison, and sends scalar keys to the
  leaf tokenizer.  The per-key results are merged by \<open>flattenQueries\<close> and
  \<open>joinTerms\<close>; the exclusion list is computed last.

  \<^bold>\<open>Theories.\<close>
  \<^item> \<open>Prelude\<close>: the collections \<open>jsval_simps\<close> and \<open>parser_simps\<close>,
    \<open>map_res\<close> (\<open>Array.map\<close> with a callback that may throw) and list facts.
  \<^item> \<open>JsValue\<close>: the JavaScript values of the filter and of the result (\<open>jval\<close>,
    objects as association lists in \<open>Object.entries\<close> order), \<open>getType\<close>,
    truthiness, property reads, paths and their \<open>join('.')\<close>,
    \<open>String.prototype.replace\<close>, and the exceptions (\<open>error\<close>).
  \<^item> \<open>Joiner\<close>: the result records (\<open>flat_query\<close>, \<open>parse_result\<close> as its
    extension by \<open>excludeFields\<close>, \<open>rel_entry\<close>), \<open>joinTerms\<close> (lines 6--8)
    and \<open>flattenQueries\<close> (lines 10--17) with adapter-mongoose's copy (its lines
    5--16), and the specification's join contract.
  \<^item> \<open>Exclusion\<close>: lines 25--27 and 88--93, with the branch objects rendered as
    the JavaScript objects the parser builds, so that \<open>({ field }) => field\<close> is
    an ordinary property read; the specification's contract \<open>exclude_spec\<close> beside
    it, with the exact condition under which the code meets it.
  \<^item> \<open>Shortcut\<close>: the relationship shortcut of both variants (join-builder
    lines 54--74, adapter-mongoose lines 48--70): the guard, the suffix found by
    \<open>key.replace\<close> or by the regular-expression split (a greedy, backtracking
    matcher of \<open>(\_some|\_every|\_none)+$\<close> under the \<open>m\<close> flag), the
    \<open>queryCondition\<close> chain over a \<open>suffix_table\<close>, and the decision table
    (\<open>table_op\<close>) the chain implements.
  \<^item> \<open>Parser\<close>: \<open>queryParser\<close> itself as four mutually recursive functions
    (\<open>query_parser\<close>, \<open>parse_entries\<close> for the \<open>Object.entries\<close> map,
    \<open>parse_entry\<close> for the per-key callback, \<open>parse_list\<close> for the
    \<open>AND\<close>/\<open>OR\<close> array map), with a termination proof by a size measure on the
    filter; \<open>variant\<close> selects the modifier list and the shortcut, so that
    \<open>query_parser_jb\<close> and \<open>query_parser_mg\<close> are the two programs.  The key
    dispatch of lines 30--85 is the classification \<open>classify_key\<close> with one
    rewrite rule per class (\<open>parser_simps\<close>) and an elimination rule
    \<open>parse_entry_InrE\<close> listing what a successful step can have done; the
    history invariants, a demonstration environment \<open>demo_env\<close> and the
    functional properties of the walk follow.
  \<^item> \<open>Results\<close>: the shape of the results: the typing judgement
    \<open>wf_rel\<close>/\<open>wf_result\<close> every result satisfies, the depth of the
    relationship tree against the nesting of the filter (\<open>jdepth\<close>), and the
    number of tokens drawn against the objects of the filter (\<open>jobjs\<close>).
  \<^item> \<open>Errors\<close>: the JavaScript exceptions on values of the wrong shape, the
    propagation of errors in key order (\<open>parse_entries_append\<close>), and progress:
    \<open>shape_ok\<close> excludes every shape that raises, and with collaborators that do not
    throw (\<open>collaborators_total\<close>) every such filter compiles.
  \<^item> \<open>Compilation\<close>: the meaning of match terms (\<open>match_eval\<close>, MongoDB's
    \<open>$and\<close>/\<open>$or\<close> over predicates, the absent term holding everywhere) and of
    filters (\<open>filter_sem\<close>, specification section 4.1), both taken from the
    specification, and the correctness of the compiler against them on the filters
    of leaf keys and \<open>AND\<close>/\<open>OR\<close> arrays (\<open>plain_filter\<close>), proved by one
    simultaneous induction over the four functions of the walk
    (\<open>parser_compiled_as\<close>).
  \<^item> \<open>Semantics\<close>: a model of the data the pipeline runs on, taken from the
    specification (related records, the join path, MongoDB comparisons on an array
    field), against which the shortcut's conditions are compared with the join.

  \<^bold>\<open>State, errors, collaborators.\<close>  The parser is a pure function except for
  the uid generator (\<open>cuid\<close> by default), which is stateful; it is modelled by
  its history (the tokens issued so far), threaded through the walk in JavaScript
  evaluation order.  Every \<open>throw\<close> and every runtime TypeError the code can hit
  (\<open>value.map\<close> on a non-array, \<open>value.id_in.map\<close> on a non-array) is a value
  \<open>Inl e\<close> of the result type \<open>error + _\<close>; errors of the tokenizers and of the
  ObjectId constructor are propagated unchanged.  The tokenizers, the ObjectId
  constructor and the generator are fields of the record \<open>env\<close> and are
  arbitrary: every theorem holds for all of them unless it states an assumption.

  \<^bold>\<open>What is proved.\<close>  For the parser: the implicit conjunction of leaf keys and
  the order of modifier stages, the compilation of \<open>AND\<close>/\<open>OR\<close>, the identity
  pass-through, the error for a non-object filter with its path, the shortcut's
  application and non-application, the exclusion list, that the history records
  every token drawn and every branch token among them in walk order, whatever the
  generator, and that a generator that never repeats itself gives distinct correlation
  tokens to the branch tree (invariants of the history, proved once for every
  property one draw keeps), and that the conjunction of leaves does not depend on the order of the keys
  (as multisets of conjuncts, \<open>and_terms\<close>).  For the results: every result is well-formed, its branch
  tree is shallower than the filter, and fewer tokens are drawn than the filter has
  objects.  For errors: the \<open>map\<close> TypeErrors, that the first failing key's
  error is the result, and that a compile of a well-shaped filter returns a result
  when its collaborators do not throw (\<open>Errors.query_parser_progress\<close>).  For the joiner: idempotence of flattening, refinement of the
  specification's join contract, that no combinator node wraps fewer than two
  terms, and that adapter-mongoose's copy of the joiner is join-builder's
  (\<open>flatten_queries_mg_eq\<close>).  For the meaning: the compiled match term of a
  filter of leaves and \<open>AND\<close>/\<open>OR\<close> arrays evaluates to the filter's meaning
  when every \<open>OR\<close> alternative has a leaf
  (\<open>Compilation.query_parser_refines_filter_sem\<close>), and in general an \<open>OR\<close>
  compiles to the disjunction of its alternatives that have a leaf, or to no
  constraint when none has one (\<open>Compilation.query_parser_or_vacuous\<close>), which
  differs from the disjunction for \<open>{OR: []}\<close> and for a leafless alternative.  For the shortcut: its tables against the specification's, the
  regular-expression split, and soundness against the join on the cells where the
  specification's table is sound, for the optimizer alone and, in the root theory,
  for the match term of a whole compile of either variant
  (\<open>query_parser_single_shortcut\<close> recovers the shortcut from a result with no
  branch), and exactly which cells of the code's tables agree with the join on every
  dataset (\<open>Semantics.code_cells_sound_iff\<close>).  Several theorems record where code
  and specification disagree (the exclusion list, the \<open>some\<close> typo, the errors
  without path, the unsound cells of the tables, the empty and vacuous \<open>OR\<close>).

  \<^bold>\<open>Termination and bounds.\<close>  No fuel is needed: \<open>query_parser\<close> terminates on
  every input (measure \<open>3 * jsize\<close> of the value being walked), and the regular
  expression matcher \<open>chain_end\<close> by the length of the remaining key.  The
  specification's warning about unbounded nesting depth concerns the JavaScript
  stack, which the model does not have; the depth of the recursion is bounded by
  \<open>jdepth\<close> of the filter (\<open>Results\<close>).

  These are the \<open>termination\<close> proofs the function package requires of the
  definitions; no separate theorem restates them.

  \<^bold>\<open>Not modelled.\<close>  The tokenizers (\<open>tokenizers.js\<close> is not among the
  sources), the pipeline assembly that consumes the result, and the ObjectId
  constructor are parameters, not definitions.  JavaScript numbers are integers
  (the parser never computes with them); objects are assumed to have distinct keys
  and to list them in \<open>Object.entries\<close> order; line terminators U+2028/U+2029 of
  the \<open>m\<close> flag are not representable in the byte-string model of keys.  The meaning
  of filters in \<open>Compilation\<close> covers leaf keys and \<open>AND\<close>/\<open>OR\<close> arrays only:
  a relationship branch is answered by the downstream join, which is not in the
  sources (its shortcut is compared with the join in \<open>Semantics\<close>), and modifier
  stages shape the result after the join rather than filter it.  adapter-mongoose
  hands the generator itself to the relationship tokenizer (its line 46) where
  join-builder draws \<open>getUID(key)\<close> (line 51); since \<open>tokenizers.js\<close> is not in
  the sources, the model assumes the tokenizer draws exactly one token there, so both
  variants share one walk.  adapter-mongoose has no \<open>cuid\<close> default for
  \<open>getUID\<close>; the generator is always a parameter of \<open>env\<close>.
\<close>

text \<open>
  C26: The shortcut through the whole compiler: when the join-builder parser compiles a
  filter whose only key is a relationship with an identity predicate on a sound cell
  and records no branch, the match term of the compiled filter evaluates on every
  document to what the full join computes (specification section 8, "shortcut
  equivalence", for the compiler's output rather than the optimizer's).
\<close>

theorem query_parser_shortcut_sound:
  assumes run: "query_parser_jb env (JObj [(k, JObj [(id_key op, i)])]) p incl h = Inr (r, h')"
    and cls: "classify_key JoinBuilder k (JObj [(id_key op, i)]) = KRelationship"
    and nb: "relationships r = []"
    and tok: "rel_tok env k (p @ [PKey k]) (get_uid env k h) = Inr (mt, info)"
    and k: "k = ri_field info @ key_suffix qn"
    and "truthy i" "sound_cell qn op" "operand (object_id env) op i = Inr oi"
    and "qn = QOne \<longrightarrow> length (doc (ri_field info)) \<le> 1"
  shows "eval_condition doc (matchTerm r) = Some (join_holds qn op oi (doc (ri_field info)))"
proof -
  obtain mt' info' where tok': "rel_tok env k (p @ [PKey k]) (get_uid env k h) = Inr (mt', info')"
    and sc: "shortcut JoinBuilder env k info' (JObj [(id_key op, i)]) = Inr (Some (matchTerm r))"
    using run cls nb unfolding query_parser_jb_def by (rule query_parser_single_shortcut)
  have "info' = info" using tok tok' by simp
  then have "shortcut_jb (object_id env) (ri_field info @ key_suffix qn) info (JObj [(id_key op, i)]) =
      Inr (Some (matchTerm r))" using sc k by simp
  then show ?thesis using shortcut_jb_cond_sound [where doc = doc] assms(6-9) by blast
qed


theorem query_parser_shortcut_sound_witness:
  "query_parser_jb demo_env (JObj [(''author'', JObj [(''id'', JStr ''7'')])]) [] JUndefined [] =
     Inr (\<lparr>matchTerm = JObj [(''author'', JObj [(''$eq'', JStr ''7'')])], postJoinPipeline = [],
           relationships = [], excludeFields = [''x'', ''y'', ''z'']\<rparr>, [''u'']) \<and>
   eval_condition (\<lambda>f. [JStr ''7'']) (JObj [(''author'', JObj [(''$eq'', JStr ''7'')])]) =
     Some (join_holds QOne OpEq (JStr ''7'') [JStr ''7'']) \<and>
   join_holds QOne OpEq (JStr ''7'') [JStr ''7'']"
proof -
  have run: "query_parser_jb demo_env (JObj [(''author'', JObj [(''id'', JStr ''7'')])]) [] JUndefined [] =
     Inr (\<lparr>matchTerm = JObj [(''author'', JObj [(''$eq'', JStr ''7'')])], postJoinPipeline = [],
           relationships = [], excludeFields = [''x'', ''y'', ''z'']\<rparr>, [''u''])"
    by (simp add: query_parser_jb_def parser_simps classify_key_def exclude_fields_ignores_branches
        flat_query.defs shortcut_jb_def shortcut_applies_def query_condition_def condition_result_def
        table_jb_def Let_def)
  have c: "classify_key JoinBuilder ''author'' (JObj [(id_key OpEq, JStr ''7'')]) = KRelationship"
    by (simp add: classify_key_def)
  have tok: "rel_tok demo_env ''author'' ([] @ [PKey ''author'']) (get_uid demo_env ''author'' []) =
      Inr (JObj [(''u'', JBool True)], \<lparr>ri_field = ''author'', ri_many = True, ri_uid = ''u''\<rparr>)"
    by simp
  have "eval_condition (\<lambda>f. [JStr ''7'']) (JObj [(''author'', JObj [(''$eq'', JStr ''7'')])]) =
      Some (join_holds QOne OpEq (JStr ''7'') [JStr ''7''])"
    using query_parser_shortcut_sound [OF _ c _ tok, where qn = QOne and oi = "JStr ''7''" and incl = JUndefined
        and doc = "\<lambda>f. [JStr ''7'']"] run by simp
  then show ?thesis using run by (simp add: join_holds_def)
qed

text \<open>
  C29: The same through the adapter-mongoose compiler, on keys made of a plain field name
  and a quantifier suffix: when the only key is a relationship with an identity
  predicate on a sound cell and no branch is recorded, the compiled match term
  evaluates on every document to the full join's answer on that field.
\<close>

theorem query_parser_mg_shortcut_sound:
  assumes run: "query_parser_mg env (JObj [(b @ key_suffix qn, JObj [(id_key op, i)])]) p incl h = Inr (r, h')"
    and cls: "classify_key Mongoose (b @ key_suffix qn) (JObj [(id_key op, i)]) = KRelationship"
    and nb: "relationships r = []"
    and "CHR ''_'' \<notin> set b" "truthy i" "sound_cell qn op" "operand (object_id env) op i = Inr oi"
    and "qn = QOne \<longrightarrow> length (doc b) \<le> 1"
  shows "eval_condition doc (matchTerm r) = Some (join_holds qn op oi (doc b))"
proof -
  obtain mt info where
    "shortcut Mongoose env (b @ key_suffix qn) info (JObj [(id_key op, i)]) = Inr (Some (matchTerm r))"
    using run cls nb unfolding query_parser_mg_def by (rule query_parser_single_shortcut)
  then have "shortcut_mg (object_id env) (b @ key_suffix qn) (JObj [(id_key op, i)]) = Inr (Some (matchTerm r))"
    by simp
  then show ?thesis using shortcut_mg_cond_sound [where doc = doc] assms(4-8) by blast
qed

theorem query_parser_mg_shortcut_sound_witness:
  "query_parser_mg demo_env (JObj [(''posts_some'', JObj [(''id_in'', JArr [JStr ''2''])])]) [] JUndefined [] =
     Inr (\<lparr>matchTerm = JObj [(''posts'', JObj [(''$in'', JArr [JStr ''2''])])], postJoinPipeline = [],
           relationships = [], excludeFields = [''x'', ''y'', ''z'']\<rparr>, [''u'']) \<and>
   eval_condition (\<lambda>f. [JStr ''1'', JStr ''2'']) (JObj [(''posts'', JObj [(''$in'', JArr [JStr ''2''])])]) =
     Some (join_holds QSome OpIn (JArr [JStr ''2'']) [JStr ''1'', JStr ''2'']) \<and>
   join_holds QSome OpIn (JArr [JStr ''2'']) [JStr ''1'', JStr ''2'']"
proof -
  have sc: "shortcut_mg (\<lambda>x. Inr x) (''posts'' @ key_suffix QSome) (JObj [(id_key OpIn, JArr [JStr ''2''])]) =
      Inr (Some (JObj [(''posts'', JObj [(''$in'', JArr [JStr ''2''])])]))"
    using shortcut_mg_on_key [where b = "''posts''" and i = "JArr [JStr ''2'']" and oid = "\<lambda>x. Inr x"
        and q = QSome and op = OpIn]
    by (simp add: table_mg_def object_ids_def)
  have run: "query_parser_mg demo_env (JObj [(''posts'' @ key_suffix QSome, JObj [(id_key OpIn, JArr [JStr ''2''])])]) []
      JUndefined [] =
     Inr (\<lparr>matchTerm = JObj [(''posts'', JObj [(''$in'', JArr [JStr ''2''])])], postJoinPipeline = [],
           relationships = [], excludeFields = [''x'', ''y'', ''z'']\<rparr>, [''u''])"
    using sc by (simp add: query_parser_mg_def parser_simps classify_key_def exclude_fields_ignores_branches
        flat_query.defs Let_def)
  have c: "classify_key Mongoose (''posts'' @ key_suffix QSome) (JObj [(id_key OpIn, JArr [JStr ''2''])]) = KRelationship"
    by (simp add: classify_key_def)
  have o: "operand (object_id demo_env) OpIn (JArr [JStr ''2'']) = Inr (JArr [JStr ''2''])"
    by (simp add: object_ids_def)
  have "eval_condition (\<lambda>f. [JStr ''1'', JStr ''2'']) (JObj [(''posts'', JObj [(''$in'', JArr [JStr ''2''])])]) =
      Some (join_holds QSome OpIn (JArr [JStr ''2'']) [JStr ''1'', JStr ''2''])"
    using query_parser_mg_shortcut_sound [OF run c _ _ _ _ o, where doc = "\<lambda>f. [JStr ''1'', JStr ''2'']"] by simp
  then show ?thesis using run by (simp add: join_holds_def)
qed

end
